theory Spec2Isabelle
  imports Complex_Main "HOL-Library.AList"
begin

section \<open>Python values used by the detector\<close>

text \<open>
  A Python \<open>str\<close> is a sequence of Unicode code points; a text is modelled as the list
  of its code points. Language codes and dictionary keys are identifiers and are
  modelled as HOL strings. A finite Python float is modelled as a real number; the
  infinities and nan are added in the section on doubles.
\<close>

type_synonym ustring = "nat list"

text \<open>
  The exceptions the code can raise: \<open>scores[k] += n\<close> on a missing key, \<open>max\<close> of an
  empty sequence, a division by zero, and whatever the truth test \<open>not text\<close> of an
  argument raises.
\<close>

datatype error = KeyError string | ValueError | ZeroDivisionError | TruthTestError

definition ebind :: "error + 'a \<Rightarrow> ('a \<Rightarrow> error + 'b) \<Rightarrow> error + 'b" where
  "ebind m f = (case m of Inl e \<Rightarrow> Inl e | Inr x \<Rightarrow> f x)"

text \<open>A \<open>for\<close> loop whose body may raise: the first exception ends the loop.\<close>

fun foldM :: "('a \<Rightarrow> 's \<Rightarrow> error + 's) \<Rightarrow> 'a list \<Rightarrow> 's \<Rightarrow> error + 's" where
  "foldM f [] s = Inr s"
| "foldM f (x # xs) s = ebind (f x s) (foldM f xs)"

subsection \<open>Dictionaries\<close>

text \<open>
  A \<open>dict\<close> keeps its keys in insertion order, each key once: an association list.
  \<open>d[k] = v\<close> is \<open>AList.update k v d\<close> (in place for a key already there, at the end for a
  new one) and \<open>del d[k]\<close> is \<open>AList.delete k d\<close>.
\<close>

type_synonym ('k, 'v) dict = "('k \<times> 'v) list"

definition dict_get :: "('k, 'v) dict \<Rightarrow> 'k \<Rightarrow> 'v \<Rightarrow> 'v" where
  \<comment> \<open>\<open>d.get(k, default)\<close>\<close>
  "dict_get d k dflt = (case map_of d k of None \<Rightarrow> dflt | Some v \<Rightarrow> v)"

definition dict_from_keys :: "'k list \<Rightarrow> 'v \<Rightarrow> ('k, 'v) dict" where
  \<comment> \<open>\<open>{k: v for k in ks}\<close>\<close>
  "dict_from_keys ks v = fold (\<lambda>k d. AList.update k v d) ks []"

definition dict_add :: "(string, nat) dict \<Rightarrow> string \<Rightarrow> nat \<Rightarrow> error + (string, nat) dict" where
  \<comment> \<open>\<open>d[k] += n\<close>: reads \<open>d[k]\<close> first, so a missing key raises\<close>
  "dict_add d k n =
     (case map_of d k of
        None \<Rightarrow> Inl (KeyError k)
      | Some v \<Rightarrow> Inr (AList.update k (v + n) d))"

subsection \<open>String operations of the standard library\<close>

text \<open>
  \<open>str.isspace\<close> of one code point; the regular expression class \<open>\s\<close>,
  \<open>str.strip()\<close> and \<open>str.split()\<close> all use it.
\<close>

definition is_space :: "nat \<Rightarrow> bool" where
  "is_space c \<longleftrightarrow>
     (9 \<le> c \<and> c \<le> 13) \<or> (28 \<le> c \<and> c \<le> 32) \<or> c = 133 \<or> c = 160 \<or> c = 5760 \<or>
     (8192 \<le> c \<and> c \<le> 8202) \<or> c = 8232 \<or> c = 8233 \<or> c = 8239 \<or> c = 8287 \<or> c = 12288"

text \<open>
  The Unicode tables behind \<open>str.lower()\<close> and \<open>str.isalnum()\<close> are parameters of the
  model: every theorem holds for any tables.
\<close>

record unicode =
  str_lower :: "ustring \<Rightarrow> ustring"
  is_alnum :: "nat \<Rightarrow> bool"

definition is_word :: "unicode \<Rightarrow> nat \<Rightarrow> bool" where
  \<comment> \<open>the class \<open>\w\<close>: alphanumeric or the underscore\<close>
  "is_word U c \<longleftrightarrow> is_alnum U c \<or> c = 95"

definition sub_punctuation :: "unicode \<Rightarrow> ustring \<Rightarrow> ustring" where
  \<comment> \<open>\<open>re.sub(r'[^\w\s]', ' ', text)\<close>\<close>
  "sub_punctuation U text = map (\<lambda>c. if is_word U c \<or> is_space c then c else 32) text"

function sub_spaces :: "ustring \<Rightarrow> ustring" where
  \<comment> \<open>\<open>re.sub(r'\s+', ' ', text)\<close>: every maximal run of whitespace becomes one space\<close>
  "sub_spaces [] = []"
| "sub_spaces (c # cs) =
     (if is_space c then 32 # sub_spaces (dropWhile is_space cs) else c # sub_spaces cs)"
  by pat_completeness auto
termination
  by (relation "measure length") (auto simp: less_Suc_eq_le length_dropWhile_le)

definition str_strip :: "ustring \<Rightarrow> ustring" where
  "str_strip text = rev (dropWhile is_space (rev (dropWhile is_space text)))"

function str_split :: "ustring \<Rightarrow> ustring list" where
  \<comment> \<open>\<open>text.split()\<close>: the maximal runs of non-whitespace\<close>
  "str_split [] = []"
| "str_split (c # cs) =
     (if is_space c then str_split cs
      else takeWhile (\<lambda>x. \<not> is_space x) (c # cs) # str_split (dropWhile (\<lambda>x. \<not> is_space x) cs))"
  by pat_completeness auto
termination
  by (relation "measure length") (auto simp: less_Suc_eq_le length_dropWhile_le)

fun count_from :: "'a list \<Rightarrow> 'a list \<Rightarrow> nat" where
  \<comment> \<open>the scan of \<open>str.count\<close> for a non-empty pattern: after a match it resumes behind the match\<close>
  "count_from sub [] = 0"
| "count_from sub (c # cs) =
     (if sub \<noteq> [] \<and> take (length sub) (c # cs) = sub
      then Suc (count_from sub (drop (length sub - 1) cs))
      else count_from sub cs)"

definition str_count :: "'a list \<Rightarrow> 'a list \<Rightarrow> nat" where
  \<comment> \<open>\<open>text.count(sub)\<close>: non-overlapping occurrences; the empty pattern occurs \<open>len(text) + 1\<close> times\<close>
  "str_count text sub = (if sub = [] then length text + 1 else count_from sub text)"

definition endswith :: "'a list \<Rightarrow> 'a list \<Rightarrow> bool" where
  "endswith word ending \<longleftrightarrow>
     length ending \<le> length word \<and> drop (length word - length ending) word = ending"

section \<open>LangDefLib.py: language profiles\<close>

text \<open>
  The \<open>data\<close> dictionary handed to \<open>LanguageData\<close>: every key may be missing
  (\<open>data.get(key, default)\<close>).
\<close>

record raw_data =
  raw_unique_letters :: "ustring list option"
  raw_frequent_letters :: "ustring list option"
  raw_word_endings :: "ustring list option"
  raw_marker_words :: "ustring list option"
  raw_digrams :: "ustring list option"
  raw_trigrams :: "ustring list option"
  raw_alphabet :: "ustring list option"
  raw_weights :: "(string, real) dict option"

record LanguageData =
  name :: string
  unique_letters :: "ustring set"
  frequent_letters :: "ustring set"
  word_endings :: "ustring list"
  marker_words :: "ustring set"
  digrams :: "ustring list"
  trigrams :: "ustring list"
  alphabet :: "ustring set"
  weights :: "(string, real) dict"

definition default_weights :: "(string, real) dict" where
  "default_weights =
     [(''unique_letters'', 2.0), (''frequent_letters'', 1.0), (''word_endings'', 1.5),
      (''marker_words'', 3.0), (''digrams'', 1.0), (''trigrams'', 1.2)]"

definition get_or :: "'a option \<Rightarrow> 'a \<Rightarrow> 'a" where
  "get_or v dflt = (case v of None \<Rightarrow> dflt | Some x \<Rightarrow> x)"

definition LanguageData_init :: "string \<Rightarrow> raw_data \<Rightarrow> LanguageData" where
  "LanguageData_init nm data =
     \<lparr> name = nm,
       unique_letters = set (get_or (raw_unique_letters data) []),
       frequent_letters = set (get_or (raw_frequent_letters data) []),
       word_endings = get_or (raw_word_endings data) [],
       marker_words = set (get_or (raw_marker_words data) []),
       digrams = get_or (raw_digrams data) [],
       trigrams = get_or (raw_trigrams data) [],
       alphabet = set (get_or (raw_alphabet data) []),
       weights = get_or (raw_weights data) default_weights \<rparr>"

subsection \<open>The built-in profiles\<close>

definition russian_unique_letters :: "ustring list" where
  "russian_unique_letters =
    [[1099], [1098], [1101]]"

definition russian_frequent_letters :: "ustring list" where
  "russian_frequent_letters =
    [[1099], [1098], [1101], [1105]]"

definition russian_word_endings :: "ustring list" where
  "russian_word_endings =
    [[1086, 1075, 1086], [1077, 1075, 1086], [1086, 1084, 1091], [1077, 1084, 1091], [1086,
     1081], [1099, 1081], [1080, 1081], [1090, 1100, 1089, 1103], [1090, 1089, 1103],
     [1077, 1096, 1100], [1077, 1090], [1077, 1084], [1077, 1090, 1077], [1091, 1090],
     [1102, 1090], [1103, 1090], [1072, 1090, 1100], [1080, 1090, 1100], [1086, 1090,
     1100], [1091, 1090, 1100], [1077, 1090, 1100], [1099, 1093], [1080, 1093]]"

definition russian_marker_words :: "ustring list" where
  "russian_marker_words =
    [[1101, 1090, 1086], [1080, 1083, 1080], [1082, 1072, 1082], [1082, 1086, 1090, 1086,
     1088, 1099, 1081], [1075, 1076, 1077], [1082, 1086, 1075, 1076, 1072], [1089, 1083,
     1086, 1074, 1085, 1086], [1087, 1086, 1090, 1086, 1084, 1091], [1082, 1090, 1086],
     [1090, 1072, 1082, 1078, 1077], [1086, 1090], [1080, 1079], [1076, 1086], [1074],
     [1087, 1088, 1080], [1076, 1083, 1103], [1080], [1085, 1086], [1086, 1076, 1085,
     1072, 1082, 1086], [1093, 1086, 1090, 1103], [1095, 1090, 1086, 1073, 1099], [1077,
     1089, 1083, 1080], [1080, 1079, 45, 1079, 1072], [1087, 1086, 1101, 1090, 1086,
     1084, 1091], [1077, 1097, 1105], [1076, 1072], [1085, 1077, 1090], [1073, 1099,
     1083], [1073, 1099, 1083, 1072], [1073, 1099, 1083, 1086], [1073, 1099, 1083, 1080]]"

definition russian_digrams :: "ustring list" where
  "russian_digrams =
    [[1090, 1100], [1090, 1089], [1089, 1082], [1099, 1081], [1080, 1081], [1090, 1100,
     1089], [1090, 1100, 1089, 1103], [1090, 1089], [1085, 1085], [1078, 1080], [1096,
     1080], [1095, 1085], [1095, 1082], [1085, 1080], [1085, 1077], [1085, 1072], [1087,
     1086], [1074, 1099], [1079, 1072], [1095, 1090, 1086], [1083, 1080], [1086, 1081],
     [1086, 1084]]"

definition russian_trigrams :: "ustring list" where
  "russian_trigrams =
    [[1090, 1089, 1103], [1090, 1100, 1089, 1103], [1072, 1085, 1080], [1077, 1085, 1080],
     [1086, 1089, 1090], [1089, 1090, 1074], [1085, 1080, 1077]]"

definition russian_alphabet :: "ustring" where
  "russian_alphabet =
    [1072, 1073, 1074, 1075, 1076, 1077, 1105, 1078, 1079, 1080, 1081, 1082, 1083, 1084,
     1085, 1086, 1087, 1088, 1089, 1090, 1091, 1092, 1093, 1094, 1095, 1096, 1097, 1098,
     1099, 1100, 1101, 1102, 1103]"

definition ukrainian_unique_letters :: "ustring list" where
  "ukrainian_unique_letters =
    [[1108], [1110], [1111], [1169]]"

definition ukrainian_frequent_letters :: "ustring list" where
  "ukrainian_frequent_letters =
    [[1110], [1108], [1111], [1169], [1100]]"

definition ukrainian_word_endings :: "ustring list" where
  "ukrainian_word_endings =
    [[1086, 1102], [1086, 1102], [1086, 1075, 1086], [1086, 1111], [1080, 1081], [1110,
     1081], [1080, 1089, 1103], [1080, 1089, 1100], [1090, 1100, 1089, 1103], [1090,
     1100, 1089, 1103], [1077, 1090, 1100, 1089, 1103], [1080, 1090, 1100, 1089, 1103],
     [1102, 1090, 1100, 1089, 1103], [1091, 1102, 1090, 1100, 1089, 1103], [1110, 1090,
     1080], [1072, 1090, 1080], [1080, 1090, 1080], [1091, 1090, 1080], [1103, 1090,
     1080], [1077, 1084, 1086], [1108, 1090, 1077], [1108, 1084, 1086]]"

definition ukrainian_marker_words :: "ustring list" where
  "ukrainian_marker_words =
    [[1094, 1077], [1072, 1073, 1086], [1095, 1080], [1097, 1086], [1103, 1082], [1103, 1082,
     1080, 1081], [1082, 1086, 1090, 1088, 1080, 1081], [1076, 1077], [1082, 1086, 1083,
     1080], [1085, 1072, 1095, 1077], [1073, 1086], [1090, 1086, 1084, 1091], [1093,
     1090, 1086], [1090, 1072, 1082, 1086, 1078], [1074, 1110, 1076], [1079], [1110,
     1079], [1079, 1110], [1076, 1086], [1091], [1087, 1088, 1080], [1076, 1083, 1103],
     [1090, 1072], [1110], [1081], [1072, 1083, 1077], [1087, 1088, 1086, 1090, 1077],
     [1086, 1076, 1085, 1072, 1082], [1093, 1086, 1095, 1072], [1097, 1086, 1073],
     [1103, 1082, 1097, 1086], [1082, 1086, 1083, 1080], [1095, 1077, 1088, 1077, 1079],
     [1090, 1086, 1084, 1091], [1097, 1077], [1090, 1072, 1082], [1085, 1110], [1085,
     1077], [1108], [1073, 1091, 1074], [1073, 1091, 1083, 1072], [1073, 1091, 1083,
     1086], [1073, 1091, 1083, 1080]]"

definition ukrainian_digrams :: "ustring list" where
  "ukrainian_digrams =
    [[1090, 1100], [1085, 1085], [1089, 1100, 1082], [1080, 1081], [1110, 1081], [1090, 1100,
     1089], [1100, 1089], [1100, 1082], [1085, 1085], [1076, 1079], [1076, 1078], [1169,
     1091], [1094, 1110], [1085, 1077], [1085, 1072], [1087, 1086], [1074, 1080], [1079,
     1072], [1097, 1086], [1095, 1080], [1086, 1111], [1086, 1102]]"

definition ukrainian_trigrams :: "ustring list" where
  "ukrainian_trigrams =
    [[1085, 1085, 1103], [1089, 1100, 1082], [1110, 1089, 1090, 1100], [1091, 1074, 1072],
     [1110, 1089, 1090], [1102, 1090, 1100]]"

definition ukrainian_alphabet :: "ustring" where
  "ukrainian_alphabet =
    [1072, 1073, 1074, 1075, 1169, 1076, 1077, 1108, 1078, 1079, 1080, 1110, 1111, 1081,
     1082, 1083, 1084, 1085, 1086, 1087, 1088, 1089, 1090, 1091, 1092, 1093, 1094, 1095,
     1096, 1097, 1100, 1102, 1103]"

definition belarusian_unique_letters :: "ustring list" where
  "belarusian_unique_letters =
    [[1118], [1110], [1100]]"

definition belarusian_frequent_letters :: "ustring list" where
  "belarusian_frequent_letters =
    [[1118], [1110], [1100]]"

definition belarusian_word_endings :: "ustring list" where
  "belarusian_word_endings =
    [[1072, 1094, 1100], [1103, 1094, 1100], [1077, 1094, 1100], [1110, 1094, 1100], [1099,
     1094, 1100], [1086, 1075, 1072], [1072, 1075, 1072], [1103, 1075, 1086], [1072,
     1081], [1091, 1102], [1102, 1102], [1072, 1084], [1103, 1084], [1072, 1118], [1103,
     1118], [1099], [1110], [1072], [1103]]"

definition belarusian_marker_words :: "ustring list" where
  "belarusian_marker_words =
    [[1075, 1101, 1090, 1072], [1094, 1110], [1103, 1082], [1103, 1082, 1110], [1076, 1079,
     1077], [1082, 1072, 1083, 1110], [1093, 1090, 1086], [1090, 1072, 1082, 1089, 1072,
     1084, 1072], [1072, 1076], [1079], [1076, 1072], [1091], [1087, 1088, 1099], [1076,
     1083, 1103], [1110], [1072, 1083, 1077], [1072, 1076, 1085, 1072, 1082], [1093,
     1086, 1094, 1100], [1082, 1072, 1073], [1082, 1072, 1083, 1110], [1103, 1096, 1095,
     1101], [1090, 1072, 1082], [1085, 1077], [1073, 1099, 1118], [1073, 1099, 1083,
     1072], [1073, 1099, 1083, 1086], [1073, 1099, 1083, 1110]]"

definition belarusian_digrams :: "ustring list" where
  "belarusian_digrams =
    [[1076, 1079], [1094, 1100], [1085, 1085], [1118], [1099], [1110], [1100], [1089, 1082],
     [1072, 1118], [1103, 1118]]"

definition belarusian_trigrams :: "ustring list" where
  "belarusian_trigrams =
    [[1076, 1079, 1100], [1094, 1094, 1072], [1095, 1085, 1099], [1085, 1085, 1077], [1074,
     1072, 1085], [1083, 1100, 1085]]"

definition belarusian_alphabet :: "ustring" where
  "belarusian_alphabet =
    [1072, 1073, 1074, 1075, 1076, 1077, 1105, 1078, 1079, 1110, 1081, 1082, 1083, 1084,
     1085, 1086, 1087, 1088, 1089, 1090, 1091, 1118, 1092, 1093, 1094, 1095, 1096, 1099,
     1100, 1101, 1102, 1103]"

definition english_unique_letters :: "ustring list" where
  "english_unique_letters =
    []"

definition english_frequent_letters :: "ustring list" where
  "english_frequent_letters =
    [[119], [113], [120], [121], [107]]"

definition english_word_endings :: "ustring list" where
  "english_word_endings =
    [[105, 110, 103], [101, 100], [108, 121], [116, 105, 111, 110], [115, 105, 111, 110],
     [109, 101, 110, 116], [110, 101, 115, 115], [105, 116, 121], [97, 110, 99, 101],
     [101, 110, 99, 101], [101, 114], [111, 114], [105, 115, 116], [115], [101, 115]]"

definition english_marker_words :: "ustring list" where
  "english_marker_words =
    [[116, 104, 101], [97, 110, 100], [105, 115], [97, 114, 101], [119, 97, 115], [119, 101,
     114, 101], [98, 101], [98, 101, 101, 110], [116, 111], [111, 102], [105, 110],
     [102, 111, 114], [119, 105, 116, 104], [111, 110], [97, 116], [102, 114, 111, 109],
     [98, 121], [97, 98, 111, 117, 116], [97, 115], [105, 110, 116, 111], [108, 105,
     107, 101], [116, 104, 114, 111, 117, 103, 104], [97, 102, 116, 101, 114], [111,
     118, 101, 114], [98, 101, 116, 119, 101, 101, 110], [111, 117, 116], [98, 117,
     116], [111, 114], [115, 111], [105, 102], [119, 104, 105, 108, 101]]"

definition english_digrams :: "ustring list" where
  "english_digrams =
    [[116, 104], [104, 101], [97, 110], [105, 110], [101, 114], [111, 110], [97, 116], [114,
     101], [101, 100], [110, 100], [116, 111], [111, 114], [101, 97], [116, 105], [97,
     114], [116, 101], [97, 108], [115, 116], [101, 110], [105, 116]]"

definition english_trigrams :: "ustring list" where
  "english_trigrams =
    [[116, 104, 101], [97, 110, 100], [105, 110, 103], [105, 111, 110], [101, 110, 116], [97,
     116, 105], [102, 111, 114], [104, 101, 114], [116, 101, 114], [104, 97, 116]]"

definition english_alphabet :: "ustring" where
  "english_alphabet = map of_char ''abcdefghijklmnopqrstuvwxyz''"

definition polish_unique_letters :: "ustring list" where
  "polish_unique_letters =
    [[261], [281], [322], [324], [243], [347], [378], [380]]"

definition polish_frequent_letters :: "ustring list" where
  "polish_frequent_letters =
    [[261], [281], [322], [324], [243], [347], [378], [380], [99, 122], [115, 122], [114,
     122]]"

definition polish_word_endings :: "ustring list" where
  "polish_word_endings =
    [[97, 263], [261, 263], [101, 263], [121, 263], [347, 263], [111, 347, 99, 105], [111,
     119, 97], [110, 101, 103, 111], [101, 109, 117], [121, 109, 105], [121, 99, 104],
     [101, 103, 111], [101, 109], [99, 105, 101], [117, 106, 261], [97, 106, 261]]"

definition polish_marker_words :: "ustring list" where
  "polish_marker_words =
    [[116, 111], [106, 101, 115, 116], [110, 105, 101], [116, 97, 107], [106, 97, 107], [107,
     116, 243, 114, 121], [103, 100, 122, 105, 101], [107, 105, 101, 100, 121], [111,
     100], [122], [122, 101], [100, 111], [119], [112, 114, 122, 121], [100, 108, 97],
     [105], [97, 108, 101], [106, 101, 100, 110, 97, 107], [99, 104, 111, 99, 105, 97,
     380], [380, 101, 98, 121], [106, 101, 347, 108, 105], [112, 114, 122, 101, 122],
     [119, 105, 281, 99], [106, 101, 115, 122, 99, 122, 101]]"

definition polish_digrams :: "ustring list" where
  "polish_digrams =
    [[99, 122], [115, 122], [114, 122], [100, 122], [99, 104], [110, 105], [99, 105], [261,
     99], [347, 263], [380, 101]]"

definition polish_trigrams :: "ustring list" where
  "polish_trigrams =
    [[110, 105, 101], [112, 114, 122], [111, 119, 97], [347, 99, 105], [99, 122, 110], [100,
     122, 105], [97, 110, 105, 101]]"

definition polish_alphabet :: "ustring" where
  "polish_alphabet =
    [97, 261, 98, 99, 263, 100, 101, 281, 102, 103, 104, 105, 106, 107, 108, 322, 109, 110,
     324, 111, 243, 112, 113, 114, 115, 347, 116, 117, 118, 119, 120, 121, 122, 378,
     380]"

definition raw_of :: "ustring list \<Rightarrow> ustring list \<Rightarrow> ustring list \<Rightarrow> ustring list \<Rightarrow>
    ustring list \<Rightarrow> ustring list \<Rightarrow> ustring \<Rightarrow> raw_data" where
  \<comment> \<open>a built-in entry: seven keys, the alphabet given as one string, no \<open>weights\<close> key\<close>
  "raw_of ul fl we mw dg tg al =
     \<lparr> raw_unique_letters = Some ul, raw_frequent_letters = Some fl, raw_word_endings = Some we,
       raw_marker_words = Some mw, raw_digrams = Some dg, raw_trigrams = Some tg,
       raw_alphabet = Some (map (\<lambda>c. [c]) al), raw_weights = None \<rparr>"

definition russian_data :: raw_data where
  "russian_data =
     raw_of russian_unique_letters russian_frequent_letters russian_word_endings russian_marker_words
       russian_digrams russian_trigrams russian_alphabet"

definition ukrainian_data :: raw_data where
  "ukrainian_data =
     raw_of ukrainian_unique_letters ukrainian_frequent_letters ukrainian_word_endings ukrainian_marker_words
       ukrainian_digrams ukrainian_trigrams ukrainian_alphabet"

definition belarusian_data :: raw_data where
  "belarusian_data =
     raw_of belarusian_unique_letters belarusian_frequent_letters belarusian_word_endings belarusian_marker_words
       belarusian_digrams belarusian_trigrams belarusian_alphabet"

definition english_data :: raw_data where
  "english_data =
     raw_of english_unique_letters english_frequent_letters english_word_endings english_marker_words
       english_digrams english_trigrams english_alphabet"

definition polish_data :: raw_data where
  "polish_data =
     raw_of polish_unique_letters polish_frequent_letters polish_word_endings polish_marker_words
       polish_digrams polish_trigrams polish_alphabet"

definition BUILTIN_LANGUAGE_DATA :: "(string, raw_data) dict" where
  "BUILTIN_LANGUAGE_DATA =
     [(''russian'', russian_data), (''ukrainian'', ukrainian_data),
      (''belarusian'', belarusian_data), (''english'', english_data), (''polish'', polish_data)]"

definition DEFAULT_LANGUAGES :: "string list" where
  "DEFAULT_LANGUAGES = [''russian'', ''ukrainian'']"

definition DEFAULT_DATA_DIR :: string where
  "DEFAULT_DATA_DIR = ''data''"

section \<open>LangDefLib.py: the detector\<close>

text \<open>
  The state of one \<open>LangDetector\<close>. Each detector is modelled with a \<open>languages\<close> list
  of its own; in the source a detector built without \<open>languages\<close> holds the class's
  \<open>DEFAULT_LANGUAGES\<close> list itself.
\<close>

record detector =
  languages :: "string list"
  data_dir :: string
  min_confidence :: real
  language_data :: "(string, LanguageData) dict"

text \<open>
  What reading \<open><data_dir>/<lang>.json\<close> gives: the file does not exist, it holds a
  data dictionary, or opening or parsing it raises.
\<close>

datatype file_status = NoFile | FileData raw_data | LoadError

definition load_builtin :: "string \<Rightarrow> (string, LanguageData) dict \<Rightarrow> (string, LanguageData) dict" where
  "load_builtin lang ld =
     (case map_of BUILTIN_LANGUAGE_DATA lang of
        Some data \<Rightarrow> AList.update lang (LanguageData_init lang data) ld
      | None \<Rightarrow> ld)"

definition load_language_data ::
    "(string \<Rightarrow> string \<Rightarrow> file_status) \<Rightarrow> string \<Rightarrow> string list \<Rightarrow> (string, LanguageData) dict" where
  "load_language_data fs dir langs =
     fold (\<lambda>lang ld.
            case fs dir lang of
              FileData data \<Rightarrow> AList.update lang (LanguageData_init lang data) ld
            | NoFile \<Rightarrow> load_builtin lang ld
            | LoadError \<Rightarrow> load_builtin lang ld)
          langs []"

definition LangDetector_init ::
    "(string \<Rightarrow> string \<Rightarrow> file_status) \<Rightarrow> string list option \<Rightarrow> string option \<Rightarrow> real \<Rightarrow> detector" where
  "LangDetector_init fs langs dir min_conf =
     (let ls = (case langs of None \<Rightarrow> DEFAULT_LANGUAGES | Some [] \<Rightarrow> DEFAULT_LANGUAGES | Some l \<Rightarrow> l);
          dd = (case dir of None \<Rightarrow> DEFAULT_DATA_DIR | Some [] \<Rightarrow> DEFAULT_DATA_DIR | Some p \<Rightarrow> p)
      in \<lparr> languages = ls, data_dir = dd, min_confidence = min_conf,
           language_data = load_language_data fs dd ls \<rparr>)"

definition add_language :: "detector \<Rightarrow> string \<Rightarrow> raw_data \<Rightarrow> detector" where
  "add_language d lang_code data =
     d\<lparr> languages := (if lang_code \<in> set (languages d) then languages d
                        else languages d @ [lang_code]),
        language_data := AList.update lang_code (LanguageData_init lang_code data) (language_data d) \<rparr>"

definition remove_language :: "detector \<Rightarrow> string \<Rightarrow> detector \<times> bool" where
  "remove_language d lang_code =
     (if lang_code \<in> set (languages d)
      then (d\<lparr> languages := remove1 lang_code (languages d),
                language_data := AList.delete lang_code (language_data d) \<rparr>, True)
      else (d, False))"

definition clean_text :: "unicode \<Rightarrow> ustring \<Rightarrow> ustring" where
  "clean_text U text = str_strip (sub_spaces (sub_punctuation U (str_lower U text)))"

subsection \<open>The six feature extractors\<close>

definition count_in :: "ustring set \<Rightarrow> ustring \<Rightarrow> nat" where
  \<comment> \<open>\<open>sum(1 for char in text if char in letters)\<close>\<close>
  "count_in letters text = length (filter (\<lambda>char. [char] \<in> letters) text)"

definition count_unique_letters :: "detector \<Rightarrow> ustring \<Rightarrow> (string, nat) dict" where
  "count_unique_letters d text =
     fold (\<lambda>(lang_code, lang_data) scores.
            AList.update lang_code (count_in (unique_letters lang_data) text) scores)
          (language_data d) []"

definition count_frequent_letters :: "detector \<Rightarrow> ustring \<Rightarrow> (string, nat) dict" where
  "count_frequent_letters d text =
     fold (\<lambda>(lang_code, lang_data) scores.
            AList.update lang_code (count_in (frequent_letters lang_data) text) scores)
          (language_data d) []"

fun has_ending :: "ustring \<Rightarrow> ustring list \<Rightarrow> bool" where
  \<comment> \<open>the loop over the endings, left at the first one that matches\<close>
  "has_ending word [] = False"
| "has_ending word (ending # endings) =
     (if endswith word ending then True else has_ending word endings)"

definition check_word_endings :: "detector \<Rightarrow> ustring list \<Rightarrow> error + (string, nat) dict" where
  "check_word_endings d words =
     foldM (\<lambda>word scores.
             if length word < 3 then Inr scores
             else foldM (\<lambda>(lang_code, lang_data) scores.
                          if has_ending word (word_endings lang_data)
                          then dict_add scores lang_code 1 else Inr scores)
                        (language_data d) scores)
           words (dict_from_keys (languages d) 0)"

definition check_marker_words :: "unicode \<Rightarrow> detector \<Rightarrow> ustring list \<Rightarrow> error + (string, nat) dict" where
  "check_marker_words U d words =
     (let words_lower = map (str_lower U) words
      in foldM (\<lambda>word scores.
                 foldM (\<lambda>(lang_code, lang_data) scores.
                          if word \<in> marker_words lang_data
                          then dict_add scores lang_code 1 else Inr scores)
                       (language_data d) scores)
               words_lower (dict_from_keys (languages d) 0))"

definition check_ngrams :: "unicode \<Rightarrow> detector \<Rightarrow> ustring \<Rightarrow> int \<Rightarrow> error + (string, nat) dict" where
  "check_ngrams U d text n =
     (let text_lower = str_lower U text
      in foldM (\<lambda>(lang_code, lang_data) scores.
                 if n = 2
                 then foldM (\<lambda>digram scores. dict_add scores lang_code (str_count text_lower digram))
                            (digrams lang_data) scores
                 else if n = 3
                 then foldM (\<lambda>trigram scores. dict_add scores lang_code (str_count text_lower trigram))
                            (trigrams lang_data) scores
                 else Inr scores)
               (language_data d) (dict_from_keys (languages d) 0))"

subsection \<open>Weighted scores\<close>

definition calculate_weighted_scores ::
    "detector \<Rightarrow> (string, nat) dict \<Rightarrow> (string, nat) dict \<Rightarrow> (string, nat) dict \<Rightarrow>
     (string, nat) dict \<Rightarrow> (string, nat) dict \<Rightarrow> (string, nat) dict \<Rightarrow> (string, real) dict" where
  "calculate_weighted_scores d unique_l frequent_l endings markers dgs tgs =
     fold (\<lambda>(lang_code, lang_data) scores.
            AList.update lang_code
              (real (dict_get unique_l lang_code 0) * dict_get (weights lang_data) ''unique_letters'' 2.0 +
               real (dict_get frequent_l lang_code 0) * dict_get (weights lang_data) ''frequent_letters'' 1.0 +
               real (dict_get endings lang_code 0) * dict_get (weights lang_data) ''word_endings'' 1.5 +
               real (dict_get markers lang_code 0) * dict_get (weights lang_data) ''marker_words'' 3.0 +
               real (dict_get dgs lang_code 0) * dict_get (weights lang_data) ''digrams'' 1.0 +
               real (dict_get tgs lang_code 0) * dict_get (weights lang_data) ''trigrams'' 1.2)
              scores)
          (language_data d) (dict_from_keys (languages d) 0.0)"

definition sum_values :: "(string, real) dict \<Rightarrow> real" where
  \<comment> \<open>\<open>sum(scores.values())\<close>\<close>
  "sum_values scores = sum_list (map snd scores)"

fun max_by_value :: "(string, real) dict \<Rightarrow> error + (string \<times> real)" where
  \<comment> \<open>\<open>max(scores.items(), key=lambda x: x[1])\<close>: the first item of maximal value\<close>
  "max_by_value [] = Inl ValueError"
| "max_by_value (item # items) =
     Inr (fold (\<lambda>x best. if snd x > snd best then x else best) items item)"

subsection \<open>detect\<close>

record result =
  language :: string
  confidence :: real

definition unknown :: result where
  "unknown = \<lparr> language = ''unknown'', confidence = 0.0 \<rparr>"

text \<open>
  An argument of \<open>detect\<close>: a string (an instance of \<open>str\<close> itself), a value that is
  not a string and whose truth test returns (\<open>None\<close>, a number, a list), or a value
  that is not a string and whose truth test raises (an array of several elements, an
  object whose \<open>__bool__\<close> raises). The guard \<open>not text or not isinstance(text, str)\<close>
  evaluates \<open>not text\<close> first.
\<close>

datatype input = Str ustring | NotStr | NotStrRaising

definition fast_path_condition :: "(string, nat) dict \<Rightarrow> string \<times> nat \<Rightarrow> bool" where
  \<comment> \<open>\<open>score > 0 and all(s == 0 for l, s in unique_scores.items() if l != lang)\<close>\<close>
  "fast_path_condition unique_scores =
     (\<lambda>(lang, score). score > 0 \<and>
        list_all (\<lambda>(l, s). s = 0) (filter (\<lambda>(l, s). l \<noteq> lang) unique_scores))"

definition fast_path :: "(string, nat) dict \<Rightarrow> (string \<times> nat) option" where
  \<comment> \<open>the first item of the loop that meets the condition, if any\<close>
  "fast_path unique_scores = find (fast_path_condition unique_scores) unique_scores"

definition detect :: "unicode \<Rightarrow> detector \<Rightarrow> input \<Rightarrow> error + result" where
  "detect U d inp =
     (case inp of
        NotStrRaising \<Rightarrow> Inl TruthTestError
      | NotStr \<Rightarrow> Inr unknown
      | Str text \<Rightarrow>
         (if text = [] then Inr unknown
          else (let cleaned_text = clean_text U text in
           (if cleaned_text = [] then Inr unknown
            else (let words = str_split cleaned_text in
             (if words = [] then Inr unknown
              else (let unique_scores = count_unique_letters d cleaned_text in
               (case fast_path unique_scores of
                  Some (lang, score) \<Rightarrow> Inr \<lparr> language = lang, confidence = 0.95 \<rparr>
                | None \<Rightarrow>
                   (let frequent = count_frequent_letters d cleaned_text in
                    ebind (check_word_endings d words) (\<lambda>endings.
                    ebind (check_marker_words U d words) (\<lambda>markers.
                    ebind (check_ngrams U d cleaned_text 2) (\<lambda>dgs.
                    ebind (check_ngrams U d cleaned_text 3) (\<lambda>tgs.
                     (let scores = calculate_weighted_scores d unique_scores frequent
                                     endings markers dgs tgs;
                          total_score = sum_values scores
                      in (if total_score = 0 then Inr unknown
                          else ebind (max_by_value scores) (\<lambda>best_lang.
                            (let conf = snd best_lang / total_score
                             in (if conf < min_confidence d
                                 then Inr \<lparr> language = ''unknown'', confidence = conf \<rparr>
                                 else Inr \<lparr> language = fst best_lang,
                                            confidence = conf \<rparr>))))))))))))))))))"



subsection \<open>analyze\<close>

record text_stats =
  text_length :: nat
  cleaned_length :: nat
  word_count :: nat
  average_word_length :: real

record feature_metrics =
  unique_letters_metric :: "(string, nat) dict"
  frequent_letters_metric :: "(string, nat) dict"
  word_endings_metric :: "(string, nat) dict"
  marker_words_metric :: "(string, nat) dict"
  digrams_metric :: "(string, nat) dict"
  trigrams_metric :: "(string, nat) dict"

record top_entry = result +
  score :: real

record report = result +
  stats :: text_stats
  metrics :: feature_metrics
  scores :: "(string, real) dict"
  top_languages :: "top_entry list"

text \<open>\<open>analyze\<close> returns either a dictionary with the single key \<open>error\<close> or the full report.\<close>

datatype analysis = AnalysisError string | Report report

definition sorted_scores :: "(string, real) dict \<Rightarrow> (string, real) dict" where
  \<comment> \<open>\<open>sorted(scores.items(), key=lambda x: x[1], reverse=True)\<close>: stable, largest value first\<close>
  "sorted_scores sc = sort_key (\<lambda>x. - snd x) sc"

definition top3 :: "(string, real) dict \<Rightarrow> real \<Rightarrow> top_entry list" where
  "top3 sc total_score =
     map (\<lambda>(lang, s). \<lparr> language = lang,
                          confidence = (if total_score > 0 then s / total_score else 0),
                          score = s \<rparr>)
         (filter (\<lambda>(lang, s). s > 0) (take 3 (sorted_scores sc)))"

definition analyze :: "unicode \<Rightarrow> detector \<Rightarrow> input \<Rightarrow> error + analysis" where
  "analyze U d inp =
     (case inp of
        NotStrRaising \<Rightarrow> Inl TruthTestError
      | NotStr \<Rightarrow> Inr (AnalysisError ''Empty or invalid text'')
      | Str text \<Rightarrow>
         (if text = [] then Inr (AnalysisError ''Empty or invalid text'')
          else (let cleaned_text = clean_text U text in
           (if cleaned_text = [] then Inr (AnalysisError ''Text contains no analyzable content'')
            else (let words = str_split cleaned_text;
                      unique_l = count_unique_letters d cleaned_text;
                      frequent_l = count_frequent_letters d cleaned_text in
              ebind (check_word_endings d words) (\<lambda>endings.
              ebind (check_marker_words U d words) (\<lambda>markers.
              ebind (check_ngrams U d cleaned_text 2) (\<lambda>dgs.
              ebind (check_ngrams U d cleaned_text 3) (\<lambda>tgs.
               (let sc = calculate_weighted_scores d unique_l frequent_l endings markers dgs tgs;
                    total_score = sum_values sc
                in ebind
                     (if total_score = 0 then Inr unknown
                      else ebind (max_by_value sc) (\<lambda>best_lang.
                        (let conf = snd best_lang / total_score
                         in (if conf < min_confidence d
                             then Inr \<lparr> language = ''unknown'', confidence = conf \<rparr>
                             else Inr \<lparr> language = fst best_lang, confidence = conf \<rparr>))))
                     (\<lambda>res. Inr (Report
                        \<lparr> language = language res, confidence = confidence res,
                          stats = \<lparr> text_length = length text,
                                    cleaned_length = length cleaned_text,
                                    word_count = length words,
                                    average_word_length =
                                      (if words \<noteq> []
                                       then real (sum_list (map length words)) / real (length words)
                                       else 0) \<rparr>,
                          metrics = \<lparr> unique_letters_metric = unique_l,
                                      frequent_letters_metric = frequent_l,
                                      word_endings_metric = endings,
                                      marker_words_metric = markers,
                                      digrams_metric = dgs,
                                      trigrams_metric = tgs \<rparr>,
                          scores = sc,
                          top_languages = top3 sc total_score \<rparr>))))))))))))"

section \<open>LangLib.py: the two-language detector\<close>

definition LangLib_russian_unique :: "ustring list" where
  "LangLib_russian_unique =
    [[1099], [1098], [1101]]"

definition LangLib_ukrainian_unique :: "ustring list" where
  "LangLib_ukrainian_unique =
    [[1108], [1110], [1111], [1169]]"

definition LangLib_uk_frequent :: "ustring list" where
  "LangLib_uk_frequent =
    [[1110], [1108], [1111], [1169], [1100]]"

definition LangLib_ru_frequent :: "ustring list" where
  "LangLib_ru_frequent =
    [[1099], [1098], [1101]]"

definition LangLib_ukrainian_endings :: "ustring list" where
  "LangLib_ukrainian_endings =
    [[1086, 1102], [1086, 1102], [1086, 1075, 1086], [1086, 1111], [1080, 1081], [1110,
     1081], [1080, 1089, 1103], [1080, 1089, 1100], [1090, 1100, 1089, 1103], [1090,
     1100, 1089, 1103], [1077, 1090, 1100, 1089, 1103], [1080, 1090, 1100, 1089, 1103],
     [1102, 1090, 1100, 1089, 1103], [1091, 1102, 1090, 1100, 1089, 1103], [1110, 1090,
     1080], [1072, 1090, 1080], [1080, 1090, 1080], [1091, 1090, 1080], [1103, 1090,
     1080], [1077, 1084, 1086], [1108, 1090, 1077], [1108, 1084, 1086]]"

definition LangLib_russian_endings :: "ustring list" where
  "LangLib_russian_endings =
    [[1086, 1075, 1086], [1077, 1075, 1086], [1086, 1084, 1091], [1077, 1084, 1091], [1086,
     1081], [1099, 1081], [1080, 1081], [1090, 1100, 1089, 1103], [1090, 1089, 1103],
     [1077, 1096, 1100], [1077, 1090], [1077, 1084], [1077, 1090, 1077], [1091, 1090],
     [1102, 1090], [1103, 1090], [1072, 1090, 1100], [1080, 1090, 1100], [1086, 1090,
     1100], [1091, 1090, 1100], [1077, 1090, 1100], [1099, 1093], [1080, 1093]]"

definition LangLib_ukrainian_words :: "ustring list" where
  "LangLib_ukrainian_words =
    [[1094, 1077], [1072, 1073, 1086], [1095, 1080], [1097, 1086], [1103, 1082], [1103, 1082,
     1080, 1081], [1082, 1086, 1090, 1088, 1080, 1081], [1076, 1077], [1082, 1086, 1083,
     1080], [1085, 1072, 1095, 1077], [1073, 1086], [1090, 1086, 1084, 1091], [1093,
     1090, 1086], [1090, 1072, 1082, 1086, 1078], [1074, 1110, 1076], [1079], [1110,
     1079], [1079, 1110], [1076, 1086], [1091], [1087, 1088, 1080], [1076, 1083, 1103],
     [1090, 1072], [1110], [1081], [1072, 1083, 1077], [1087, 1088, 1086, 1090, 1077],
     [1086, 1076, 1085, 1072, 1082], [1093, 1086, 1095, 1072], [1097, 1086, 1073],
     [1103, 1082, 1097, 1086], [1082, 1086, 1083, 1080], [1095, 1077, 1088, 1077, 1079],
     [1090, 1086, 1084, 1091], [1097, 1077], [1090, 1072, 1082], [1085, 1110], [1085,
     1077], [1108], [1073, 1091, 1074], [1073, 1091, 1083, 1072], [1073, 1091, 1083,
     1086], [1073, 1091, 1083, 1080]]"

definition LangLib_russian_words :: "ustring list" where
  "LangLib_russian_words =
    [[1101, 1090, 1086], [1080, 1083, 1080], [1082, 1072, 1082], [1082, 1086, 1090, 1086,
     1088, 1099, 1081], [1075, 1076, 1077], [1082, 1086, 1075, 1076, 1072], [1089, 1083,
     1086, 1074, 1085, 1086], [1087, 1086, 1090, 1086, 1084, 1091], [1082, 1090, 1086],
     [1090, 1072, 1082, 1078, 1077], [1086, 1090], [1080, 1079], [1076, 1086], [1074],
     [1087, 1088, 1080], [1076, 1083, 1103], [1080], [1085, 1086], [1086, 1076, 1085,
     1072, 1082, 1086], [1093, 1086, 1090, 1103], [1095, 1090, 1086, 1073, 1099], [1077,
     1089, 1083, 1080], [1080, 1079, 45, 1079, 1072], [1087, 1086, 1101, 1090, 1086,
     1084, 1091], [1077, 1097, 1105], [1076, 1072], [1085, 1077, 1090], [1073, 1099,
     1083], [1073, 1099, 1083, 1072], [1073, 1099, 1083, 1086], [1073, 1099, 1083, 1080]]"

definition LangLib_ukrainian_digrams :: "ustring list" where
  "LangLib_ukrainian_digrams =
    [[1090, 1100], [1085, 1085], [1089, 1100, 1082], [1080, 1081], [1110, 1081], [1090, 1100,
     1089], [1100, 1089], [1100, 1082], [1085, 1085], [1076, 1079], [1076, 1078], [1169,
     1091], [1094, 1110], [1085, 1077], [1085, 1072], [1087, 1086], [1074, 1080], [1079,
     1072], [1097, 1086], [1095, 1080], [1086, 1111], [1086, 1102]]"

definition LangLib_russian_digrams :: "ustring list" where
  "LangLib_russian_digrams =
    [[1090, 1100], [1090, 1089], [1089, 1082], [1099, 1081], [1080, 1081], [1090, 1100,
     1089], [1090, 1100, 1089, 1103], [1090, 1089], [1085, 1085], [1078, 1080], [1096,
     1080], [1095, 1085], [1095, 1082], [1085, 1080], [1085, 1077], [1085, 1072], [1087,
     1086], [1074, 1099], [1079, 1072], [1095, 1090, 1086], [1083, 1080], [1086, 1081],
     [1086, 1084]]"

definition LangLib_count_unique_letters :: "ustring \<Rightarrow> nat \<times> nat" where
  "LangLib_count_unique_letters text =
     (count_in (set LangLib_russian_unique) text, count_in (set LangLib_ukrainian_unique) text)"

definition LangLib_count_frequent_letters :: "ustring \<Rightarrow> nat \<times> nat" where
  "LangLib_count_frequent_letters text =
     (count_in (set LangLib_ru_frequent) text, count_in (set LangLib_uk_frequent) text)"

definition LangLib_check_word_endings :: "ustring list \<Rightarrow> nat \<times> nat" where
  "LangLib_check_word_endings words =
     fold (\<lambda>word (ru_score, uk_score).
            if length word < 3 then (ru_score, uk_score)
            else (let uk' = (if has_ending word LangLib_ukrainian_endings
                             then uk_score + 1 else uk_score);
                      ru' = (if has_ending word LangLib_russian_endings
                             then ru_score + 1 else ru_score)
                  in (ru', uk')))
          words (0, 0)"

definition LangLib_check_marker_words :: "unicode \<Rightarrow> ustring list \<Rightarrow> nat \<times> nat" where
  "LangLib_check_marker_words U words =
     (let words_lower = map (str_lower U) words
      in fold (\<lambda>word (ru_score, uk_score).
                (let uk' = (if word \<in> set LangLib_ukrainian_words then uk_score + 1 else uk_score);
                     ru' = (if word \<in> set LangLib_russian_words then ru_score + 1 else ru_score)
                 in (ru', uk')))
              words_lower (0, 0))"

definition LangLib_check_digrams :: "unicode \<Rightarrow> ustring \<Rightarrow> nat \<times> nat" where
  "LangLib_check_digrams U text =
     (let text_lower = str_lower U text;
          uk_score = fold (\<lambda>digram s. s + str_count text_lower digram) LangLib_ukrainian_digrams 0;
          ru_score = fold (\<lambda>digram s. s + str_count text_lower digram) LangLib_russian_digrams 0
      in (ru_score, uk_score))"

text \<open>The \<open>details\<close> of a result: the five count pairs and the two scores, Russian first.\<close>

record LangLib_details =
  d_unique_letters :: "nat \<times> nat"
  d_frequent_letters :: "nat \<times> nat"
  d_word_endings :: "nat \<times> nat"
  d_marker_words :: "nat \<times> nat"
  d_digrams :: "nat \<times> nat"
  d_scores :: "real \<times> real"

record LangLib_result = result +
  details :: "LangLib_details option"

definition LangLib_unknown :: LangLib_result where
  "LangLib_unknown = \<lparr> language = ''unknown'', confidence = 0.0, details = None \<rparr>"

definition LangLib_get_confidence :: "unicode \<Rightarrow> input \<Rightarrow> error + LangLib_result" where
  "LangLib_get_confidence U inp =
     (case inp of
        NotStrRaising \<Rightarrow> Inl TruthTestError
      | NotStr \<Rightarrow> Inr LangLib_unknown
      | Str text \<Rightarrow>
         (if text = [] then Inr LangLib_unknown
          else (let cleaned_text = clean_text U text in
           (if cleaned_text = [] then Inr LangLib_unknown
            else (let words = str_split cleaned_text in
             (if words = [] then Inr LangLib_unknown
              else (let (ru_unique, uk_unique) = LangLib_count_unique_letters cleaned_text;
                        (ru_freq, uk_freq) = LangLib_count_frequent_letters cleaned_text;
                        (ru_endings, uk_endings) = LangLib_check_word_endings words;
                        (ru_markers, uk_markers) = LangLib_check_marker_words U words;
                        (ru_digrams, uk_digrams) = LangLib_check_digrams U cleaned_text;
                        ru = real (ru_unique * 2) + real ru_freq + real ru_endings * 1.5
                               + real (ru_markers * 3) + real ru_digrams;
                        uk = real (uk_unique * 2) + real uk_freq + real uk_endings * 1.5
                               + real (uk_markers * 3) + real uk_digrams;
                        total_score = ru + uk
                    in (if total_score = 0 then Inr LangLib_unknown
                        else (let (lang, conf) =
                                    (if ru > uk then (''russian'', ru / total_score)
                                     else (''ukrainian'', uk / total_score))
                              in Inr \<lparr> language = lang, confidence = conf,
                                   details = Some
                                     \<lparr> d_unique_letters = (ru_unique, uk_unique),
                                       d_frequent_letters = (ru_freq, uk_freq),
                                       d_word_endings = (ru_endings, uk_endings),
                                       d_marker_words = (ru_markers, uk_markers),
                                       d_digrams = (ru_digrams, uk_digrams),
                                       d_scores = (ru, uk) \<rparr> \<rparr>)))))))))"

section \<open>Scores as doubles\<close>

text \<open>
  The definitions above compute the scores over the real numbers: they describe the runs
  in which every score is a finite number. A Python float can also be infinite or nan.
  This section repeats the arithmetic of \<open>detect\<close> and \<open>analyze\<close> over doubles whose
  finite values are exact: a result beyond the range of a double becomes an infinity, and
  nan arises as in IEEE 754; the rounding of finite results is not modelled.
\<close>

datatype pyfloat = Finite real | PosInf | NegInf | NaN

definition overflow_threshold :: real where
  \<comment> \<open>the least magnitude that rounds to an infinity\<close>
  "overflow_threshold = 2 ^ 1024 - 2 ^ 970"

definition to_float :: "real \<Rightarrow> pyfloat" where
  "to_float x =
     (if overflow_threshold \<le> x then PosInf
      else if x \<le> - overflow_threshold then NegInf
      else Finite x)"

fun fadd :: "pyfloat \<Rightarrow> pyfloat \<Rightarrow> pyfloat" where
  "fadd NaN y = NaN"
| "fadd x NaN = NaN"
| "fadd (Finite a) (Finite b) = to_float (a + b)"
| "fadd PosInf NegInf = NaN"
| "fadd NegInf PosInf = NaN"
| "fadd PosInf y = PosInf"
| "fadd x PosInf = PosInf"
| "fadd NegInf y = NegInf"
| "fadd x NegInf = NegInf"

definition fneg :: "pyfloat \<Rightarrow> pyfloat" where
  "fneg x = (case x of Finite a \<Rightarrow> Finite (- a) | PosInf \<Rightarrow> NegInf | NegInf \<Rightarrow> PosInf | NaN \<Rightarrow> NaN)"

definition inf_times :: "pyfloat \<Rightarrow> real \<Rightarrow> pyfloat" where
  \<comment> \<open>an infinity times a finite number\<close>
  "inf_times i a = (if a = 0 then NaN else if 0 < a then i else fneg i)"

fun fmul :: "pyfloat \<Rightarrow> pyfloat \<Rightarrow> pyfloat" where
  "fmul NaN y = NaN"
| "fmul x NaN = NaN"
| "fmul (Finite a) (Finite b) = to_float (a * b)"
| "fmul (Finite a) y = inf_times y a"
| "fmul x (Finite b) = inf_times x b"
| "fmul PosInf PosInf = PosInf"
| "fmul NegInf NegInf = PosInf"
| "fmul PosInf NegInf = NegInf"
| "fmul NegInf PosInf = NegInf"

fun fquot :: "pyfloat \<Rightarrow> pyfloat \<Rightarrow> pyfloat" where
  \<comment> \<open>the quotient by a divisor other than zero\<close>
  "fquot NaN y = NaN"
| "fquot x NaN = NaN"
| "fquot (Finite a) (Finite b) = to_float (a / b)"
| "fquot (Finite a) y = Finite 0"
| "fquot x (Finite b) = (if 0 < b then x else fneg x)"
| "fquot x y = NaN"

definition fdiv :: "pyfloat \<Rightarrow> pyfloat \<Rightarrow> error + pyfloat" where
  \<comment> \<open>\<open>x / y\<close>: a float division by zero raises, whatever the dividend\<close>
  "fdiv x y = (if y = Finite 0 then Inl ZeroDivisionError else Inr (fquot x y))"

fun flt :: "pyfloat \<Rightarrow> pyfloat \<Rightarrow> bool" where
  \<comment> \<open>\<open>x < y\<close>: false whenever an operand is nan\<close>
  "flt NaN y = False"
| "flt x NaN = False"
| "flt (Finite a) (Finite b) = (a < b)"
| "flt x NegInf = False"
| "flt PosInf y = False"
| "flt NegInf y = True"
| "flt x PosInf = True"

definition fgt :: "pyfloat \<Rightarrow> pyfloat \<Rightarrow> bool" where
  "fgt x y = flt y x"

definition fle :: "pyfloat \<Rightarrow> pyfloat \<Rightarrow> bool" where
  \<comment> \<open>\<open>x <= y\<close>: false whenever an operand is nan\<close>
  "fle x y \<longleftrightarrow> x \<noteq> NaN \<and> y \<noteq> NaN \<and> \<not> flt y x"

definition weight :: "LanguageData \<Rightarrow> string \<Rightarrow> real \<Rightarrow> pyfloat" where
  \<comment> \<open>\<open>lang_data.weights.get(key, default)\<close>: a finite float (an integer weight counts as
      the float of its value)\<close>
  "weight lang_data key dflt = Finite (dict_get (weights lang_data) key dflt)"

definition count_times :: "(string, nat) dict \<Rightarrow> string \<Rightarrow> pyfloat \<Rightarrow> pyfloat" where
  \<comment> \<open>\<open>counts.get(lang_code, 0) * w\<close>: the count is converted to a float\<close>
  "count_times counts lang_code w = fmul (Finite (real (dict_get counts lang_code 0))) w"

definition calculate_weighted_scores_ieee ::
    "detector \<Rightarrow> (string, nat) dict \<Rightarrow> (string, nat) dict \<Rightarrow> (string, nat) dict \<Rightarrow>
     (string, nat) dict \<Rightarrow> (string, nat) dict \<Rightarrow> (string, nat) dict \<Rightarrow> (string, pyfloat) dict" where
  "calculate_weighted_scores_ieee d unique_l frequent_l endings markers dgs tgs =
     fold (\<lambda>(lang_code, lang_data) scores.
            AList.update lang_code
              (fadd (fadd (fadd (fadd (fadd
                 (count_times unique_l lang_code (weight lang_data ''unique_letters'' 2.0))
                 (count_times frequent_l lang_code (weight lang_data ''frequent_letters'' 1.0)))
                 (count_times endings lang_code (weight lang_data ''word_endings'' 1.5)))
                 (count_times markers lang_code (weight lang_data ''marker_words'' 3.0)))
                 (count_times dgs lang_code (weight lang_data ''digrams'' 1.0)))
                 (count_times tgs lang_code (weight lang_data ''trigrams'' 1.2)))
              scores)
          (language_data d) (dict_from_keys (languages d) (Finite 0))"

definition fsum :: "pyfloat list \<Rightarrow> pyfloat" where
  \<comment> \<open>\<open>sum(values)\<close>: from 0, left to right\<close>
  "fsum vs = fold (\<lambda>v acc. fadd acc v) vs (Finite 0)"

definition sum_values_ieee :: "(string, pyfloat) dict \<Rightarrow> pyfloat" where
  "sum_values_ieee all_scores = fsum (map snd all_scores)"

fun max_by_value_ieee :: "(string, pyfloat) dict \<Rightarrow> error + (string \<times> pyfloat)" where
  "max_by_value_ieee [] = Inl ValueError"
| "max_by_value_ieee (item # items) =
     Inr (fold (\<lambda>x best. if fgt (snd x) (snd best) then x else best) items item)"

record ieee_result =
  ieee_language :: string
  ieee_confidence :: pyfloat

definition ieee_unknown :: ieee_result where
  "ieee_unknown = \<lparr> ieee_language = ''unknown'', ieee_confidence = Finite 0 \<rparr>"

definition collect_metrics ::
    "unicode \<Rightarrow> detector \<Rightarrow> ustring \<Rightarrow> ustring list \<Rightarrow> error + feature_metrics" where
  \<comment> \<open>the six extractors, as \<open>detect\<close> and \<open>analyze\<close> call them\<close>
  "collect_metrics U d cleaned_text words =
     (let unique_l = count_unique_letters d cleaned_text;
          frequent_l = count_frequent_letters d cleaned_text in
      ebind (check_word_endings d words) (\<lambda>endings.
      ebind (check_marker_words U d words) (\<lambda>markers.
      ebind (check_ngrams U d cleaned_text 2) (\<lambda>dgs.
      ebind (check_ngrams U d cleaned_text 3) (\<lambda>tgs.
        Inr \<lparr> unique_letters_metric = unique_l, frequent_letters_metric = frequent_l,
              word_endings_metric = endings, marker_words_metric = markers,
              digrams_metric = dgs, trigrams_metric = tgs \<rparr>)))))"

definition scores_of_metrics :: "detector \<Rightarrow> feature_metrics \<Rightarrow> (string, pyfloat) dict" where
  "scores_of_metrics d m =
     calculate_weighted_scores_ieee d (unique_letters_metric m) (frequent_letters_metric m)
       (word_endings_metric m) (marker_words_metric m) (digrams_metric m) (trigrams_metric m)"

definition decide_ieee :: "detector \<Rightarrow> (string, pyfloat) dict \<Rightarrow> error + ieee_result" where
  \<comment> \<open>from \<open>total_score = sum(scores.values())\<close> to the returned language and confidence\<close>
  "decide_ieee d all_scores =
     (let total_score = sum_values_ieee all_scores
      in (if total_score = Finite 0 then Inr ieee_unknown
          else ebind (max_by_value_ieee all_scores) (\<lambda>best_lang.
               ebind (fdiv (snd best_lang) total_score) (\<lambda>conf.
                 (if flt conf (Finite (min_confidence d))
                  then Inr \<lparr> ieee_language = ''unknown'', ieee_confidence = conf \<rparr>
                  else Inr \<lparr> ieee_language = fst best_lang, ieee_confidence = conf \<rparr>)))))"

definition detect_ieee :: "unicode \<Rightarrow> detector \<Rightarrow> input \<Rightarrow> error + ieee_result" where
  "detect_ieee U d inp =
     (case inp of
        NotStrRaising \<Rightarrow> Inl TruthTestError
      | NotStr \<Rightarrow> Inr ieee_unknown
      | Str text \<Rightarrow>
         (if text = [] then Inr ieee_unknown
          else (let cleaned_text = clean_text U text in
           (if cleaned_text = [] then Inr ieee_unknown
            else (let words = str_split cleaned_text in
             (if words = [] then Inr ieee_unknown
              else (let unique_scores = count_unique_letters d cleaned_text in
               (case fast_path unique_scores of
                  Some (lang, n) \<Rightarrow>
                    Inr \<lparr> ieee_language = lang, ieee_confidence = Finite 0.95 \<rparr>
                | None \<Rightarrow>
                    ebind (collect_metrics U d cleaned_text words)
                      (\<lambda>m. decide_ieee d (scores_of_metrics d m))))))))))"

record ieee_top_entry = ieee_result +
  ieee_score :: pyfloat



text \<open>
  \<open>sorted(scores.items(), key=lambda x: x[1], reverse=True)\<close> compares the keys with \<open><\<close>
  only. When no key is nan these comparisons are a total preorder and the result is the
  stable arrangement with the largest key first: each item is placed before the first item
  of a smaller key. When a key is nan every comparison with it is false, and the result is
  the arrangement the comparisons of the algorithm happen to lead to; the model takes it
  from the parameter \<open>nan_order\<close> and assumes nothing about it.
\<close>

fun insert_desc :: "string \<times> pyfloat \<Rightarrow> (string \<times> pyfloat) list \<Rightarrow> (string \<times> pyfloat) list" where
  "insert_desc x [] = [x]"
| "insert_desc x (y # ys) = (if flt (snd y) (snd x) then x # y # ys else y # insert_desc x ys)"

definition stable_desc :: "(string, pyfloat) dict \<Rightarrow> (string, pyfloat) dict" where
  "stable_desc sc = fold insert_desc sc []"

definition sorted_scores_ieee ::
    "((string, pyfloat) dict \<Rightarrow> (string, pyfloat) dict) \<Rightarrow> (string, pyfloat) dict \<Rightarrow> (string, pyfloat) dict" where
  "sorted_scores_ieee nan_order sc =
     (if list_all (\<lambda>x. snd x \<noteq> NaN) sc then stable_desc sc else nan_order sc)"

fun emap :: "('a \<Rightarrow> error + 'b) \<Rightarrow> 'a list \<Rightarrow> error + 'b list" where
  \<comment> \<open>a list comprehension whose element expression may raise\<close>
  "emap f [] = Inr []"
| "emap f (x # xs) = ebind (f x) (\<lambda>y. ebind (emap f xs) (\<lambda>ys. Inr (y # ys)))"

definition top3_ieee ::
    "((string, pyfloat) dict \<Rightarrow> (string, pyfloat) dict) \<Rightarrow> (string, pyfloat) dict \<Rightarrow> pyfloat \<Rightarrow>
     error + ieee_top_entry list" where
  "top3_ieee nan_order sc total_score =
     emap (\<lambda>(lang, s).
             ebind (if fgt total_score (Finite 0) then fdiv s total_score else Inr (Finite 0))
               (\<lambda>c. Inr \<lparr> ieee_language = lang, ieee_confidence = c, ieee_score = s \<rparr>))
          (filter (\<lambda>(lang, s). fgt s (Finite 0)) (take 3 (sorted_scores_ieee nan_order sc)))"


section \<open>Reference notions and well-formed detectors\<close>

text \<open>
  The dictionary invariant of a detector: the profile keys are pairwise distinct, and
  every profile belongs to a requested language. The constructor, \<open>add_language\<close> and
  \<open>remove_language\<close> keep it for a detector whose \<open>languages\<close> list no other detector
  holds. In the source the detectors built without \<open>languages\<close> share one list, and
  \<open>remove_language\<close> on one of them takes a language from the list of the others while
  their profiles stay; the invariant is therefore assumed by none of the statements on the
  claims.
\<close>

definition wf_detector :: "detector \<Rightarrow> bool" where
  "wf_detector d \<longleftrightarrow>
     distinct (map fst (language_data d)) \<and> set (map fst (language_data d)) \<subseteq> set (languages d)"

definition nonneg_weights :: "detector \<Rightarrow> bool" where
  "nonneg_weights d \<longleftrightarrow>
     list_all (\<lambda>(lang_code, lang_data). list_all (\<lambda>(k, w). 0 \<le> w) (weights lang_data))
       (language_data d)"

text \<open>
  The number of positions of \<open>text\<close> at which \<open>sub\<close> occurs, overlapping occurrences
  counted: the count the specification describes for digrams and trigrams.
\<close>

fun occurrences_at :: "'a list \<Rightarrow> 'a list \<Rightarrow> nat" where
  "occurrences_at sub [] = (if sub = [] then 1 else 0)"
| "occurrences_at sub (c # cs) =
     (if take (length sub) (c # cs) = sub then 1 else 0) + occurrences_at sub cs"

definition count_overlapping :: "'a list \<Rightarrow> 'a list \<Rightarrow> nat" where
  "count_overlapping text sub = occurrences_at sub text"

text \<open>
  The outcome of full scoring as the specification words it: no score at all gives
  \<open>unknown\<close> with confidence 0; otherwise the first language of maximal score and its
  share of the total, suppressed to \<open>unknown\<close> below the threshold.
\<close>

definition full_scoring_outcome :: "real \<Rightarrow> (string, real) dict \<Rightarrow> result" where
  "full_scoring_outcome threshold sc =
     (let total = sum_list (map snd sc) in
      if total = 0 then \<lparr> language = ''unknown'', confidence = 0 \<rparr>
      else (let best = hd (filter (\<lambda>x. list_all (\<lambda>y. snd y \<le> snd x) sc) sc);
                conf = snd best / total
            in \<lparr> language = (if conf < threshold then ''unknown'' else fst best),
                 confidence = conf \<rparr>))"

text \<open>
  The scores of full scoring: the six extractors run on the cleaned text and its tokens,
  and their counts are aggregated. \<open>detect\<close> and \<open>analyze\<close> both compute them inline.
\<close>

definition full_scores :: "unicode \<Rightarrow> detector \<Rightarrow> ustring \<Rightarrow> error + (string, real) dict" where
  "full_scores U d cleaned_text =
     ebind (check_word_endings d (str_split cleaned_text)) (\<lambda>endings.
     ebind (check_marker_words U d (str_split cleaned_text)) (\<lambda>markers.
     ebind (check_ngrams U d cleaned_text 2) (\<lambda>dgs.
     ebind (check_ngrams U d cleaned_text 3) (\<lambda>tgs.
       Inr (calculate_weighted_scores d (count_unique_letters d cleaned_text)
              (count_frequent_letters d cleaned_text) endings markers dgs tgs)))))"

definition verdict_of :: "analysis \<Rightarrow> result option" where
  \<comment> \<open>the \<open>language\<close> and \<open>confidence\<close> fields of what \<open>analyze\<close> returns, when it has them\<close>
  "verdict_of a =
     (case a of
        AnalysisError msg \<Rightarrow> None
      | Report r \<Rightarrow> Some \<lparr> language = language r, confidence = confidence r \<rparr>)"

definition no_content :: "unicode \<Rightarrow> input \<Rightarrow> bool" where
  \<comment> \<open>the input is not a string (its truth test returning), is empty, or cleans to nothing\<close>
  "no_content U inp =
     (case inp of
        NotStrRaising \<Rightarrow> False
      | NotStr \<Rightarrow> True
      | Str text \<Rightarrow> text = [] \<or> clean_text U text = [] \<or> str_split (clean_text U text) = [])"

section \<open>Concrete instances\<close>

text \<open>
  Case mapping and classification of Basic Latin and of the Cyrillic letters
  U+0400 to U+045F, enough to run the examples below.
\<close>

definition basic_unicode :: unicode where
  "basic_unicode =
     \<lparr> str_lower = map (\<lambda>c. if (65 \<le> c \<and> c \<le> 90) \<or> (1040 \<le> c \<and> c \<le> 1071) then c + 32
                            else if 1024 \<le> c \<and> c \<le> 1039 then c + 80 else c),
       is_alnum = (\<lambda>c. (48 \<le> c \<and> c \<le> 57) \<or> (65 \<le> c \<and> c \<le> 90) \<or> (97 \<le> c \<and> c \<le> 122) \<or>
                        (1024 \<le> c \<and> c \<le> 1119)) \<rparr>"

definition no_files :: "string \<Rightarrow> string \<Rightarrow> file_status" where
  "no_files dir lang = NoFile"

definition default_detector :: detector where
  \<comment> \<open>\<open>LangDetector()\<close> with no profile files on disk\<close>
  "default_detector = LangDetector_init no_files None None 0.6"

definition partial_detector :: detector where
  \<comment> \<open>\<open>LangDetector(languages=['russian', 'german'])\<close>: no profile exists for the second language\<close>
  "partial_detector = LangDetector_init no_files (Some [''russian'', ''german'']) None 0.6"

definition swapped_detector :: detector where
  \<comment> \<open>the default detector with its profile mapping in the other order\<close>
  "swapped_detector = default_detector\<lparr> language_data := rev (language_data default_detector) \<rparr>"

text \<open>
  The reports of \<open>analyze\<close> with the default detector on a two-letter text without
  unique letters (U+043D U+0430) and on the single Russian unique letter U+044B.
\<close>

definition zero_counts :: "(string, nat) dict" where
  "zero_counts = [(''russian'', 0), (''ukrainian'', 0)]"

definition report_na :: report where
  "report_na =
     \<lparr> language = ''unknown'', confidence = 1 / 2,
       stats = \<lparr> text_length = 2, cleaned_length = 2, word_count = 1, average_word_length = 2 \<rparr>,
       metrics = \<lparr> unique_letters_metric = zero_counts, frequent_letters_metric = zero_counts,
                   word_endings_metric = zero_counts, marker_words_metric = zero_counts,
                   digrams_metric = [(''russian'', 1), (''ukrainian'', 1)],
                   trigrams_metric = zero_counts \<rparr>,
       scores = [(''russian'', 1), (''ukrainian'', 1)],
       top_languages = [\<lparr> language = ''russian'', confidence = 1 / 2, score = 1 \<rparr>,
                        \<lparr> language = ''ukrainian'', confidence = 1 / 2, score = 1 \<rparr>] \<rparr>"

definition report_y :: report where
  "report_y =
     \<lparr> language = ''russian'', confidence = 1,
       stats = \<lparr> text_length = 1, cleaned_length = 1, word_count = 1, average_word_length = 1 \<rparr>,
       metrics = \<lparr> unique_letters_metric = [(''russian'', 1), (''ukrainian'', 0)],
                   frequent_letters_metric = [(''russian'', 1), (''ukrainian'', 0)],
                   word_endings_metric = zero_counts, marker_words_metric = zero_counts,
                   digrams_metric = zero_counts, trigrams_metric = zero_counts \<rparr>,
       scores = [(''russian'', 3), (''ukrainian'', 0)],
       top_languages = [\<lparr> language = ''russian'', confidence = 1, score = 3 \<rparr>] \<rparr>"



text \<open>
  A detector with one profile of its own: the digram U+043D U+0430 with the weight
  \<open>2.0 ** 1023\<close>, a finite double. Two occurrences of the digram give the score
  \<open>2 * 2.0 ** 1023\<close>, beyond the largest double.
\<close>

definition heavy_data :: raw_data where
  "heavy_data =
     \<lparr> raw_unique_letters = None, raw_frequent_letters = None, raw_word_endings = None,
       raw_marker_words = None, raw_digrams = Some [[1085, 1072]], raw_trigrams = None,
       raw_alphabet = None, raw_weights = Some [(''digrams'', 2 ^ 1023)] \<rparr>"

definition heavy_detector :: detector where
  \<comment> \<open>\<open>LangDetector(languages=['heavy'])\<close> followed by \<open>add_language('heavy', data)\<close>\<close>
  "heavy_detector =
     add_language (LangDetector_init no_files (Some [''heavy'']) None 0.6) ''heavy'' heavy_data"

section \<open>Basic facts\<close>

lemma ebind_Inr [simp]: "ebind (Inr x) f = f x"
  by (simp add: ebind_def)

lemma ebind_Inl [simp]: "ebind (Inl e) f = Inl e"
  by (simp add: ebind_def)

subsection \<open>Cleaning and tokens\<close>






subsection \<open>Dictionaries\<close>

lemma update_fresh: "k \<notin> fst ` set al \<Longrightarrow> AList.update k v al = al @ [(k, v)]"
  by (induction al) auto

lemma set_update_subset: "set (AList.update k v al) \<subseteq> insert (k, v) (set al)"
  by (induction al) auto

lemma fold_update_distinct:
  assumes "distinct (map fst xs)" and "fst ` set xs \<inter> fst ` set acc = {}"
  shows "fold (\<lambda>(k, x) s. AList.update k (g x) s) xs acc = acc @ map (\<lambda>(k, x). (k, g x)) xs"
  using assms
proof (induction xs arbitrary: acc)
  case Nil
  then show ?case by simp
next
  case (Cons p xs)
  obtain k x where p: "p = (k, x)" by (cases p)
  from Cons.prems p have fresh: "k \<notin> fst ` set acc" by auto
  from Cons.prems p have "fst ` set xs \<inter> fst ` set (acc @ [(k, g x)]) = {}"
    by (auto simp: image_iff)
  with Cons.IH [of "acc @ [(k, g x)]"] Cons.prems p fresh show ?case
    by (simp add: update_fresh)
qed

lemma keys_fold_update:
  "set (map fst (fold (\<lambda>(k, x) s. AList.update k (g k x) s) xs acc)) = fst ` set xs \<union> fst ` set acc"
  by (induction xs arbitrary: acc) (auto simp: dom_update split: prod.splits)

lemma distinct_fold_update:
  "distinct (map fst acc) \<Longrightarrow> distinct (map fst (fold (\<lambda>(k, x) s. AList.update k (g k x) s) xs acc))"
  by (induction xs arbitrary: acc) (auto simp: distinct_update split: prod.splits)

lemma keys_dict_from_keys: "set (map fst (dict_from_keys ks v)) = set ks"
proof -
  have "set (map fst (fold (\<lambda>k d. AList.update k v d) ks acc)) = set ks \<union> fst ` set acc" for acc
    by (induction ks arbitrary: acc) (auto simp: dom_update)
  then show ?thesis by (simp add: dict_from_keys_def)
qed

lemma distinct_dict_from_keys: "distinct (map fst (dict_from_keys ks v))"
proof -
  have "distinct (map fst acc) \<Longrightarrow> distinct (map fst (fold (\<lambda>k d. AList.update k v d) ks acc))" for acc
    by (induction ks arbitrary: acc) (auto simp: distinct_update)
  then show ?thesis by (simp add: dict_from_keys_def)
qed

lemma values_dict_from_keys: "(k, x) \<in> set (dict_from_keys ks v) \<Longrightarrow> x = v"
proof -
  have "(\<forall>p\<in>set acc. snd p = v) \<Longrightarrow> \<forall>p\<in>set (fold (\<lambda>k d. AList.update k v d) ks acc). snd p = v" for acc
  proof (induction ks arbitrary: acc)
    case Nil
    then show ?case by simp
  next
    case (Cons k ks)
    have "\<forall>p\<in>set (AList.update k v acc). snd p = v"
      using Cons.prems set_update_subset [of k v acc] by auto
    then show ?case using Cons.IH by simp
  qed
  from this [of "[]"] show "(k, x) \<in> set (dict_from_keys ks v) \<Longrightarrow> x = v"
    by (auto simp: dict_from_keys_def)
qed

subsection \<open>Letter counts\<close>

lemma count_unique_letters_map:
  "distinct (map fst (language_data d)) \<Longrightarrow>
   count_unique_letters d t =
     map (\<lambda>(lang_code, lang_data). (lang_code, count_in (unique_letters lang_data) t)) (language_data d)"
  using fold_update_distinct [of "language_data d" "[]" "\<lambda>ld. count_in (unique_letters ld) t"]
  by (simp add: count_unique_letters_def)

lemma count_frequent_letters_map:
  "distinct (map fst (language_data d)) \<Longrightarrow>
   count_frequent_letters d t =
     map (\<lambda>(lang_code, lang_data). (lang_code, count_in (frequent_letters lang_data) t)) (language_data d)"
  using fold_update_distinct [of "language_data d" "[]" "\<lambda>ld. count_in (frequent_letters ld) t"]
  by (simp add: count_frequent_letters_def)

lemma keys_count_unique_letters:
  "set (map fst (count_unique_letters d t)) = set (map fst (language_data d))"
  using keys_fold_update [of "\<lambda>k ld. count_in (unique_letters ld) t" "language_data d" "[]"]
  by (simp add: count_unique_letters_def)

lemma keys_count_frequent_letters:
  "set (map fst (count_frequent_letters d t)) = set (map fst (language_data d))"
  using keys_fold_update [of "\<lambda>k ld. count_in (frequent_letters ld) t" "language_data d" "[]"]
  by (simp add: count_frequent_letters_def)

subsection \<open>Loops that add to a score dictionary\<close>

lemma dict_add_keys:
  "k \<in> set (map fst s) \<Longrightarrow> \<exists>s'. dict_add s k n = Inr s' \<and> map fst s' = map fst s"
  by (cases "map_of s k") (auto simp: dict_add_def update_keys map_of_eq_None_iff)

lemma dict_add_missing: "k \<notin> set (map fst s) \<Longrightarrow> dict_add s k n = Inl (KeyError k)"
  by (cases "map_of s k") (auto simp: dict_add_def map_of_eq_None_iff [symmetric])

lemma foldM_keys:
  assumes "\<And>x s. x \<in> set xs \<Longrightarrow> map fst s = ks \<Longrightarrow> \<exists>s'. f x s = Inr s' \<and> map fst s' = ks"
    and "map fst s = ks"
  shows "\<exists>s'. foldM f xs s = Inr s' \<and> map fst s' = ks"
  using assms
proof (induction xs arbitrary: s)
  case Nil
  then show ?case by simp
next
  case (Cons x xs)
  from Cons.prems(1) [of x s] Cons.prems(2)
  obtain s1 where s1: "f x s = Inr s1" "map fst s1 = ks" by auto
  have "\<exists>s'. foldM f xs s1 = Inr s' \<and> map fst s' = ks"
    by (rule Cons.IH) (use Cons.prems(1) s1 in auto)
  with s1 show ?case by simp
qed

lemma foldM_cond_add_keys:
  fixes s :: "(string, nat) dict"
  assumes "fst ` set xs \<subseteq> set (map fst s)"
  shows "\<exists>s'. foldM (\<lambda>(k, x) scores. if P x then dict_add scores k (N x) else Inr scores) xs s = Inr s'
            \<and> map fst s' = map fst s"
proof (rule foldM_keys)
  fix p and s0 :: "(string, nat) dict"
  assume p: "p \<in> set xs" and s0: "map fst s0 = map fst s"
  obtain k x where kx: "p = (k, x)" by (cases p)
  with p assms s0 have "k \<in> set (map fst s0)" by force
  from dict_add_keys [OF this, of "N x"] s0
  show "\<exists>s'. (case p of (k, x) \<Rightarrow> \<lambda>scores. if P x then dict_add scores k (N x) else Inr scores) s0 = Inr s'
            \<and> map fst s' = map fst s"
    by (auto simp: kx)
qed simp

lemma foldM_add_keys:
  fixes s :: "(string, nat) dict"
  assumes "k \<in> set (map fst s)"
  shows "\<exists>s'. foldM (\<lambda>g scores. dict_add scores k (N g)) gs s = Inr s' \<and> map fst s' = map fst s"
proof (rule foldM_keys)
  fix g and s0 :: "(string, nat) dict"
  assume "map fst s0 = map fst s"
  with assms dict_add_keys [of k s0 "N g"]
  show "\<exists>s'. dict_add s0 k (N g) = Inr s' \<and> map fst s' = map fst s" by auto
qed simp

lemma check_word_endings_keys:
  assumes "set (map fst (language_data d)) \<subseteq> set (languages d)"
  shows "\<exists>s. check_word_endings d ws = Inr s \<and>
             map fst s = map fst (dict_from_keys (languages d) (0::nat))"
  unfolding check_word_endings_def
proof (rule foldM_keys)
  let ?ks = "map fst (dict_from_keys (languages d) (0::nat))"
  fix w and s :: "(string, nat) dict"
  assume s: "map fst s = ?ks"
  with assms have "fst ` set (language_data d) \<subseteq> set (map fst s)"
    using keys_dict_from_keys [of "languages d" "0::nat"] by auto
  from foldM_cond_add_keys [OF this, where P = "\<lambda>ld. has_ending w (word_endings ld)" and N = "\<lambda>ld. 1"] s
  show "\<exists>s'. (if length w < 3 then Inr s
            else foldM (\<lambda>(lang_code, lang_data) scores.
                          if has_ending w (word_endings lang_data)
                          then dict_add scores lang_code 1 else Inr scores)
                        (language_data d) s) = Inr s' \<and> map fst s' = ?ks"
    by auto
qed simp

lemma check_marker_words_keys:
  assumes "set (map fst (language_data d)) \<subseteq> set (languages d)"
  shows "\<exists>s. check_marker_words U d ws = Inr s \<and>
             map fst s = map fst (dict_from_keys (languages d) (0::nat))"
  unfolding check_marker_words_def Let_def
proof (rule foldM_keys)
  let ?ks = "map fst (dict_from_keys (languages d) (0::nat))"
  fix w and s :: "(string, nat) dict"
  assume s: "map fst s = ?ks"
  with assms have "fst ` set (language_data d) \<subseteq> set (map fst s)"
    using keys_dict_from_keys [of "languages d" "0::nat"] by auto
  from foldM_cond_add_keys [OF this, where P = "\<lambda>ld. w \<in> marker_words ld" and N = "\<lambda>ld. 1"] s
  show "\<exists>s'. foldM (\<lambda>(lang_code, lang_data) scores.
                          if w \<in> marker_words lang_data
                          then dict_add scores lang_code 1 else Inr scores)
                        (language_data d) s = Inr s' \<and> map fst s' = ?ks"
    by auto
qed simp

lemma check_ngrams_keys:
  assumes "set (map fst (language_data d)) \<subseteq> set (languages d)"
  shows "\<exists>s. check_ngrams U d t n = Inr s \<and>
             map fst s = map fst (dict_from_keys (languages d) (0::nat))"
  unfolding check_ngrams_def Let_def
proof (rule foldM_keys)
  let ?ks = "map fst (dict_from_keys (languages d) (0::nat))"
  fix p and s :: "(string, nat) dict"
  assume p: "p \<in> set (language_data d)" and s: "map fst s = ?ks"
  obtain k ld where kl: "p = (k, ld)" by (cases p)
  with p assms s have k: "k \<in> set (map fst s)"
    using keys_dict_from_keys [of "languages d" "0::nat"] by force
  show "\<exists>s'. (case p of (lang_code, lang_data) \<Rightarrow> \<lambda>scores.
               if n = 2
               then foldM (\<lambda>digram scores. dict_add scores lang_code (str_count (str_lower U t) digram))
                          (digrams lang_data) scores
               else if n = 3
               then foldM (\<lambda>trigram scores. dict_add scores lang_code (str_count (str_lower U t) trigram))
                          (trigrams lang_data) scores
               else Inr scores) s = Inr s' \<and> map fst s' = ?ks"
    using foldM_add_keys [OF k, of "str_count (str_lower U t)"] s by (auto simp: kl)
qed simp

subsection \<open>Weighted scores and the maximum\<close>

lemma dict_get_nonneg:
  "list_all (\<lambda>(k, w). 0 \<le> w) ws \<Longrightarrow> 0 \<le> dflt \<Longrightarrow> 0 \<le> dict_get ws key (dflt::real)"
  by (cases "map_of ws key") (auto simp: dict_get_def list_all_iff dest: map_of_SomeD)

lemma fold_update_values:
  assumes "\<forall>(k, x)\<in>set xs. Q (g k x)" and "\<forall>(k, v)\<in>set acc. Q v"
  shows "\<forall>(k, v)\<in>set (fold (\<lambda>(k, x) s. AList.update k (g k x) s) xs acc). Q v"
  using assms
proof (induction xs arbitrary: acc)
  case Nil
  then show ?case by simp
next
  case (Cons p xs)
  obtain k x where p: "p = (k, x)" by (cases p)
  have "\<forall>(k', v)\<in>set (AList.update k (g k x) acc). Q v"
    using Cons.prems p set_update_subset [of k "g k x" acc] by auto
  with Cons.IH [of "AList.update k (g k x) acc"] Cons.prems(1) p show ?case by simp
qed

lemma weighted_scores_nonneg:
  assumes "nonneg_weights d"
  shows "\<forall>(k, v)\<in>set (calculate_weighted_scores d ul fl we mw dg tg). 0 \<le> v"
  unfolding calculate_weighted_scores_def
proof (rule fold_update_values)
  show "\<forall>(k, v)\<in>set (dict_from_keys (languages d) (0.0::real)). 0 \<le> v"
    using values_dict_from_keys [of _ _ "languages d" "0::real"] by auto
next
  show "\<forall>(lang_code, lang_data)\<in>set (language_data d).
          0 \<le> real (dict_get ul lang_code 0) * dict_get (weights lang_data) ''unique_letters'' 2.0 +
               real (dict_get fl lang_code 0) * dict_get (weights lang_data) ''frequent_letters'' 1.0 +
               real (dict_get we lang_code 0) * dict_get (weights lang_data) ''word_endings'' 1.5 +
               real (dict_get mw lang_code 0) * dict_get (weights lang_data) ''marker_words'' 3.0 +
               real (dict_get dg lang_code 0) * dict_get (weights lang_data) ''digrams'' 1.0 +
               real (dict_get tg lang_code 0) * dict_get (weights lang_data) ''trigrams'' 1.2"
  proof (clarify)
    fix k ld assume "(k, ld) \<in> set (language_data d)"
    with assms have w: "list_all (\<lambda>(k, w). 0 \<le> w) (weights ld)"
      by (auto simp: nonneg_weights_def list_all_iff)
    show "0 \<le> real (dict_get ul k 0) * dict_get (weights ld) ''unique_letters'' 2.0 +
               real (dict_get fl k 0) * dict_get (weights ld) ''frequent_letters'' 1.0 +
               real (dict_get we k 0) * dict_get (weights ld) ''word_endings'' 1.5 +
               real (dict_get mw k 0) * dict_get (weights ld) ''marker_words'' 3.0 +
               real (dict_get dg k 0) * dict_get (weights ld) ''digrams'' 1.0 +
               real (dict_get tg k 0) * dict_get (weights ld) ''trigrams'' 1.2"
      by (intro add_nonneg_nonneg mult_nonneg_nonneg dict_get_nonneg [OF w]) simp_all
  qed
qed

lemma keys_weighted_scores:
  "set (map fst (calculate_weighted_scores d ul fl we mw dg tg)) =
     set (map fst (language_data d)) \<union> set (languages d)"
  unfolding calculate_weighted_scores_def
  using keys_fold_update [of _ "language_data d" "dict_from_keys (languages d) (0.0::real)"]
    keys_dict_from_keys [of "languages d" "0.0::real"]
  by simp

lemma fold_max_first:
  fixes b :: "string \<times> real"
  defines "step \<equiv> (\<lambda>x best. if snd x > snd best then x else best)"
  shows "filter (\<lambda>x. list_all (\<lambda>y. snd y \<le> snd x) (b # xs)) (b # xs) \<noteq> [] \<and>
         fold step xs b = hd (filter (\<lambda>x. list_all (\<lambda>y. snd y \<le> snd x) (b # xs)) (b # xs))"
proof (induction xs rule: rev_induct)
  case Nil
  then show ?case by simp
next
  case (snoc x xs)
  define zs where "zs = b # xs"
  define P where "P = (\<lambda>(us :: (string \<times> real) list) (x :: string \<times> real). list_all (\<lambda>y. snd y \<le> snd x) us)"
  define m where "m = fold step xs b"
  from snoc have ne: "filter (P zs) zs \<noteq> []" and m: "m = hd (filter (P zs) zs)"
    by (simp_all add: zs_def P_def m_def)
  from ne m have "m \<in> set (filter (P zs) zs)" by (metis hd_in_set)
  then have mmem: "m \<in> set zs" and mmax: "\<forall>y\<in>set zs. snd y \<le> snd m"
    unfolding set_filter P_def list_all_iff by blast+
  have goal: "filter (P (zs @ [x])) (zs @ [x]) \<noteq> [] \<and>
        (if snd x > snd m then x else m) = hd (filter (P (zs @ [x])) (zs @ [x]))"
  proof (cases "snd x > snd m")
    case True
    have "\<not> P (zs @ [x]) z" if "z \<in> set zs" for z
      using that True mmax by (auto simp: P_def list_all_iff)
    then have "filter (P (zs @ [x])) zs = []"
      by (simp add: filter_empty_conv)
    moreover have "P (zs @ [x]) x"
      using True mmax by (auto simp: P_def list_all_iff)
    ultimately have "filter (P (zs @ [x])) (zs @ [x]) = [x]" by simp
    with True show ?thesis by simp
  next
    case False
    have "P (zs @ [x]) z \<longleftrightarrow> P zs z" if "z \<in> set zs" for z
    proof
      assume "P (zs @ [x]) z" then show "P zs z" by (simp add: P_def)
    next
      assume pz: "P zs z"
      with mmem have "snd m \<le> snd z" by (auto simp: P_def list_all_iff)
      with False pz show "P (zs @ [x]) z" by (auto simp: P_def)
    qed
    then have eq: "filter (P (zs @ [x])) zs = filter (P zs) zs"
      by (intro filter_cong refl) blast
    have "filter (P (zs @ [x])) (zs @ [x]) = filter (P zs) zs @ filter (P (zs @ [x])) [x]"
      using eq by simp
    with ne m False show ?thesis by simp
  qed
  have "fold step (xs @ [x]) b = (if snd x > snd m then x else m)"
    by (simp add: m_def step_def)
  with goal show ?case by (simp add: zs_def P_def)
qed

lemma max_by_value_first:
  "sc \<noteq> [] \<Longrightarrow> max_by_value sc = Inr (hd (filter (\<lambda>x. list_all (\<lambda>y. snd y \<le> snd x) sc) sc))"
proof (cases sc)
  case Nil
  then show "sc \<noteq> [] \<Longrightarrow> ?thesis" by simp
next
  case (Cons b xs)
  from fold_max_first [of b xs]
  show ?thesis unfolding Cons max_by_value.simps by simp
qed

lemma max_by_value_mem:
  assumes "sc \<noteq> []"
  shows "\<exists>b. max_by_value sc = Inr b \<and> b \<in> set sc \<and> (\<forall>y\<in>set sc. snd y \<le> snd b)"
proof -
  define f where "f = filter (\<lambda>x. list_all (\<lambda>y. snd y \<le> snd x) sc) sc"
  from assms obtain b xs where sc: "sc = b # xs" by (cases sc) auto
  from fold_max_first [of b xs] have "f \<noteq> []" unfolding f_def sc by blast
  then have "hd f \<in> set f" by simp
  then have "hd f \<in> set sc \<and> (\<forall>y\<in>set sc. snd y \<le> snd (hd f))"
    unfolding f_def set_filter list_all_iff by blast
  with max_by_value_first [OF assms] show ?thesis unfolding f_def by blast
qed

lemma member_le_sum_nonneg:
  fixes xs :: "real list"
  assumes "\<forall>x\<in>set xs. 0 \<le> x" "y \<in> set xs"
  shows "y \<le> sum_list xs"
  using assms
proof (induction xs)
  case Nil
  then show ?case by simp
next
  case (Cons a xs)
  have "0 \<le> sum_list xs" using Cons.prems(1) by (simp add: sum_list_nonneg)
  with Cons show ?case by (cases "y = a") (auto intro: order_trans)
qed

subsection \<open>The decision on the scores\<close>

lemma full_scores_total:
  assumes "set (map fst (language_data d)) \<subseteq> set (languages d)"
  shows "\<exists>sc. full_scores U d c = Inr sc"
proof -
  obtain we where "check_word_endings d (str_split c) = Inr we"
    using check_word_endings_keys [OF assms] by blast
  moreover obtain mw where "check_marker_words U d (str_split c) = Inr mw"
    using check_marker_words_keys [OF assms] by blast
  moreover obtain dg where "check_ngrams U d c 2 = Inr dg"
    using check_ngrams_keys [OF assms] by blast
  moreover obtain tg where "check_ngrams U d c 3 = Inr tg"
    using check_ngrams_keys [OF assms] by blast
  ultimately show ?thesis by (simp add: full_scores_def)
qed

lemma full_scores_nonneg:
  assumes "nonneg_weights d" "full_scores U d c = Inr sc"
  shows "\<forall>(k, v)\<in>set sc. 0 \<le> v"
proof -
  from assms(2) obtain ul fl we mw dg tg
    where "sc = calculate_weighted_scores d ul fl we mw dg tg"
    by (auto simp: full_scores_def ebind_def split: sum.splits)
  with weighted_scores_nonneg [OF assms(1)] show ?thesis by simp
qed

lemma detect_full_scoring:
  assumes "t \<noteq> []" "str_split (clean_text U t) \<noteq> []"
    and "fast_path (count_unique_letters d (clean_text U t)) = None"
  shows "detect U d (Str t) =
     ebind (full_scores U d (clean_text U t)) (\<lambda>sc.
       if sum_values sc = 0 then Inr unknown
       else ebind (max_by_value sc) (\<lambda>best_lang.
         if snd best_lang / sum_values sc < min_confidence d
         then Inr \<lparr> language = ''unknown'', confidence = snd best_lang / sum_values sc \<rparr>
         else Inr \<lparr> language = fst best_lang, confidence = snd best_lang / sum_values sc \<rparr>))"
proof -
  from assms(2) have "clean_text U t \<noteq> []" by auto
  with assms show ?thesis
    by (simp add: detect_def full_scores_def Let_def ebind_def split: sum.splits)
qed

lemma decision_bounds:
  assumes "\<forall>(k, v)\<in>set sc. 0 \<le> v"
  shows "\<exists>r. (if sum_values sc = 0 then Inr unknown
       else ebind (max_by_value sc) (\<lambda>best_lang.
         if snd best_lang / sum_values sc < mc
         then Inr \<lparr> language = ''unknown'', confidence = snd best_lang / sum_values sc \<rparr>
         else Inr \<lparr> language = fst best_lang, confidence = snd best_lang / sum_values sc \<rparr>)) = Inr r
      \<and> 0 \<le> confidence r \<and> confidence r \<le> 1"
proof (cases "sum_values sc = 0")
  case True
  then show ?thesis by (simp add: unknown_def)
next
  case False
  then have "sc \<noteq> []" by (auto simp: sum_values_def)
  then obtain b where b: "max_by_value sc = Inr b" "b \<in> set sc"
    using max_by_value_mem by blast
  from assms have nn: "\<forall>x\<in>set (map snd sc). 0 \<le> x" by auto
  from b(2) have bm: "snd b \<in> set (map snd sc)" by simp
  have le: "snd b \<le> sum_values sc"
    unfolding sum_values_def using nn bm by (rule member_le_sum_nonneg)
  from nn bm have b0: "0 \<le> snd b" by blast
  have "0 \<le> sum_values sc"
    unfolding sum_values_def using nn by (intro sum_list_nonneg) blast
  with False have pos: "0 < sum_values sc" by simp
  with le b0 have "0 \<le> snd b / sum_values sc" "snd b / sum_values sc \<le> 1" by simp_all
  with False b(1) show ?thesis by simp
qed

subsection \<open>analyze\<close>

lemma decision_outcome:
  "(if sum_values sc = 0 then Inr unknown
    else ebind (max_by_value sc) (\<lambda>best_lang.
      if snd best_lang / sum_values sc < mc
      then Inr \<lparr> language = ''unknown'', confidence = snd best_lang / sum_values sc \<rparr>
      else Inr \<lparr> language = fst best_lang, confidence = snd best_lang / sum_values sc \<rparr>))
   = Inr (full_scoring_outcome mc sc)"
proof (cases "sum_values sc = 0")
  case True
  then show ?thesis by (simp add: full_scoring_outcome_def unknown_def sum_values_def)
next
  case False
  then have "sc \<noteq> []" by (auto simp: sum_values_def)
  from max_by_value_first [OF this] False show ?thesis
    by (simp add: full_scoring_outcome_def sum_values_def Let_def)
qed

lemma detect_outcome:
  assumes "t \<noteq> []" "str_split (clean_text U t) \<noteq> []"
    and "fast_path (count_unique_letters d (clean_text U t)) = None"
  shows "detect U d (Str t) =
     ebind (full_scores U d (clean_text U t)) (\<lambda>sc. Inr (full_scoring_outcome (min_confidence d) sc))"
  unfolding detect_full_scoring [OF assms] decision_outcome ..

lemma analyze_unfold:
  assumes "t \<noteq> []" "clean_text U t \<noteq> []"
  shows "analyze U d (Str t) =
      ebind (check_word_endings d (str_split (clean_text U t))) (\<lambda>endings.
      ebind (check_marker_words U d (str_split (clean_text U t))) (\<lambda>markers.
      ebind (check_ngrams U d (clean_text U t) 2) (\<lambda>dgs.
      ebind (check_ngrams U d (clean_text U t) 3) (\<lambda>tgs.
        ebind (Inr (full_scoring_outcome (min_confidence d)
                 (calculate_weighted_scores d (count_unique_letters d (clean_text U t))
                    (count_frequent_letters d (clean_text U t)) endings markers dgs tgs)))
          (\<lambda>res. Inr (Report
             \<lparr> language = language res, confidence = confidence res,
               stats = \<lparr> text_length = length t,
                         cleaned_length = length (clean_text U t),
                         word_count = length (str_split (clean_text U t)),
                         average_word_length =
                           (if str_split (clean_text U t) \<noteq> []
                            then real (sum_list (map length (str_split (clean_text U t))))
                                 / real (length (str_split (clean_text U t)))
                            else 0) \<rparr>,
               metrics = \<lparr> unique_letters_metric = count_unique_letters d (clean_text U t),
                           frequent_letters_metric = count_frequent_letters d (clean_text U t),
                           word_endings_metric = endings,
                           marker_words_metric = markers,
                           digrams_metric = dgs,
                           trigrams_metric = tgs \<rparr>,
               scores = calculate_weighted_scores d (count_unique_letters d (clean_text U t))
                    (count_frequent_letters d (clean_text U t)) endings markers dgs tgs,
               top_languages = top3 (calculate_weighted_scores d (count_unique_letters d (clean_text U t))
                    (count_frequent_letters d (clean_text U t)) endings markers dgs tgs)
                  (sum_values (calculate_weighted_scores d (count_unique_letters d (clean_text U t))
                    (count_frequent_letters d (clean_text U t)) endings markers dgs tgs)) \<rparr>))))))"
  using assms unfolding analyze_def Let_def decision_outcome by simp

lemma analyze_verdict:
  assumes "t \<noteq> []" "clean_text U t \<noteq> []"
  shows "map_sum id verdict_of (analyze U d (Str t)) =
     ebind (full_scores U d (clean_text U t))
       (\<lambda>sc. Inr (Some (full_scoring_outcome (min_confidence d) sc)))"
  unfolding analyze_unfold [OF assms]
  by (cases "check_word_endings d (str_split (clean_text U t))";
      cases "check_marker_words U d (str_split (clean_text U t))";
      cases "check_ngrams U d (clean_text U t) 2";
      cases "check_ngrams U d (clean_text U t) 3")
     (simp_all add: full_scores_def verdict_of_def)

lemma analyze_ReportD:
  assumes "analyze U d inp = Inr (Report r)"
  shows "\<exists>t. inp = Str t \<and> t \<noteq> [] \<and> clean_text U t \<noteq> [] \<and>
             full_scores U d (clean_text U t) = Inr (scores r) \<and>
             \<lparr> language = language r, confidence = confidence r \<rparr>
               = full_scoring_outcome (min_confidence d) (scores r) \<and>
             top_languages r = top3 (scores r) (sum_values (scores r))"
proof (cases inp)
  case NotStr
  with assms show ?thesis by (simp add: analyze_def)
next
  case NotStrRaising
  with assms show ?thesis by (simp add: analyze_def)
next
  case (Str t)
  with assms have ne: "t \<noteq> []" "clean_text U t \<noteq> []"
    by (auto simp: analyze_def Let_def split: if_splits)
  have "full_scores U d (clean_text U t) = Inr (scores r) \<and>
             \<lparr> language = language r, confidence = confidence r \<rparr>
               = full_scoring_outcome (min_confidence d) (scores r) \<and>
             top_languages r = top3 (scores r) (sum_values (scores r))"
    using assms unfolding Str analyze_unfold [OF ne]
    by (cases "check_word_endings d (str_split (clean_text U t))";
        cases "check_marker_words U d (str_split (clean_text U t))";
        cases "check_ngrams U d (clean_text U t) 2";
        cases "check_ngrams U d (clean_text U t) 3")
       (auto simp: full_scores_def)
  with Str ne show ?thesis by simp
qed

subsection \<open>Scores as doubles\<close>

lemma overflow_threshold_large: "2 ^ 970 \<le> overflow_threshold"
proof -
  have "(2::real) ^ 1024 = 2 ^ 970 * 2 ^ 54" by (simp add: power_add [symmetric])
  then show ?thesis unfolding overflow_threshold_def by simp
qed

lemma overflow_threshold_gt_1: "1 < overflow_threshold"
proof -
  have "(1::real) < 2 ^ 970" by simp
  with overflow_threshold_large show ?thesis by linarith
qed

lemma to_float_unit: "0 \<le> x \<Longrightarrow> x \<le> 1 \<Longrightarrow> to_float x = Finite x"
  using overflow_threshold_gt_1 by (simp add: to_float_def)

lemma fle_zero_iff: "fle (Finite 0) x \<longleftrightarrow> x = PosInf \<or> (\<exists>a. x = Finite a \<and> 0 \<le> a)"
  by (cases x) (auto simp: fle_def)

lemma to_float_nonneg: "0 \<le> x \<Longrightarrow> fle (Finite 0) (to_float x)"
  using overflow_threshold_gt_1 by (auto simp: to_float_def fle_def)

lemma fle_refl: "x \<noteq> NaN \<Longrightarrow> fle x x"
  by (cases x) (auto simp: fle_def)

lemma fle_trans: "fle x y \<Longrightarrow> fle y z \<Longrightarrow> fle x z"
  by (cases x; cases y; cases z) (auto simp: fle_def)

lemma flt_imp_fle: "flt x y \<Longrightarrow> fle x y"
  by (cases x; cases y) (auto simp: fle_def)

lemma not_flt_imp_fle: "x \<noteq> NaN \<Longrightarrow> y \<noteq> NaN \<Longrightarrow> \<not> flt x y \<Longrightarrow> fle y x"
  by (simp add: fle_def)

lemma fadd_nonneg:
  assumes "fle (Finite 0) x" "fle (Finite 0) y"
  shows "fle (Finite 0) (fadd x y)" "fle x (fadd x y)" "fle y (fadd x y)"
proof -
  from assms consider (ff) a b where "x = Finite a" "y = Finite b" "0 \<le> a" "0 \<le> b"
    | (i1) "x = PosInf" | (i2) "y = PosInf"
    unfolding fle_zero_iff by blast
  then have "fle (Finite 0) (fadd x y) \<and> fle x (fadd x y) \<and> fle y (fadd x y)"
  proof cases
    case ff
    then show ?thesis using overflow_threshold_gt_1 by (auto simp: to_float_def fle_def)
  next
    case i1
    with assms(2) show ?thesis unfolding fle_zero_iff by (auto simp: fle_def)
  next
    case i2
    with assms(1) show ?thesis unfolding fle_zero_iff by (auto simp: fle_def)
  qed
  then show "fle (Finite 0) (fadd x y)" "fle x (fadd x y)" "fle y (fadd x y)" by blast+
qed

lemma count_times_nonneg: "0 \<le> w \<Longrightarrow> fle (Finite 0) (count_times counts k (Finite w))"
  unfolding count_times_def by (simp add: to_float_nonneg)

lemma weight_nonneg:
  "list_all (\<lambda>(k, w). 0 \<le> w) (weights ld) \<Longrightarrow> 0 \<le> dflt \<Longrightarrow>
   fle (Finite 0) (count_times counts k (weight ld key dflt))"
  unfolding weight_def by (rule count_times_nonneg) (rule dict_get_nonneg)

lemma weighted_scores_ieee_nonneg:
  assumes "nonneg_weights d"
  shows "\<forall>(k, v)\<in>set (calculate_weighted_scores_ieee d ul fl we mw dg tg). fle (Finite 0) v"
  unfolding calculate_weighted_scores_ieee_def
proof (rule fold_update_values)
  show "\<forall>(k, v)\<in>set (dict_from_keys (languages d) (Finite 0)). fle (Finite 0) v"
  proof (clarify)
    fix k v assume "(k, v) \<in> set (dict_from_keys (languages d) (Finite 0))"
    then have "v = Finite 0" by (rule values_dict_from_keys)
    then show "fle (Finite 0) v" by (simp add: fle_def)
  qed
next
  show "\<forall>(lang_code, lang_data)\<in>set (language_data d).
          fle (Finite 0) (fadd (fadd (fadd (fadd (fadd
                 (count_times ul lang_code (weight lang_data ''unique_letters'' 2.0))
                 (count_times fl lang_code (weight lang_data ''frequent_letters'' 1.0)))
                 (count_times we lang_code (weight lang_data ''word_endings'' 1.5)))
                 (count_times mw lang_code (weight lang_data ''marker_words'' 3.0)))
                 (count_times dg lang_code (weight lang_data ''digrams'' 1.0)))
                 (count_times tg lang_code (weight lang_data ''trigrams'' 1.2)))"
  proof (clarify)
    fix k ld assume "(k, ld) \<in> set (language_data d)"
    with assms have w: "list_all (\<lambda>(k, w). 0 \<le> w) (weights ld)"
      by (auto simp: nonneg_weights_def list_all_iff)
    show "fle (Finite 0) (fadd (fadd (fadd (fadd (fadd
                 (count_times ul k (weight ld ''unique_letters'' 2.0))
                 (count_times fl k (weight ld ''frequent_letters'' 1.0)))
                 (count_times we k (weight ld ''word_endings'' 1.5)))
                 (count_times mw k (weight ld ''marker_words'' 3.0)))
                 (count_times dg k (weight ld ''digrams'' 1.0)))
                 (count_times tg k (weight ld ''trigrams'' 1.2)))"
      by (intro fadd_nonneg(1) weight_nonneg [OF w]) simp_all
  qed
qed

lemma fold_fadd_nonneg:
  assumes "\<forall>v\<in>set vs. fle (Finite 0) v" "fle (Finite 0) acc"
  shows "fle (Finite 0) (fold (\<lambda>v acc. fadd acc v) vs acc) \<and>
         fle acc (fold (\<lambda>v acc. fadd acc v) vs acc) \<and>
         (\<forall>y\<in>set vs. fle y (fold (\<lambda>v acc. fadd acc v) vs acc))"
  using assms
proof (induction vs arbitrary: acc)
  case Nil
  then have "acc \<noteq> NaN" by (auto simp: fle_def)
  with Nil show ?case by (simp add: fle_refl)
next
  case (Cons v vs)
  have v: "fle (Finite 0) v" using Cons.prems(1) by simp
  note step = fadd_nonneg [OF Cons.prems(2) v]
  from Cons.IH [OF _ step(1)] Cons.prems(1)
  have IH: "fle (Finite 0) (fold (\<lambda>v acc. fadd acc v) vs (fadd acc v))"
    "fle (fadd acc v) (fold (\<lambda>v acc. fadd acc v) vs (fadd acc v))"
    "\<forall>y\<in>set vs. fle y (fold (\<lambda>v acc. fadd acc v) vs (fadd acc v))"
    by simp_all
  from IH step show ?case by (auto intro: fle_trans)
qed

lemma fsum_nonneg:
  assumes "\<forall>v\<in>set vs. fle (Finite 0) v"
  shows "fle (Finite 0) (fsum vs)" "y \<in> set vs \<Longrightarrow> fle y (fsum vs)"
  using fold_fadd_nonneg [OF assms, of "Finite 0"] unfolding fsum_def by (auto simp: fle_def)

lemma fsum_Nil: "fsum [] = Finite 0"
  by (simp add: fsum_def)

lemma fold_max_ieee:
  assumes "\<forall>y\<in>set (b # xs). snd y \<noteq> NaN"
  shows "fold (\<lambda>x best. if fgt (snd x) (snd best) then x else best) xs b \<in> set (b # xs) \<and>
         (\<forall>y\<in>set (b # xs). fle (snd y) (snd (fold (\<lambda>x best. if fgt (snd x) (snd best) then x else best) xs b)))"
  using assms
proof (induction xs arbitrary: b)
  case Nil
  then show ?case by (simp add: fle_refl)
next
  case (Cons x xs)
  let ?b' = "if fgt (snd x) (snd b) then x else b"
  have nb: "snd b \<noteq> NaN" and nx: "snd x \<noteq> NaN" using Cons.prems by simp_all
  have "\<forall>y\<in>set (?b' # xs). snd y \<noteq> NaN" using Cons.prems by simp
  from Cons.IH [OF this]
  have mem: "fold (\<lambda>x best. if fgt (snd x) (snd best) then x else best) xs ?b' \<in> set (?b' # xs)"
    and mx: "\<forall>y\<in>set (?b' # xs). fle (snd y) (snd (fold (\<lambda>x best. if fgt (snd x) (snd best) then x else best) xs ?b'))"
    by blast+
  have b': "fle (snd b) (snd ?b') \<and> fle (snd x) (snd ?b')"
    using nb nx by (auto simp: fgt_def fle_refl flt_imp_fle not_flt_imp_fle)
  from mx have top: "fle (snd ?b') (snd (fold (\<lambda>x best. if fgt (snd x) (snd best) then x else best) xs ?b'))"
    by simp
  have "fold (\<lambda>x best. if fgt (snd x) (snd best) then x else best) (x # xs) b =
        fold (\<lambda>x best. if fgt (snd x) (snd best) then x else best) xs ?b'" by simp
  moreover have "fold (\<lambda>x best. if fgt (snd x) (snd best) then x else best) xs ?b' \<in> set (b # x # xs)"
    using mem by auto
  moreover have "\<forall>y\<in>set (b # x # xs). fle (snd y) (snd (fold (\<lambda>x best. if fgt (snd x) (snd best) then x else best) xs ?b'))"
    using mx b' top by (auto intro: fle_trans)
  ultimately show ?case by (simp only:)
qed

lemma max_by_value_ieee_mem:
  assumes "sc \<noteq> []" "\<forall>y\<in>set sc. snd y \<noteq> NaN"
  shows "\<exists>b. max_by_value_ieee sc = Inr b \<and> b \<in> set sc \<and> (\<forall>y\<in>set sc. fle (snd y) (snd b))"
proof -
  from assms(1) obtain b xs where sc: "sc = b # xs" by (cases sc) auto
  from fold_max_ieee [of b xs] assms(2) show ?thesis unfolding sc by simp
qed


lemma fquot_share:
  assumes "fle (Finite 0) b" "fle b t" "t \<noteq> Finite 0"
  shows "t \<noteq> PosInf \<longrightarrow> (\<exists>B T. b = Finite B \<and> t = Finite T \<and> 0 \<le> B \<and> B \<le> T \<and> 0 < T \<and> fquot b t = Finite (B / T))"
    and "fquot b t = NaN \<longleftrightarrow> b = PosInf"
    and "fquot b t = NaN \<or> (\<exists>c. fquot b t = Finite c \<and> 0 \<le> c \<and> c \<le> 1)"
proof -
  from assms(1) consider (fin) B where "b = Finite B" "0 \<le> B" | (inf) "b = PosInf"
    unfolding fle_zero_iff by blast
  then have "(t \<noteq> PosInf \<longrightarrow> (\<exists>B T. b = Finite B \<and> t = Finite T \<and> 0 \<le> B \<and> B \<le> T \<and> 0 < T \<and> fquot b t = Finite (B / T))) \<and>
     (fquot b t = NaN \<longleftrightarrow> b = PosInf) \<and>
     (fquot b t = NaN \<or> (\<exists>c. fquot b t = Finite c \<and> 0 \<le> c \<and> c \<le> 1))"
  proof cases
    case fin
    from assms(2) fin consider (ff) T where "t = Finite T" "B \<le> T" | (fi) "t = PosInf"
      by (cases t) (auto simp: fle_def)
    then show ?thesis
    proof cases
      case ff
      with fin assms(3) have T: "0 < T" by auto
      with fin ff have "0 \<le> B / T" "B / T \<le> 1" by simp_all
      then have "to_float (B / T) = Finite (B / T)" by (rule to_float_unit)
      with fin ff T \<open>0 \<le> B / T\<close> \<open>B / T \<le> 1\<close> show ?thesis by simp
    next
      case fi
      with fin show ?thesis by simp
    qed
  next
    case inf
    with assms(2) have "t = PosInf" by (cases t) (auto simp: fle_def)
    with inf show ?thesis by simp
  qed
  then show "t \<noteq> PosInf \<longrightarrow> (\<exists>B T. b = Finite B \<and> t = Finite T \<and> 0 \<le> B \<and> B \<le> T \<and> 0 < T \<and> fquot b t = Finite (B / T))"
    and "fquot b t = NaN \<longleftrightarrow> b = PosInf"
    and "fquot b t = NaN \<or> (\<exists>c. fquot b t = Finite c \<and> 0 \<le> c \<and> c \<le> 1)"
    by blast+
qed

lemma decide_ieee_cases:
  assumes nn: "\<forall>(k, v)\<in>set sc. fle (Finite 0) v"
  shows "fle (Finite 0) (sum_values_ieee sc)"
    and "sum_values_ieee sc = Finite 0 \<Longrightarrow> decide_ieee d sc = Inr ieee_unknown"
    and "sum_values_ieee sc \<noteq> Finite 0 \<Longrightarrow>
         \<exists>best. max_by_value_ieee sc = Inr best \<and> best \<in> set sc \<and>
           fle (Finite 0) (snd best) \<and> fle (snd best) (sum_values_ieee sc) \<and>
           (\<forall>y\<in>set sc. fle (snd y) (snd best)) \<and>
           decide_ieee d sc =
             Inr \<lparr> ieee_language =
                     (if flt (fquot (snd best) (sum_values_ieee sc)) (Finite (min_confidence d))
                      then ''unknown'' else fst best),
                   ieee_confidence = fquot (snd best) (sum_values_ieee sc) \<rparr>"
proof -
  have vs: "\<forall>v\<in>set (map snd sc). fle (Finite 0) v" using nn by auto
  show tot: "fle (Finite 0) (sum_values_ieee sc)"
    unfolding sum_values_ieee_def using vs by (rule fsum_nonneg(1))
  show "sum_values_ieee sc = Finite 0 \<Longrightarrow> decide_ieee d sc = Inr ieee_unknown"
    by (simp add: decide_ieee_def)
  assume nz: "sum_values_ieee sc \<noteq> Finite 0"
  then have ne: "sc \<noteq> []" by (auto simp: sum_values_ieee_def fsum_Nil)
  have nonan: "\<forall>y\<in>set sc. snd y \<noteq> NaN" using nn by (auto simp: fle_def)
  from max_by_value_ieee_mem [OF ne nonan] obtain best where
    best: "max_by_value_ieee sc = Inr best" "best \<in> set sc" "\<forall>y\<in>set sc. fle (snd y) (snd best)"
    by blast
  from best(2) nn have b0: "fle (Finite 0) (snd best)" by auto
  from best(2) have "snd best \<in> set (map snd sc)" by simp
  with vs have bt: "fle (snd best) (sum_values_ieee sc)"
    unfolding sum_values_ieee_def by (rule fsum_nonneg(2))
  have "decide_ieee d sc =
      Inr \<lparr> ieee_language =
              (if flt (fquot (snd best) (sum_values_ieee sc)) (Finite (min_confidence d))
               then ''unknown'' else fst best),
            ieee_confidence = fquot (snd best) (sum_values_ieee sc) \<rparr>"
    using nz best(1) by (simp add: decide_ieee_def fdiv_def)
  with best b0 bt show "\<exists>best. max_by_value_ieee sc = Inr best \<and> best \<in> set sc \<and>
           fle (Finite 0) (snd best) \<and> fle (snd best) (sum_values_ieee sc) \<and>
           (\<forall>y\<in>set sc. fle (snd y) (snd best)) \<and>
           decide_ieee d sc =
             Inr \<lparr> ieee_language =
                     (if flt (fquot (snd best) (sum_values_ieee sc)) (Finite (min_confidence d))
                      then ''unknown'' else fst best),
                   ieee_confidence = fquot (snd best) (sum_values_ieee sc) \<rparr>"
    by blast
qed

lemma scores_of_metrics_nonneg:
  "nonneg_weights d \<Longrightarrow> \<forall>(k, v)\<in>set (scores_of_metrics d m). fle (Finite 0) v"
  unfolding scores_of_metrics_def by (rule weighted_scores_ieee_nonneg)

lemma detect_ieee_no_content: "no_content U inp \<Longrightarrow> detect_ieee U d inp = Inr ieee_unknown"
  by (cases inp) (auto simp: detect_ieee_def no_content_def Let_def)

lemma detect_ieee_fast:
  "\<not> no_content U (Str t) \<Longrightarrow> fast_path (count_unique_letters d (clean_text U t)) = Some (lang, n) \<Longrightarrow>
   detect_ieee U d (Str t) = Inr \<lparr> ieee_language = lang, ieee_confidence = Finite 0.95 \<rparr>"
  by (simp add: detect_ieee_def no_content_def Let_def)

lemma detect_ieee_full:
  "\<not> no_content U (Str t) \<Longrightarrow> fast_path (count_unique_letters d (clean_text U t)) = None \<Longrightarrow>
   detect_ieee U d (Str t) =
     ebind (collect_metrics U d (clean_text U t) (str_split (clean_text U t)))
       (\<lambda>m. decide_ieee d (scores_of_metrics d m))"
  by (simp add: detect_ieee_def no_content_def Let_def)

lemma ebind_InrD: "ebind x f = Inr y \<Longrightarrow> \<exists>z. x = Inr z \<and> f z = Inr y"
  by (cases x) simp_all


subsection \<open>The sort of analyze over doubles\<close>


lemma length_insert_desc: "length (insert_desc x ys) = Suc (length ys)"
  by (induction ys) auto






lemma top3_ieee_returns: "\<exists>tops. top3_ieee nan_order sc tot = Inr tops"
proof -
  have "\<exists>ys. emap (\<lambda>(lang, s).
             ebind (if fgt tot (Finite 0) then fdiv s tot else Inr (Finite 0))
               (\<lambda>c. Inr \<lparr> ieee_language = lang, ieee_confidence = c, ieee_score = s \<rparr>)) xs = Inr ys"
    for xs :: "(string \<times> pyfloat) list"
  proof (induction xs)
    case Nil
    then show ?case by simp
  next
    case (Cons x xs)
    obtain lang s where x: "x = (lang, s)" by (cases x)
    have "fgt tot (Finite 0) \<Longrightarrow> tot \<noteq> Finite 0" by (auto simp: fgt_def)
    with Cons show ?case unfolding x by (auto simp: fdiv_def)
  qed
  then show ?thesis unfolding top3_ieee_def by blast
qed





subsection \<open>Counting occurrences\<close>

lemma occurrences_at_drop: "occurrences_at sub (drop m xs) \<le> occurrences_at sub xs"
proof (induction xs arbitrary: m)
  case Nil
  then show ?case by simp
next
  case (Cons x xs)
  show ?case
  proof (cases m)
    case 0
    then show ?thesis by simp
  next
    case (Suc m')
    have "occurrences_at sub (drop m' xs) \<le> occurrences_at sub xs" by (rule Cons.IH)
    with Suc show ?thesis by simp
  qed
qed

lemma occurrences_at_empty: "occurrences_at [] xs = length xs + 1"
  by (induction xs) simp_all

lemma count_from_le_occurrences: "count_from sub xs \<le> occurrences_at sub xs"
proof (induction sub xs rule: count_from.induct)
  case (1 sub)
  then show ?case by simp
next
  case (2 sub c cs)
  show ?case
  proof (cases "sub \<noteq> [] \<and> take (length sub) (c # cs) = sub")
    case True
    with 2 have "count_from sub (drop (length sub - 1) cs) \<le> occurrences_at sub (drop (length sub - 1) cs)"
      by simp
    also have "\<dots> \<le> occurrences_at sub cs" by (rule occurrences_at_drop)
    finally show ?thesis using True by simp
  next
    case False
    with 2 have "count_from sub cs \<le> occurrences_at sub cs" by simp
    with False show ?thesis by auto
  qed
qed

lemma count_from_disjoint: "count_from sub xs * length sub \<le> length xs"
proof (induction sub xs rule: count_from.induct)
  case (1 sub)
  then show ?case by simp
next
  case (2 sub c cs)
  show ?case
  proof (cases "sub \<noteq> [] \<and> take (length sub) (c # cs) = sub")
    case True
    with 2 have ih: "count_from sub (drop (length sub - 1) cs) * length sub \<le> length cs - (length sub - 1)"
      by simp
    from True have "length (take (length sub) (c # cs)) = length sub" by simp
    then have "length sub \<le> Suc (length cs)" by simp
    with ih True show ?thesis by (simp add: algebra_simps)
  next
    case False
    with 2 have "count_from sub cs * length sub \<le> length cs" by simp
    with False show ?thesis by auto
  qed
qed

lemma str_count_le_overlapping: "str_count t sub \<le> count_overlapping t sub"
  by (simp add: str_count_def count_overlapping_def occurrences_at_empty count_from_le_occurrences)

lemma str_count_disjoint: "sub \<noteq> [] \<Longrightarrow> str_count t sub * length sub \<le> length t"
  by (simp add: str_count_def count_from_disjoint)

subsection \<open>The value of an n-gram score\<close>

lemma map_of_dict_from_keys: "k \<in> set ks \<Longrightarrow> map_of (dict_from_keys ks v) k = Some v"
proof -
  assume "k \<in> set ks"
  then have "k \<in> fst ` set (dict_from_keys ks v)"
    using keys_dict_from_keys [of ks v] by simp
  then obtain x where x: "map_of (dict_from_keys ks v) k = Some x"
    by (cases "map_of (dict_from_keys ks v) k") (auto simp: map_of_eq_None_iff)
  then have "(k, x) \<in> set (dict_from_keys ks v)" by (rule map_of_SomeD)
  then have "x = v" by (rule values_dict_from_keys)
  with x show ?thesis by simp
qed

lemma foldM_add_value:
  "map_of s k = Some v \<Longrightarrow>
   foldM (\<lambda>g sc. dict_add sc k (N g)) gs s = Inr (AList.update k (v + sum_list (map N gs)) s)"
proof (induction gs arbitrary: s v)
  case Nil
  then show ?case by (simp add: update_triv)
next
  case (Cons g gs)
  have "map_of (AList.update k (v + N g) s) k = Some (v + N g)" by (simp add: update_conv')
  from Cons.IH [OF this] Cons.prems show ?case
    by (simp add: dict_add_def add.assoc)
qed

lemma foldM_profiles_value:
  fixes s :: "(string, nat) dict"
  assumes "distinct (map fst xs)" and "fst ` set xs \<subseteq> set (map fst s)"
  shows "\<exists>s'. foldM (\<lambda>(k, x) sc. foldM (\<lambda>g sc. dict_add sc k (N g)) (G x) sc) xs s = Inr s' \<and>
              map fst s' = map fst s \<and>
              (\<forall>k x. (k, x) \<in> set xs \<longrightarrow>
                 map_of s' k = map_option (\<lambda>v. v + sum_list (map N (G x))) (map_of s k)) \<and>
              (\<forall>k. k \<notin> fst ` set xs \<longrightarrow> map_of s' k = map_of s k)"
  using assms
proof (induction xs arbitrary: s)
  case Nil
  then show ?case by simp
next
  case (Cons p xs)
  obtain k x where p: "p = (k, x)" by (cases p)
  from Cons.prems p have kin: "k \<in> set (map fst s)" by auto
  then obtain v where v: "map_of s k = Some v"
    by (cases "map_of s k") (auto simp: map_of_eq_None_iff)
  define s1 where "s1 = AList.update k (v + sum_list (map N (G x))) s"
  have step: "foldM (\<lambda>g sc. dict_add sc k (N g)) (G x) s = Inr s1"
    unfolding s1_def using v by (rule foldM_add_value)
  have keys1: "map fst s1 = map fst s"
    using kin by (simp add: s1_def update_keys)
  have m1: "map_of s1 = (map_of s)(k \<mapsto> v + sum_list (map N (G x)))"
    by (simp add: s1_def update_conv')
  from Cons.prems p have d: "distinct (map fst xs)" and sub: "fst ` set xs \<subseteq> set (map fst s1)"
    and fresh: "k \<notin> fst ` set xs"
    by (auto simp: keys1)
  from Cons.IH [OF d sub] obtain s'
    where s': "foldM (\<lambda>(k, x) sc. foldM (\<lambda>g sc. dict_add sc k (N g)) (G x) sc) xs s1 = Inr s'"
      and keys': "map fst s' = map fst s1"
      and val: "\<forall>k x. (k, x) \<in> set xs \<longrightarrow>
                 map_of s' k = map_option (\<lambda>v. v + sum_list (map N (G x))) (map_of s1 k)"
      and other: "\<forall>k. k \<notin> fst ` set xs \<longrightarrow> map_of s' k = map_of s1 k"
    by blast
  have "foldM (\<lambda>(k, x) sc. foldM (\<lambda>g sc. dict_add sc k (N g)) (G x) sc) (p # xs) s = Inr s'"
    by (simp add: p step s')
  moreover have "map fst s' = map fst s" by (simp add: keys' keys1)
  moreover have "map_of s' k' = map_option (\<lambda>v. v + sum_list (map N (G x'))) (map_of s k')"
    if "(k', x') \<in> set (p # xs)" for k' x'
  proof (cases "(k', x') = p")
    case True
    with p have "k' = k" "x' = x" by simp_all
    with other fresh v m1 show ?thesis by simp
  next
    case False
    with that have mem: "(k', x') \<in> set xs" by simp
    with fresh have "k' \<noteq> k" by force
    with val mem m1 show ?thesis by simp
  qed
  moreover have "map_of s' k' = map_of s k'" if "k' \<notin> fst ` set (p # xs)" for k'
  proof -
    from that p have "k' \<noteq> k" "k' \<notin> fst ` set xs" by auto
    with other m1 show ?thesis by simp
  qed
  ultimately show ?case by blast
qed

lemma check_ngrams_value:
  assumes "wf_detector d" and "(lang, profile) \<in> set (language_data d)"
  shows "\<exists>dg tg.
     check_ngrams U d t 2 = Inr dg \<and>
     map_of dg lang = Some (sum_list (map (str_count (str_lower U t)) (digrams profile))) \<and>
     check_ngrams U d t 3 = Inr tg \<and>
     map_of tg lang = Some (sum_list (map (str_count (str_lower U t)) (trigrams profile)))"
proof -
  let ?s0 = "dict_from_keys (languages d) (0::nat)"
  from assms(1) have dist: "distinct (map fst (language_data d))"
    and sub: "fst ` set (language_data d) \<subseteq> set (map fst ?s0)"
    using keys_dict_from_keys [of "languages d" "0::nat"] by (auto simp: wf_detector_def)
  from assms have "lang \<in> set (languages d)" by (force simp: wf_detector_def)
  then have z: "map_of ?s0 lang = Some 0" by (rule map_of_dict_from_keys)
  have two: "check_ngrams U d t 2 =
      foldM (\<lambda>(k, x) sc. foldM (\<lambda>g sc. dict_add sc k (str_count (str_lower U t) g)) (digrams x) sc)
        (language_data d) ?s0"
    by (simp add: check_ngrams_def)
  have three: "check_ngrams U d t 3 =
      foldM (\<lambda>(k, x) sc. foldM (\<lambda>g sc. dict_add sc k (str_count (str_lower U t) g)) (trigrams x) sc)
        (language_data d) ?s0"
    by (simp add: check_ngrams_def)
  from foldM_profiles_value [OF dist sub, of "str_count (str_lower U t)" digrams] assms(2) z
  obtain dg where "check_ngrams U d t 2 = Inr dg"
    "map_of dg lang = Some (sum_list (map (str_count (str_lower U t)) (digrams profile)))"
    unfolding two by fastforce
  moreover
  from foldM_profiles_value [OF dist sub, of "str_count (str_lower U t)" trigrams] assms(2) z
  obtain tg where "check_ngrams U d t 3 = Inr tg"
    "map_of tg lang = Some (sum_list (map (str_count (str_lower U t)) (trigrams profile)))"
    unfolding three by fastforce
  ultimately show ?thesis by blast
qed

subsection \<open>The invariant of a detector\<close>

lemma wf_load_language_data:
  "distinct (map fst (load_language_data fs dir langs)) \<and>
   set (map fst (load_language_data fs dir langs)) \<subseteq> set langs"
proof -
  define step where "step = (\<lambda>lang ld.
            case fs dir lang of
              FileData data \<Rightarrow> AList.update lang (LanguageData_init lang data) ld
            | NoFile \<Rightarrow> load_builtin lang ld
            | LoadError \<Rightarrow> load_builtin lang ld)"
  have keys: "set (map fst (step lang ld)) \<subseteq> insert lang (set (map fst ld))" for lang ld
    by (auto simp: step_def load_builtin_def dom_update split: file_status.splits option.splits)
  have dist: "distinct (map fst ld) \<Longrightarrow> distinct (map fst (step lang ld))" for lang ld
    by (auto simp: step_def load_builtin_def distinct_update split: file_status.splits option.splits)
  have "distinct (map fst acc) \<Longrightarrow>
        distinct (map fst (fold step langs acc)) \<and>
        set (map fst (fold step langs acc)) \<subseteq> set langs \<union> set (map fst acc)" for acc
  proof (induction langs arbitrary: acc)
    case Nil
    then show ?case by simp
  next
    case (Cons l ls)
    from Cons.IH [OF dist [OF Cons.prems], of l]
    have d: "distinct (map fst (fold step ls (step l acc)))"
      and s: "set (map fst (fold step ls (step l acc))) \<subseteq> set ls \<union> set (map fst (step l acc))"
      by blast+
    from s keys [of l acc]
    have "set (map fst (fold step ls (step l acc))) \<subseteq> set (l # ls) \<union> set (map fst acc)"
      by auto
    with d show ?case by simp
  qed
  from this [of "[]"] show ?thesis
    by (simp add: load_language_data_def step_def)
qed

lemma wf_LangDetector_init: "wf_detector (LangDetector_init fs langs dir min_conf)"
  using wf_load_language_data by (simp add: wf_detector_def LangDetector_init_def Let_def)

lemma wf_add_language: "wf_detector d \<Longrightarrow> wf_detector (add_language d lang_code data)"
  by (auto simp: wf_detector_def add_language_def distinct_update dom_update)

lemma wf_remove_language: "wf_detector d \<Longrightarrow> wf_detector (fst (remove_language d lang_code))"
proof -
  assume wf: "wf_detector d"
  have "k \<in> set (remove1 lang_code (languages d))"
    if "k \<in> set (map fst (AList.delete lang_code (language_data d)))" for k
  proof -
    from that have "k \<noteq> lang_code" "k \<in> set (map fst (language_data d))"
      by (auto simp: delete_keys)
    with wf show ?thesis by (auto simp: wf_detector_def)
  qed
  with wf show ?thesis
    by (auto simp: wf_detector_def remove_language_def distinct_delete)
qed

lemma str_count_zero_iff:
  "sub \<noteq> [] \<Longrightarrow> str_count t sub = 0 \<longleftrightarrow> count_overlapping t sub = 0"
proof -
  assume ne: "sub \<noteq> []"
  have "count_from sub xs = 0 \<longleftrightarrow> occurrences_at sub xs = 0" for xs
    using ne by (induction sub xs rule: count_from.induct) auto
  with ne show ?thesis by (simp add: str_count_def count_overlapping_def)
qed

lemma count_from_first_occurrence:
  assumes "sub \<noteq> []" and "occurrences_at sub (pre @ butlast sub) = 0"
  shows "count_from sub (pre @ sub @ rest) = Suc (count_from sub rest)"
  using assms(2)
proof (induction pre)
  case Nil
  from assms(1) obtain c cs where sub: "sub = c # cs" by (cases sub) auto
  then show ?case by simp
next
  case (Cons p ps)
  from Cons.prems have nomatch: "take (length sub) ((p # ps) @ butlast sub) \<noteq> sub"
    and rest0: "occurrences_at sub (ps @ butlast sub) = 0"
    by (auto split: if_splits)
  have len: "length sub \<le> length ((p # ps) @ butlast sub)" by simp
  have "take (length sub) ((p # ps) @ sub @ rest) = take (length sub) ((p # ps) @ butlast sub)"
  proof -
    have "(p # ps) @ sub @ rest = ((p # ps) @ butlast sub) @ (last sub # rest)"
      using assms(1) by simp
    then show ?thesis using len by (simp only: take_append) simp
  qed
  with nomatch have "take (length sub) (p # (ps @ sub @ rest)) \<noteq> sub" by simp
  then have "count_from sub ((p # ps) @ sub @ rest) = count_from sub (ps @ sub @ rest)"
    by simp
  with Cons.IH [OF rest0] show ?case by simp
qed

lemma str_count_first_occurrence:
  "sub \<noteq> [] \<Longrightarrow> count_overlapping (pre @ butlast sub) sub = 0 \<Longrightarrow>
   str_count (pre @ sub @ rest) sub = Suc (str_count rest sub)"
  by (simp add: str_count_def count_overlapping_def count_from_first_occurrence)

lemma foldM_add_returned:
  fixes s :: "(string, nat) dict"
  assumes "foldM (\<lambda>g sc. dict_add sc k (N g)) gs s = Inr s'"
  shows "dict_get s' k 0 = dict_get s k 0 + sum_list (map N gs) \<and>
         (\<forall>k'. k' \<noteq> k \<longrightarrow> map_of s' k' = map_of s k')"
proof (cases gs)
  case Nil
  with assms show ?thesis by simp
next
  case (Cons g gs')
  with assms obtain v where v: "map_of s k = Some v"
    by (cases "map_of s k") (auto simp: dict_add_def)
  from foldM_add_value [OF v, of N gs] assms
  have "s' = AList.update k (v + sum_list (map N gs)) s" by simp
  with v show ?thesis by (simp add: dict_get_def update_conv')
qed

lemma foldM_profiles_returned:
  fixes s :: "(string, nat) dict"
  assumes "distinct (map fst xs)"
    and "foldM (\<lambda>(k, x) sc. foldM (\<lambda>g sc. dict_add sc k (N g)) (G x) sc) xs s = Inr s'"
  shows "(\<forall>(k, x)\<in>set xs. dict_get s' k 0 = dict_get s k 0 + sum_list (map N (G x))) \<and>
         (\<forall>k. k \<notin> fst ` set xs \<longrightarrow> map_of s' k = map_of s k)"
  using assms
proof (induction xs arbitrary: s)
  case Nil
  then show ?case by simp
next
  case (Cons p xs)
  obtain k x where p: "p = (k, x)" by (cases p)
  from Cons.prems(2) p obtain s1
    where s1: "foldM (\<lambda>g sc. dict_add sc k (N g)) (G x) s = Inr s1"
      and rest: "foldM (\<lambda>(k, x) sc. foldM (\<lambda>g sc. dict_add sc k (N g)) (G x) sc) xs s1 = Inr s'"
    by (cases "foldM (\<lambda>g sc. dict_add sc k (N g)) (G x) s") simp_all
  from foldM_add_returned [OF s1]
  have v1: "dict_get s1 k 0 = dict_get s k 0 + sum_list (map N (G x))"
    and o1: "\<forall>k'. k' \<noteq> k \<longrightarrow> map_of s1 k' = map_of s k'" by blast+
  from Cons.prems(1) p have d: "distinct (map fst xs)" and fresh: "k \<notin> fst ` set xs" by auto
  from Cons.IH [OF d rest]
  have vs: "\<forall>(k, x)\<in>set xs. dict_get s' k 0 = dict_get s1 k 0 + sum_list (map N (G x))"
    and os: "\<forall>k. k \<notin> fst ` set xs \<longrightarrow> map_of s' k = map_of s1 k" by blast+
  have "dict_get s' k' 0 = dict_get s k' 0 + sum_list (map N (G x'))"
    if "(k', x') \<in> set (p # xs)" for k' x'
  proof (cases "(k', x') = p")
    case True
    with p have e: "k' = k" "x' = x" by simp_all
    from os fresh have "map_of s' k = map_of s1 k" by blast
    then have "dict_get s' k 0 = dict_get s1 k 0" by (simp add: dict_get_def)
    with v1 e show ?thesis by simp
  next
    case False
    with that have mem: "(k', x') \<in> set xs" by simp
    with fresh have "k' \<noteq> k" by force
    with o1 have "dict_get s1 k' 0 = dict_get s k' 0" by (simp add: dict_get_def)
    with vs mem show ?thesis by auto
  qed
  moreover have "map_of s' k' = map_of s k'" if "k' \<notin> fst ` set (p # xs)" for k'
  proof -
    from that p have "k' \<noteq> k" "k' \<notin> fst ` set xs" by auto
    with os o1 show ?thesis by simp
  qed
  ultimately show ?case by blast
qed

lemma dict_get_dict_from_keys: "dict_get (dict_from_keys ks v) k v = v"
proof (cases "map_of (dict_from_keys ks v) k")
  case None
  then show ?thesis by (simp add: dict_get_def)
next
  case (Some x)
  then have "(k, x) \<in> set (dict_from_keys ks v)" by (rule map_of_SomeD)
  then have "x = v" by (rule values_dict_from_keys)
  with Some show ?thesis by (simp add: dict_get_def)
qed

lemma check_ngrams_returned:
  assumes "distinct (map fst (language_data d))" and "(lang, profile) \<in> set (language_data d)"
  shows "check_ngrams U d t 2 = Inr dg \<Longrightarrow>
           dict_get dg lang 0 = sum_list (map (str_count (str_lower U t)) (digrams profile))"
    and "check_ngrams U d t 3 = Inr tg \<Longrightarrow>
           dict_get tg lang 0 = sum_list (map (str_count (str_lower U t)) (trigrams profile))"
proof -
  let ?s0 = "dict_from_keys (languages d) (0::nat)"
  have z: "dict_get ?s0 lang 0 = 0" by (rule dict_get_dict_from_keys)
  have two: "check_ngrams U d t 2 =
      foldM (\<lambda>(k, x) sc. foldM (\<lambda>g sc. dict_add sc k (str_count (str_lower U t) g)) (digrams x) sc)
        (language_data d) ?s0"
    by (simp add: check_ngrams_def)
  have three: "check_ngrams U d t 3 =
      foldM (\<lambda>(k, x) sc. foldM (\<lambda>g sc. dict_add sc k (str_count (str_lower U t) g)) (trigrams x) sc)
        (language_data d) ?s0"
    by (simp add: check_ngrams_def)
  show "dict_get dg lang 0 = sum_list (map (str_count (str_lower U t)) (digrams profile))"
    if "check_ngrams U d t 2 = Inr dg"
    using foldM_profiles_returned [OF assms(1) that [unfolded two]] assms(2) z by auto
  show "dict_get tg lang 0 = sum_list (map (str_count (str_lower U t)) (trigrams profile))"
    if "check_ngrams U d t 3 = Inr tg"
    using foldM_profiles_returned [OF assms(1) that [unfolded three]] assms(2) z by auto
qed

subsection \<open>The concrete instances\<close>

lemma default_detector_fields:
  "languages default_detector = [''russian'', ''ukrainian'']"
  "min_confidence default_detector = 0.6"
  "language_data default_detector =
     [(''russian'', LanguageData_init ''russian'' russian_data),
      (''ukrainian'', LanguageData_init ''ukrainian'' ukrainian_data)]"
  by (simp_all add: default_detector_def LangDetector_init_def DEFAULT_LANGUAGES_def
      load_language_data_def no_files_def load_builtin_def BUILTIN_LANGUAGE_DATA_def)

lemma builtin_unique_letters:
  "unique_letters (LanguageData_init ''russian'' russian_data) = {[1099], [1098], [1101]}"
  "unique_letters (LanguageData_init ''ukrainian'' ukrainian_data) = {[1108], [1110], [1111], [1169]}"
  by (auto simp: LanguageData_init_def russian_data_def ukrainian_data_def raw_of_def get_or_def
      russian_unique_letters_def ukrainian_unique_letters_def)

lemma clean_y: "clean_text basic_unicode [1099] = [1099]"
  by (simp add: clean_text_def basic_unicode_def sub_punctuation_def is_word_def is_space_def
      str_strip_def)

lemma split_y: "str_split [1099] = [[1099]]"
  by (simp add: is_space_def)

lemma swapped_detector_fields:
  "language_data swapped_detector =
     [(''ukrainian'', LanguageData_init ''ukrainian'' ukrainian_data),
      (''russian'', LanguageData_init ''russian'' russian_data)]"
  by (simp add: swapped_detector_def default_detector_fields)

lemma builtin_profile_fields:
  "frequent_letters (LanguageData_init ''russian'' russian_data) = set russian_frequent_letters"
  "frequent_letters (LanguageData_init ''ukrainian'' ukrainian_data) = set ukrainian_frequent_letters"
  "word_endings (LanguageData_init ''russian'' russian_data) = russian_word_endings"
  "word_endings (LanguageData_init ''ukrainian'' ukrainian_data) = ukrainian_word_endings"
  "marker_words (LanguageData_init ''russian'' russian_data) = set russian_marker_words"
  "marker_words (LanguageData_init ''ukrainian'' ukrainian_data) = set ukrainian_marker_words"
  "digrams (LanguageData_init ''russian'' russian_data) = russian_digrams"
  "digrams (LanguageData_init ''ukrainian'' ukrainian_data) = ukrainian_digrams"
  "trigrams (LanguageData_init ''russian'' russian_data) = russian_trigrams"
  "trigrams (LanguageData_init ''ukrainian'' ukrainian_data) = ukrainian_trigrams"
  "weights (LanguageData_init ''russian'' russian_data) = default_weights"
  "weights (LanguageData_init ''ukrainian'' ukrainian_data) = default_weights"
  by (simp_all add: LanguageData_init_def russian_data_def ukrainian_data_def raw_of_def get_or_def)

lemma lower_na: "str_lower basic_unicode [1085, 1072] = [1085, 1072]"
  by (simp add: basic_unicode_def)

lemma clean_na: "clean_text basic_unicode [1085, 1072] = [1085, 1072]"
  by (simp add: clean_text_def lower_na sub_punctuation_def is_word_def is_space_def
      str_strip_def basic_unicode_def)

lemma split_na: "str_split [1085, 1072] = [[1085, 1072]]"
  by (simp add: is_space_def)

lemma endings_na: "check_word_endings default_detector [[1085, 1072]] = Inr [(''russian'', 0), (''ukrainian'', 0)]"
  by (simp add: check_word_endings_def default_detector_fields dict_from_keys_def)

lemma markers_na: "check_marker_words basic_unicode default_detector [[1085, 1072]] = Inr [(''russian'', 0), (''ukrainian'', 0)]"
  by (simp add: check_marker_words_def default_detector_fields dict_from_keys_def lower_na
      builtin_profile_fields russian_marker_words_def ukrainian_marker_words_def)

lemma digrams_na: "check_ngrams basic_unicode default_detector [1085, 1072] 2 = Inr [(''russian'', 1), (''ukrainian'', 1)]"
  by (simp add: check_ngrams_def default_detector_fields dict_from_keys_def lower_na
      builtin_profile_fields russian_digrams_def ukrainian_digrams_def dict_add_def str_count_def)

lemma trigrams_na: "check_ngrams basic_unicode default_detector [1085, 1072] 3 = Inr [(''russian'', 0), (''ukrainian'', 0)]"
  by (simp add: check_ngrams_def default_detector_fields dict_from_keys_def lower_na
      builtin_profile_fields russian_trigrams_def ukrainian_trigrams_def dict_add_def str_count_def)

lemma unique_na: "count_unique_letters default_detector [1085, 1072] = [(''russian'', 0), (''ukrainian'', 0)]"
  by (simp add: count_unique_letters_def default_detector_fields builtin_unique_letters count_in_def)

lemma frequent_na: "count_frequent_letters default_detector [1085, 1072] = [(''russian'', 0), (''ukrainian'', 0)]"
  by (simp add: count_frequent_letters_def default_detector_fields builtin_profile_fields count_in_def
     russian_frequent_letters_def ukrainian_frequent_letters_def)

lemma scores_na:
  "calculate_weighted_scores default_detector [(''russian'', 0), (''ukrainian'', 0)]
     [(''russian'', 0), (''ukrainian'', 0)] [(''russian'', 0), (''ukrainian'', 0)]
     [(''russian'', 0), (''ukrainian'', 0)] [(''russian'', 1), (''ukrainian'', 1)]
     [(''russian'', 0), (''ukrainian'', 0)] = [(''russian'', 1), (''ukrainian'', 1)]"
  by (simp add: calculate_weighted_scores_def default_detector_fields dict_from_keys_def
      builtin_profile_fields default_weights_def dict_get_def)

lemma full_scores_na:
  "full_scores basic_unicode default_detector [1085, 1072] = Inr [(''russian'', 1), (''ukrainian'', 1)]"
  by (simp only: full_scores_def split_na endings_na markers_na digrams_na trigrams_na unique_na
      frequent_na scores_na ebind_Inr)

lemma fast_path_na: "fast_path (count_unique_letters default_detector [1085, 1072]) = None"
  by (simp add: unique_na fast_path_def fast_path_condition_def)

lemma detect_na:
  "detect basic_unicode default_detector (Str [1085, 1072]) = Inr \<lparr> language = ''unknown'', confidence = 0.5 \<rparr>"
proof -
  have "detect basic_unicode default_detector (Str [1085, 1072]) =
     ebind (full_scores basic_unicode default_detector (clean_text basic_unicode [1085, 1072])) (\<lambda>sc.
       if sum_values sc = 0 then Inr unknown
       else ebind (max_by_value sc) (\<lambda>best_lang.
         if snd best_lang / sum_values sc < min_confidence default_detector
         then Inr \<lparr> language = ''unknown'', confidence = snd best_lang / sum_values sc \<rparr>
         else Inr \<lparr> language = fst best_lang, confidence = snd best_lang / sum_values sc \<rparr>))"
    by (rule detect_full_scoring) (simp_all only: clean_na split_na fast_path_na, simp_all)
  then show ?thesis
    by (simp add: clean_na full_scores_na sum_values_def default_detector_fields)
qed

lemma lower_y: "str_lower basic_unicode [1099] = [1099]"
  by (simp add: basic_unicode_def)

lemma endings_y: "check_word_endings default_detector [[1099]] = Inr zero_counts"
  by (simp add: check_word_endings_def default_detector_fields dict_from_keys_def zero_counts_def)

lemma markers_y: "check_marker_words basic_unicode default_detector [[1099]] = Inr zero_counts"
  by (simp add: check_marker_words_def default_detector_fields dict_from_keys_def lower_y
      builtin_profile_fields russian_marker_words_def ukrainian_marker_words_def zero_counts_def)

lemma digrams_y: "check_ngrams basic_unicode default_detector [1099] 2 = Inr zero_counts"
  by (simp add: check_ngrams_def default_detector_fields dict_from_keys_def lower_y
      builtin_profile_fields russian_digrams_def ukrainian_digrams_def dict_add_def str_count_def
      zero_counts_def)

lemma trigrams_y: "check_ngrams basic_unicode default_detector [1099] 3 = Inr zero_counts"
  by (simp add: check_ngrams_def default_detector_fields dict_from_keys_def lower_y
      builtin_profile_fields russian_trigrams_def ukrainian_trigrams_def dict_add_def str_count_def
      zero_counts_def)

lemma unique_y: "count_unique_letters default_detector [1099] = [(''russian'', 1), (''ukrainian'', 0)]"
  by (simp add: count_unique_letters_def default_detector_fields builtin_unique_letters count_in_def)

lemma frequent_y: "count_frequent_letters default_detector [1099] = [(''russian'', 1), (''ukrainian'', 0)]"
  by (simp add: count_frequent_letters_def default_detector_fields builtin_profile_fields count_in_def
     russian_frequent_letters_def ukrainian_frequent_letters_def)

lemma scores_y:
  "calculate_weighted_scores default_detector [(''russian'', 1), (''ukrainian'', 0)]
     [(''russian'', 1), (''ukrainian'', 0)] zero_counts zero_counts zero_counts zero_counts
   = [(''russian'', 3), (''ukrainian'', 0)]"
  by (simp add: calculate_weighted_scores_def default_detector_fields dict_from_keys_def
      builtin_profile_fields default_weights_def dict_get_def zero_counts_def)

lemma analyze_y: "analyze basic_unicode default_detector (Str [1099]) = Inr (Report report_y)"
proof -
  have ne: "[1099::nat] \<noteq> []" "clean_text basic_unicode [1099] \<noteq> []"
    by (simp_all add: clean_y)
  show ?thesis
    unfolding analyze_unfold [OF ne] clean_y split_y endings_y markers_y digrams_y trigrams_y
      unique_y frequent_y scores_y ebind_Inr
    by (simp add: report_y_def full_scoring_outcome_def top3_def sorted_scores_def sum_values_def
        default_detector_fields)
qed

lemma scores_na':
  "calculate_weighted_scores default_detector zero_counts zero_counts zero_counts zero_counts
     [(''russian'', 1), (''ukrainian'', 1)] zero_counts = [(''russian'', 1), (''ukrainian'', 1)]"
  using scores_na by (simp add: zero_counts_def)

lemma analyze_na: "analyze basic_unicode default_detector (Str [1085, 1072]) = Inr (Report report_na)"
proof -
  have ne: "[1085::nat, 1072] \<noteq> []" "clean_text basic_unicode [1085, 1072] \<noteq> []"
    by (simp_all add: clean_na)
  have z: "Inr [(''russian'', 0::nat), (''ukrainian'', 0)] = (Inr zero_counts :: error + (string, nat) dict)"
    "[(''russian'', 0::nat), (''ukrainian'', 0)] = zero_counts"
    by (simp_all add: zero_counts_def)
  show ?thesis
    unfolding analyze_unfold [OF ne] clean_na split_na endings_na markers_na digrams_na trigrams_na
      unique_na frequent_na z scores_na' ebind_Inr
    by (simp add: report_na_def full_scoring_outcome_def top3_def sorted_scores_def sum_values_def
        default_detector_fields)
qed

lemma wf_default_detector: "wf_detector default_detector"
  by (simp add: wf_detector_def default_detector_fields)

lemma lower_nnn: "str_lower basic_unicode [1085, 1085, 1085] = [1085, 1085, 1085]"
  by (simp add: basic_unicode_def)

lemma digrams_nnn:
  "check_ngrams basic_unicode default_detector [1085, 1085, 1085] 2 = Inr [(''russian'', 1), (''ukrainian'', 2)]"
  by (simp add: check_ngrams_def default_detector_fields dict_from_keys_def lower_nnn
      builtin_profile_fields russian_digrams_def ukrainian_digrams_def dict_add_def str_count_def)

lemma lower_nnnn: "str_lower basic_unicode [1085, 1085, 1085, 1085] = [1085, 1085, 1085, 1085]"
  by (simp add: basic_unicode_def)

lemma digrams_nnnn:
  "check_ngrams basic_unicode default_detector [1085, 1085, 1085, 1085] 2 =
     Inr [(''russian'', 2), (''ukrainian'', 4)]"
  by (simp add: check_ngrams_def default_detector_fields dict_from_keys_def lower_nnnn
      builtin_profile_fields russian_digrams_def ukrainian_digrams_def dict_add_def str_count_def)

lemma overlapping_nnn:
  "sum_list (map (count_overlapping [1085, 1085, 1085]) russian_digrams) = 2"
  by (simp add: russian_digrams_def count_overlapping_def)

subsection \<open>The tables of the two modules\<close>

lemma LangLib_tables:
  "LangLib_russian_unique = russian_unique_letters"
  "LangLib_ukrainian_unique = ukrainian_unique_letters"
  "LangLib_uk_frequent = ukrainian_frequent_letters"
  "LangLib_russian_endings = russian_word_endings"
  "LangLib_ukrainian_endings = ukrainian_word_endings"
  "LangLib_russian_words = russian_marker_words"
  "LangLib_ukrainian_words = ukrainian_marker_words"
  "LangLib_russian_digrams = russian_digrams"
  "LangLib_ukrainian_digrams = ukrainian_digrams"
  by (simp_all add: LangLib_russian_unique_def russian_unique_letters_def
      LangLib_ukrainian_unique_def ukrainian_unique_letters_def
      LangLib_uk_frequent_def ukrainian_frequent_letters_def
      LangLib_russian_endings_def russian_word_endings_def
      LangLib_ukrainian_endings_def ukrainian_word_endings_def
      LangLib_russian_words_def russian_marker_words_def
      LangLib_ukrainian_words_def ukrainian_marker_words_def
      LangLib_russian_digrams_def russian_digrams_def
      LangLib_ukrainian_digrams_def ukrainian_digrams_def)

lemma russian_frequent_extra:
  "set russian_frequent_letters = insert [1105] (set LangLib_ru_frequent)"
  by (auto simp: russian_frequent_letters_def LangLib_ru_frequent_def)

lemma builtin_unique_sets:
  "unique_letters (LanguageData_init ''russian'' russian_data) = set russian_unique_letters"
  "unique_letters (LanguageData_init ''ukrainian'' ukrainian_data) = set ukrainian_unique_letters"
  by (simp_all add: LanguageData_init_def russian_data_def ukrainian_data_def raw_of_def get_or_def)

lemma two_unique:
  "count_unique_letters default_detector t =
     [(''russian'', fst (LangLib_count_unique_letters t)),
      (''ukrainian'', snd (LangLib_count_unique_letters t))]"
  by (simp add: count_unique_letters_def default_detector_fields builtin_unique_sets
      LangLib_count_unique_letters_def LangLib_tables)

lemma count_in_insert:
  "x \<notin> S \<Longrightarrow> count_in (insert x S) t = count_in S t + count_in {x} t"
proof (induction t)
  case Nil
  then show ?case by (simp add: count_in_def)
next
  case (Cons c t)
  then show ?case by (auto simp: count_in_def)
qed

lemma two_frequent:
  "count_frequent_letters default_detector t =
     [(''russian'', fst (LangLib_count_frequent_letters t) + count_in {[1105]} t),
      (''ukrainian'', snd (LangLib_count_frequent_letters t))]"
proof -
  have "[1105] \<notin> set LangLib_ru_frequent" by (simp add: LangLib_ru_frequent_def)
  then have "count_in (set russian_frequent_letters) t =
      count_in (set LangLib_ru_frequent) t + count_in {[1105]} t"
    unfolding russian_frequent_extra by (rule count_in_insert)
  then show ?thesis
    by (simp add: count_frequent_letters_def default_detector_fields builtin_profile_fields
        LangLib_count_frequent_letters_def LangLib_tables)
qed

lemma two_endings_step:
  "foldM (\<lambda>word scores.
             if length word < 3 then Inr scores
             else foldM (\<lambda>(lang_code, lang_data) scores.
                          if has_ending word (word_endings lang_data)
                          then dict_add scores lang_code 1 else Inr scores)
                        (language_data default_detector) scores)
           ws [(''russian'', a), (''ukrainian'', b)] =
   Inr [(''russian'', fst (fold (\<lambda>word (ru_score, uk_score).
            if length word < 3 then (ru_score, uk_score)
            else (let uk' = (if has_ending word LangLib_ukrainian_endings
                             then uk_score + 1 else uk_score);
                      ru' = (if has_ending word LangLib_russian_endings
                             then ru_score + 1 else ru_score)
                  in (ru', uk'))) ws (a, b))),
        (''ukrainian'', snd (fold (\<lambda>word (ru_score, uk_score).
            if length word < 3 then (ru_score, uk_score)
            else (let uk' = (if has_ending word LangLib_ukrainian_endings
                             then uk_score + 1 else uk_score);
                      ru' = (if has_ending word LangLib_russian_endings
                             then ru_score + 1 else ru_score)
                  in (ru', uk'))) ws (a, b)))]"
proof (induction ws arbitrary: a b)
  case Nil
  then show ?case by simp
next
  case (Cons w ws)
  show ?case
    by (simp add: default_detector_fields builtin_profile_fields LangLib_tables dict_add_def
        Cons.IH Let_def)
qed

lemma two_endings:
  "check_word_endings default_detector ws =
     Inr [(''russian'', fst (LangLib_check_word_endings ws)),
          (''ukrainian'', snd (LangLib_check_word_endings ws))]"
proof -
  have "dict_from_keys (languages default_detector) (0::nat) = [(''russian'', 0), (''ukrainian'', 0)]"
    by (simp add: dict_from_keys_def default_detector_fields)
  then show ?thesis
    unfolding check_word_endings_def LangLib_check_word_endings_def
    by (simp only: two_endings_step)
qed

lemma two_markers_step:
  "foldM (\<lambda>word scores.
             foldM (\<lambda>(lang_code, lang_data) scores.
                      if word \<in> marker_words lang_data
                      then dict_add scores lang_code 1 else Inr scores)
                   (language_data default_detector) scores)
           ws [(''russian'', a), (''ukrainian'', b)] =
   Inr [(''russian'', fst (fold (\<lambda>word (ru_score, uk_score).
                (let uk' = (if word \<in> set LangLib_ukrainian_words then uk_score + 1 else uk_score);
                     ru' = (if word \<in> set LangLib_russian_words then ru_score + 1 else ru_score)
                 in (ru', uk'))) ws (a, b))),
        (''ukrainian'', snd (fold (\<lambda>word (ru_score, uk_score).
                (let uk' = (if word \<in> set LangLib_ukrainian_words then uk_score + 1 else uk_score);
                     ru' = (if word \<in> set LangLib_russian_words then ru_score + 1 else ru_score)
                 in (ru', uk'))) ws (a, b)))]"
proof (induction ws arbitrary: a b)
  case Nil
  then show ?case by simp
next
  case (Cons w ws)
  define a' where "a' = (if w \<in> set LangLib_russian_words then a + 1 else a)"
  define b' where "b' = (if w \<in> set LangLib_ukrainian_words then b + 1 else b)"
  have body: "foldM (\<lambda>(lang_code, lang_data) scores.
                      if w \<in> marker_words lang_data
                      then dict_add scores lang_code 1 else Inr scores)
                   (language_data default_detector) [(''russian'', a), (''ukrainian'', b)]
              = Inr [(''russian'', a'), (''ukrainian'', b')]"
    by (simp add: default_detector_fields builtin_profile_fields LangLib_tables dict_add_def
        a'_def b'_def)
  have step: "(case (a, b) of (ru_score, uk_score) \<Rightarrow>
                (let uk' = (if w \<in> set LangLib_ukrainian_words then uk_score + 1 else uk_score);
                     ru' = (if w \<in> set LangLib_russian_words then ru_score + 1 else ru_score)
                 in (ru', uk'))) = (a', b')"
    by (simp add: a'_def b'_def Let_def)
  show ?case
    by (simp only: foldM.simps fold.simps comp_def body ebind_Inr step Cons.IH)
qed

lemma two_markers:
  "check_marker_words U default_detector ws =
     Inr [(''russian'', fst (LangLib_check_marker_words U ws)),
          (''ukrainian'', snd (LangLib_check_marker_words U ws))]"
proof -
  have "dict_from_keys (languages default_detector) (0::nat) = [(''russian'', 0), (''ukrainian'', 0)]"
    by (simp add: dict_from_keys_def default_detector_fields)
  then show ?thesis
    by (simp add: check_marker_words_def LangLib_check_marker_words_def two_markers_step Let_def)
qed

lemma fold_add_sum_list: "fold (\<lambda>g s. s + N g) gs (a::nat) = a + sum_list (map N gs)"
  by (induction gs arbitrary: a) simp_all

lemma two_ngram_loop:
  "foldM (\<lambda>(k, x) sc. foldM (\<lambda>g sc. dict_add sc k (N g)) (G x) sc)
      [(''russian'', p), (''ukrainian'', q)] [(''russian'', 0), (''ukrainian'', 0)] =
   Inr [(''russian'', sum_list (map N (G p))), (''ukrainian'', sum_list (map N (G q)))]"
proof -
  have 1: "foldM (\<lambda>g sc. dict_add sc ''russian'' (N g)) (G p) [(''russian'', 0), (''ukrainian'', 0)] =
      Inr [(''russian'', sum_list (map N (G p))), (''ukrainian'', 0)]"
    using foldM_add_value [of "[(''russian'', 0), (''ukrainian'', 0)]" "''russian''" 0 N "G p"]
    by simp
  have 2: "foldM (\<lambda>g sc. dict_add sc ''ukrainian'' (N g)) (G q) [(''russian'', a), (''ukrainian'', 0)] =
      Inr [(''russian'', a), (''ukrainian'', sum_list (map N (G q)))]" for a
    using foldM_add_value [of "[(''russian'', a), (''ukrainian'', 0)]" "''ukrainian''" 0 N "G q"]
    by simp
  show ?thesis by (simp add: 1 2)
qed

lemma two_digrams:
  "check_ngrams U default_detector t 2 =
     Inr [(''russian'', fst (LangLib_check_digrams U t)),
          (''ukrainian'', snd (LangLib_check_digrams U t))]"
proof -
  have s0: "dict_from_keys [''russian'', ''ukrainian''] (0::nat) = [(''russian'', 0), (''ukrainian'', 0)]"
    by (simp add: dict_from_keys_def)
  have "check_ngrams U default_detector t 2 =
      foldM (\<lambda>(k, x) sc. foldM (\<lambda>g sc. dict_add sc k (str_count (str_lower U t) g)) (digrams x) sc)
        (language_data default_detector) (dict_from_keys (languages default_detector) 0)"
    by (simp add: check_ngrams_def)
  also have "\<dots> = Inr [(''russian'', sum_list (map (str_count (str_lower U t)) russian_digrams)),
                       (''ukrainian'', sum_list (map (str_count (str_lower U t)) ukrainian_digrams))]"
    unfolding default_detector_fields s0 two_ngram_loop builtin_profile_fields ..
  finally show ?thesis
    by (simp add: LangLib_check_digrams_def Let_def fold_add_sum_list LangLib_tables)
qed

lemma two_trigrams:
  "check_ngrams U default_detector t 3 =
     Inr [(''russian'', sum_list (map (str_count (str_lower U t)) russian_trigrams)),
          (''ukrainian'', sum_list (map (str_count (str_lower U t)) ukrainian_trigrams))]"
proof -
  have s0: "dict_from_keys [''russian'', ''ukrainian''] (0::nat) = [(''russian'', 0), (''ukrainian'', 0)]"
    by (simp add: dict_from_keys_def)
  have "check_ngrams U default_detector t 3 =
      foldM (\<lambda>(k, x) sc. foldM (\<lambda>g sc. dict_add sc k (str_count (str_lower U t) g)) (trigrams x) sc)
        (language_data default_detector) (dict_from_keys (languages default_detector) 0)"
    by (simp add: check_ngrams_def)
  also have "\<dots> = Inr [(''russian'', sum_list (map (str_count (str_lower U t)) russian_trigrams)),
                       (''ukrainian'', sum_list (map (str_count (str_lower U t)) ukrainian_trigrams))]"
    unfolding default_detector_fields s0 two_ngram_loop builtin_profile_fields ..
  finally show ?thesis .
qed

lemma LangLib_y:
  "LangLib_get_confidence basic_unicode (Str [1099]) =
     Inr \<lparr> language = ''russian'', confidence = 1,
       details = Some \<lparr> d_unique_letters = (1, 0), d_frequent_letters = (1, 0),
                         d_word_endings = (0, 0), d_marker_words = (0, 0),
                         d_digrams = (0, 0), d_scores = (3, 0) \<rparr> \<rparr>"
proof -
  have u: "LangLib_count_unique_letters [1099] = (1, 0)"
    using two_unique [of "[1099]"] by (simp add: unique_y prod_eq_iff)
  have f: "LangLib_count_frequent_letters [1099] = (1, 0)"
    by (simp add: LangLib_count_frequent_letters_def LangLib_ru_frequent_def LangLib_uk_frequent_def
        count_in_def)
  have e: "LangLib_check_word_endings [[1099]] = (0, 0)"
    by (simp add: LangLib_check_word_endings_def)
  have m: "LangLib_check_marker_words basic_unicode [[1099]] = (0, 0)"
    using two_markers [of basic_unicode "[[1099]]"] by (simp add: markers_y zero_counts_def prod_eq_iff)
  have g: "LangLib_check_digrams basic_unicode [1099] = (0, 0)"
    using two_digrams [of basic_unicode "[1099]"] by (simp add: digrams_y zero_counts_def prod_eq_iff)
  show ?thesis
    unfolding LangLib_get_confidence_def
    by (simp add: clean_y split_y u f e m g del: str_split.simps)
qed

lemma two_scores:
  "calculate_weighted_scores default_detector
     [(''russian'', u1), (''ukrainian'', u2)] [(''russian'', f1), (''ukrainian'', f2)]
     [(''russian'', e1), (''ukrainian'', e2)] [(''russian'', m1), (''ukrainian'', m2)]
     [(''russian'', g1), (''ukrainian'', g2)] [(''russian'', h1), (''ukrainian'', h2)] =
   [(''russian'', real u1 * 2 + real f1 + real e1 * 1.5 + real m1 * 3 + real g1 + real h1 * 1.2),
    (''ukrainian'', real u2 * 2 + real f2 + real e2 * 1.5 + real m2 * 3 + real g2 + real h2 * 1.2)]"
  by (simp add: calculate_weighted_scores_def default_detector_fields dict_from_keys_def
      builtin_profile_fields default_weights_def dict_get_def)

lemma two_outcome:
  assumes "0 \<le> R" "0 \<le> K"
  shows "full_scoring_outcome mc [(''russian'', R), (''ukrainian'', K)] =
     (if R + K = 0 then \<lparr> language = ''unknown'', confidence = 0 \<rparr>
      else if K \<le> R
           then \<lparr> language = (if R / (R + K) < mc then ''unknown'' else ''russian''),
                  confidence = R / (R + K) \<rparr>
           else \<lparr> language = (if K / (R + K) < mc then ''unknown'' else ''ukrainian''),
                  confidence = K / (R + K) \<rparr>)"
  using assms by (auto simp: full_scoring_outcome_def Let_def)

lemma two_results_agree:
  assumes "t \<noteq> []" and "str_split (clean_text U t) \<noteq> []"
    and "fast_path (count_unique_letters default_detector (clean_text U t)) = None"
    and "count_in {[1105]} (clean_text U t) = 0"
    and "check_ngrams U default_detector (clean_text U t) 3 = Inr zero_counts"
    and "LangLib_get_confidence U (Str t) = Inr L"
    and "language L = ''unknown'' \<or> 0.6 \<le> confidence L"
  shows "detect U default_detector (Str t) =
           Inr \<lparr> language = language L, confidence = confidence L \<rparr>"
proof -
  define c where "c = clean_text U t"
  define R where "R = real (fst (LangLib_count_unique_letters c) * 2)
      + real (fst (LangLib_count_frequent_letters c))
      + real (fst (LangLib_check_word_endings (str_split c))) * 1.5
      + real (fst (LangLib_check_marker_words U (str_split c)) * 3)
      + real (fst (LangLib_check_digrams U c))"
  define K where "K = real (snd (LangLib_count_unique_letters c) * 2)
      + real (snd (LangLib_count_frequent_letters c))
      + real (snd (LangLib_check_word_endings (str_split c))) * 1.5
      + real (snd (LangLib_check_marker_words U (str_split c)) * 3)
      + real (snd (LangLib_check_digrams U c))"
  have R0: "0 \<le> R" and K0: "0 \<le> K" by (simp_all add: R_def K_def)
  from assms(2) have cne: "c \<noteq> []" by (auto simp: c_def)
  have "language (projr (LangLib_get_confidence U (Str t))) =
      (if R + K = 0 then ''unknown'' else if R > K then ''russian'' else ''ukrainian'')"
    and "confidence (projr (LangLib_get_confidence U (Str t))) =
      (if R + K = 0 then 0 else if R > K then R / (R + K) else K / (R + K))"
    using assms(1,2) cne
    by (simp_all add: LangLib_get_confidence_def Let_def case_prod_beta LangLib_unknown_def
        c_def [symmetric] R_def K_def)
  then have Llang: "language L =
      (if R + K = 0 then ''unknown'' else if R > K then ''russian'' else ''ukrainian'')"
    and Lconf: "confidence L =
      (if R + K = 0 then 0 else if R > K then R / (R + K) else K / (R + K))"
    by (simp_all add: assms(6))
  have fs: "full_scores U default_detector c = Inr [(''russian'', R), (''ukrainian'', K)]"
    using assms(4,5)
    by (simp add: full_scores_def c_def [symmetric] two_endings two_markers two_digrams two_unique
        two_frequent two_scores zero_counts_def R_def K_def)
  have "detect U default_detector (Str t) =
      Inr (full_scoring_outcome 0.6 [(''russian'', R), (''ukrainian'', K)])"
    using detect_outcome [OF assms(1-3)] fs
    by (simp add: c_def [symmetric] default_detector_fields)
  also have "full_scoring_outcome 0.6 [(''russian'', R), (''ukrainian'', K)] =
      \<lparr> language = language L, confidence = confidence L \<rparr>"
  proof (cases "R + K = 0")
    case True
    then show ?thesis by (simp add: two_outcome [OF R0 K0] Llang Lconf)
  next
    case False
    with R0 K0 have pos: "0 < R + K" by simp
    from False have "language L \<noteq> ''unknown''" by (simp add: Llang)
    with assms(7) have conf: "0.6 \<le> confidence L" by simp
    show ?thesis
    proof (cases "R > K")
      case True
      with False conf show ?thesis
        by (simp add: two_outcome [OF R0 K0] Llang Lconf)
    next
      case le: False
      with False conf have "0.6 \<le> K / (R + K)" by (simp add: Lconf)
      with pos have "0.6 * (R + K) \<le> K" by (simp add: pos_le_divide_eq)
      with R0 pos have "R < K" by simp
      with False conf le show ?thesis
        by (simp add: two_outcome [OF R0 K0] Llang Lconf)
    qed
  qed
  finally show ?thesis .
qed

lemma LangLib_get_confidence_returns: "\<exists>L. LangLib_get_confidence U (Str t) = Inr L"
  by (simp add: LangLib_get_confidence_def Let_def case_prod_beta)

lemma lower_net: "str_lower basic_unicode [1085, 1077, 1090] = [1085, 1077, 1090]"
  by (simp add: basic_unicode_def)

lemma clean_net: "clean_text basic_unicode [1085, 1077, 1090] = [1085, 1077, 1090]"
  by (simp add: clean_text_def lower_net sub_punctuation_def is_word_def is_space_def
      str_strip_def basic_unicode_def)

lemma split_net: "str_split [1085, 1077, 1090] = [[1085, 1077, 1090]]"
  by (simp add: is_space_def)

lemma unique_net:
  "count_unique_letters default_detector [1085, 1077, 1090] = [(''russian'', 0), (''ukrainian'', 0)]"
  by (simp add: count_unique_letters_def default_detector_fields builtin_unique_letters count_in_def)

lemma trigrams_net: "check_ngrams basic_unicode default_detector [1085, 1077, 1090] 3 = Inr zero_counts"
  by (simp add: check_ngrams_def default_detector_fields dict_from_keys_def lower_net
      builtin_profile_fields russian_trigrams_def ukrainian_trigrams_def dict_add_def str_count_def
      zero_counts_def)

lemma LangLib_net_counts:
  "LangLib_count_unique_letters [1085, 1077, 1090] = (0, 0)"
  "LangLib_count_frequent_letters [1085, 1077, 1090] = (0, 0)"
  "LangLib_check_word_endings [[1085, 1077, 1090]] = (1, 0)"
  "LangLib_check_marker_words basic_unicode [[1085, 1077, 1090]] = (1, 0)"
  "LangLib_check_digrams basic_unicode [1085, 1077, 1090] = (1, 1)"
  by (simp_all add: LangLib_count_unique_letters_def LangLib_count_frequent_letters_def
      LangLib_check_word_endings_def LangLib_check_marker_words_def LangLib_check_digrams_def
      LangLib_russian_unique_def LangLib_ukrainian_unique_def LangLib_ru_frequent_def
      LangLib_uk_frequent_def LangLib_russian_endings_def LangLib_ukrainian_endings_def
      LangLib_russian_words_def LangLib_ukrainian_words_def LangLib_russian_digrams_def
      LangLib_ukrainian_digrams_def count_in_def endswith_def lower_net str_count_def)

lemma LangLib_net:
  "LangLib_get_confidence basic_unicode (Str [1085, 1077, 1090]) =
     Inr \<lparr> language = ''russian'', confidence = 11 / 13,
           details = Some \<lparr> d_unique_letters = (0, 0), d_frequent_letters = (0, 0),
                             d_word_endings = (1, 0), d_marker_words = (1, 0),
                             d_digrams = (1, 1), d_scores = (11 / 2, 1) \<rparr> \<rparr>"
  unfolding LangLib_get_confidence_def
  by (simp add: clean_net split_net LangLib_net_counts del: str_split.simps)

subsection \<open>The instances over doubles\<close>

lemma nonneg_default_detector: "nonneg_weights default_detector"
  by (simp add: nonneg_weights_def default_detector_fields builtin_profile_fields
      default_weights_def)

lemma two_scores_ieee:
  "scores_of_metrics default_detector
     \<lparr> unique_letters_metric = [(''russian'', u1), (''ukrainian'', u2)],
       frequent_letters_metric = [(''russian'', f1), (''ukrainian'', f2)],
       word_endings_metric = [(''russian'', e1), (''ukrainian'', e2)],
       marker_words_metric = [(''russian'', m1), (''ukrainian'', m2)],
       digrams_metric = [(''russian'', g1), (''ukrainian'', g2)],
       trigrams_metric = [(''russian'', h1), (''ukrainian'', h2)] \<rparr> =
   [(''russian'',
       fadd (fadd (fadd (fadd (fadd (to_float (real u1 * 2)) (to_float (real f1)))
         (to_float (real e1 * 1.5))) (to_float (real m1 * 3))) (to_float (real g1)))
         (to_float (real h1 * 1.2))),
    (''ukrainian'',
       fadd (fadd (fadd (fadd (fadd (to_float (real u2 * 2)) (to_float (real f2)))
         (to_float (real e2 * 1.5))) (to_float (real m2 * 3))) (to_float (real g2)))
         (to_float (real h2 * 1.2)))]"
  by (simp add: scores_of_metrics_def calculate_weighted_scores_ieee_def default_detector_fields
      dict_from_keys_def builtin_profile_fields default_weights_def dict_get_def weight_def
      count_times_def)

lemma to_float_small: "\<bar>x\<bar> \<le> 1000 \<Longrightarrow> to_float x = Finite x"
proof -
  assume a: "\<bar>x\<bar> \<le> 1000"
  have "(1000::real) < 2 ^ 970"
  proof -
    have "(1000::real) < 2 ^ 10" by simp
    also have "(2::real) ^ 10 \<le> 2 ^ 970" by (rule power_increasing) simp_all
    finally show ?thesis .
  qed
  with overflow_threshold_large a have "x < overflow_threshold" "- overflow_threshold < x"
    by linarith+
  then show ?thesis by (simp add: to_float_def)
qed

lemma metrics_na:
  "collect_metrics basic_unicode default_detector [1085, 1072] [[1085, 1072]] =
     Inr \<lparr> unique_letters_metric = zero_counts, frequent_letters_metric = zero_counts,
           word_endings_metric = zero_counts, marker_words_metric = zero_counts,
           digrams_metric = [(''russian'', 1), (''ukrainian'', 1)],
           trigrams_metric = zero_counts \<rparr>"
  by (simp only: collect_metrics_def Let_def endings_na markers_na digrams_na trigrams_na unique_na
      frequent_na ebind_Inr zero_counts_def)

lemma scores_ieee_na:
  "scores_of_metrics default_detector
     \<lparr> unique_letters_metric = zero_counts, frequent_letters_metric = zero_counts,
       word_endings_metric = zero_counts, marker_words_metric = zero_counts,
       digrams_metric = [(''russian'', 1), (''ukrainian'', 1)],
       trigrams_metric = zero_counts \<rparr> = [(''russian'', Finite 1), (''ukrainian'', Finite 1)]"
  unfolding zero_counts_def two_scores_ieee by (simp add: to_float_small)

lemma sum_ieee_na: "sum_values_ieee [(''russian'', Finite 1), (''ukrainian'', Finite 1)] = Finite 2"
  by (simp add: sum_values_ieee_def fsum_def to_float_small)

lemma decide_ieee_na:
  "decide_ieee default_detector [(''russian'', Finite 1), (''ukrainian'', Finite 1)] =
     Inr \<lparr> ieee_language = ''unknown'', ieee_confidence = Finite (1 / 2) \<rparr>"
  by (simp add: decide_ieee_def sum_ieee_na fgt_def fdiv_def to_float_small
      default_detector_fields)

lemma not_no_content_na: "\<not> no_content basic_unicode (Str [1085, 1072])"
  by (simp add: no_content_def clean_na split_na is_space_def)

lemma detect_ieee_na:
  "detect_ieee basic_unicode default_detector (Str [1085, 1072]) =
     Inr \<lparr> ieee_language = ''unknown'', ieee_confidence = Finite (1 / 2) \<rparr>"
proof -
  have fp: "fast_path (count_unique_letters default_detector (clean_text basic_unicode [1085, 1072])) = None"
    by (simp only: clean_na fast_path_na)
  show ?thesis
    unfolding detect_ieee_full [OF not_no_content_na fp]
    by (simp only: clean_na split_na metrics_na ebind_Inr scores_ieee_na decide_ieee_na)
qed

lemma fast_path_y:
  "fast_path (count_unique_letters default_detector [1099]) = Some (''russian'', 1)"
  by (simp add: unique_y fast_path_def fast_path_condition_def)

lemma detect_ieee_y:
  "detect_ieee basic_unicode default_detector (Str [1099]) =
     Inr \<lparr> ieee_language = ''russian'', ieee_confidence = Finite 0.95 \<rparr>"
proof -
  have nc: "\<not> no_content basic_unicode (Str [1099])"
    by (simp add: no_content_def clean_y split_y is_space_def)
  have fp: "fast_path (count_unique_letters default_detector (clean_text basic_unicode [1099])) =
      Some (''russian'', 1)"
    by (simp only: clean_y fast_path_y)
  from detect_ieee_fast [OF nc fp] show ?thesis .
qed

lemma heavy_detector_fields:
  "languages heavy_detector = [''heavy'']"
  "min_confidence heavy_detector = 0.6"
  "language_data heavy_detector = [(''heavy'', LanguageData_init ''heavy'' heavy_data)]"
  by (simp_all add: heavy_detector_def add_language_def LangDetector_init_def
      load_language_data_def no_files_def load_builtin_def BUILTIN_LANGUAGE_DATA_def)

lemma heavy_profile_fields:
  "unique_letters (LanguageData_init ''heavy'' heavy_data) = {}"
  "frequent_letters (LanguageData_init ''heavy'' heavy_data) = {}"
  "word_endings (LanguageData_init ''heavy'' heavy_data) = []"
  "marker_words (LanguageData_init ''heavy'' heavy_data) = {}"
  "digrams (LanguageData_init ''heavy'' heavy_data) = [[1085, 1072]]"
  "trigrams (LanguageData_init ''heavy'' heavy_data) = []"
  "weights (LanguageData_init ''heavy'' heavy_data) = [(''digrams'', 2 ^ 1023)]"
  by (simp_all add: LanguageData_init_def heavy_data_def get_or_def)

lemma nonneg_heavy_detector: "nonneg_weights heavy_detector"
  by (simp add: nonneg_weights_def heavy_detector_fields heavy_profile_fields)

lemma lower_nana: "str_lower basic_unicode [1085, 1072, 1085, 1072] = [1085, 1072, 1085, 1072]"
  by (simp add: basic_unicode_def)

lemma clean_nana: "clean_text basic_unicode [1085, 1072, 1085, 1072] = [1085, 1072, 1085, 1072]"
  by (simp add: clean_text_def lower_nana sub_punctuation_def is_word_def is_space_def
      str_strip_def basic_unicode_def)

lemma split_nana: "str_split [1085, 1072, 1085, 1072] = [[1085, 1072, 1085, 1072]]"
  by (simp add: is_space_def)

lemma metrics_nana:
  "collect_metrics basic_unicode heavy_detector [1085, 1072, 1085, 1072] [[1085, 1072, 1085, 1072]] =
     Inr \<lparr> unique_letters_metric = [(''heavy'', 0)], frequent_letters_metric = [(''heavy'', 0)],
           word_endings_metric = [(''heavy'', 0)], marker_words_metric = [(''heavy'', 0)],
           digrams_metric = [(''heavy'', 2)], trigrams_metric = [(''heavy'', 0)] \<rparr>"
  by (simp add: collect_metrics_def count_unique_letters_def count_frequent_letters_def
      check_word_endings_def check_marker_words_def check_ngrams_def heavy_detector_fields
      heavy_profile_fields dict_from_keys_def count_in_def lower_nana dict_add_def str_count_def)

lemma scores_ieee_nana:
  "scores_of_metrics heavy_detector
     \<lparr> unique_letters_metric = [(''heavy'', 0)], frequent_letters_metric = [(''heavy'', 0)],
       word_endings_metric = [(''heavy'', 0)], marker_words_metric = [(''heavy'', 0)],
       digrams_metric = [(''heavy'', 2)], trigrams_metric = [(''heavy'', 0)] \<rparr> =
     [(''heavy'', PosInf)]"
proof -
  show ?thesis
    by (simp add: scores_of_metrics_def calculate_weighted_scores_ieee_def heavy_detector_fields
        dict_from_keys_def heavy_profile_fields dict_get_def weight_def count_times_def
        to_float_def overflow_threshold_def)
qed

lemma detect_ieee_nana:
  "detect_ieee basic_unicode heavy_detector (Str [1085, 1072, 1085, 1072]) =
     Inr \<lparr> ieee_language = ''heavy'', ieee_confidence = NaN \<rparr>"
proof -
  have nc: "\<not> no_content basic_unicode (Str [1085, 1072, 1085, 1072])"
    by (simp add: no_content_def clean_nana split_nana is_space_def)
  have fp: "fast_path (count_unique_letters heavy_detector (clean_text basic_unicode [1085, 1072, 1085, 1072])) = None"
    by (simp add: clean_nana count_unique_letters_def heavy_detector_fields heavy_profile_fields
        count_in_def fast_path_def fast_path_condition_def)
  have dec: "decide_ieee heavy_detector [(''heavy'', PosInf)] =
      Inr \<lparr> ieee_language = ''heavy'', ieee_confidence = NaN \<rparr>"
    by (simp add: decide_ieee_def sum_values_ieee_def fsum_def fdiv_def)
  show ?thesis
    unfolding detect_ieee_full [OF nc fp]
    by (simp only: clean_nana split_nana metrics_nana ebind_Inr scores_ieee_nana dec)
qed











section \<open>Empty and invalid input\<close>


lemma clean_bangs: "clean_text basic_unicode [33, 33] = []"
  by (simp add: clean_text_def basic_unicode_def sub_punctuation_def is_word_def is_space_def
      str_strip_def)



section \<open>The fast path\<close>

lemma fast_path_condition_iff:
  "fast_path_condition us (lang, n) \<longleftrightarrow> n > 0 \<and> (\<forall>(l, s)\<in>set us. l \<noteq> lang \<longrightarrow> s = 0)"
  by (auto simp: fast_path_condition_def list_all_iff)

lemma fast_path_condition_same_language:
  assumes "fast_path_condition us (l1, n1)" "(l1, n1) \<in> set us"
    and "fast_path_condition us (l2, n2)" "(l2, n2) \<in> set us"
  shows "l1 = l2"
  using assms by (fastforce simp: fast_path_condition_iff)

lemma fast_path_condition_cong:
  "set us' = set us \<Longrightarrow> fast_path_condition us' = fast_path_condition us"
  by (rule ext) (auto simp: fast_path_condition_iff)

lemma fast_path_SomeD:
  "fast_path us = Some p \<Longrightarrow> p \<in> set us \<and> fast_path_condition us p"
  by (auto simp: fast_path_def find_Some_iff)

lemma fast_path_None_iff:
  "fast_path us = None \<longleftrightarrow> (\<forall>p\<in>set us. \<not> fast_path_condition us p)"
  by (auto simp: fast_path_def find_None_iff)

lemma fast_path_order:
  assumes "set us' = set us"
  shows "map_option fst (fast_path us') = map_option fst (fast_path us)"
proof (cases "fast_path us")
  case None
  then have "fast_path us' = None"
    using assms fast_path_condition_cong [OF assms] by (simp add: fast_path_None_iff)
  with None show ?thesis by simp
next
  case (Some p)
  then have p: "p \<in> set us" "fast_path_condition us p" by (auto dest: fast_path_SomeD)
  then have "fast_path us' \<noteq> None"
    using assms fast_path_condition_cong [OF assms] by (auto simp: fast_path_None_iff)
  then obtain q where q: "fast_path us' = Some q" by auto
  then have "q \<in> set us" "fast_path_condition us q"
    using assms fast_path_condition_cong [OF assms] by (auto dest: fast_path_SomeD)
  with p have "fst q = fst p"
    using fast_path_condition_same_language [of us "fst q" "snd q" "fst p" "snd p"] by simp
  with Some q show ?thesis by simp
qed

text \<open>
  Claim C10. In any unique-letter count map at most one language meets the fast-path
  condition: two items that meet it carry the same language. Hence the language the fast
  path returns is the same for every order of the count map, and for every order of the
  profile mapping it is computed from.
\<close>

theorem fast_path_at_most_one:
  "((l1, n1) \<in> set us \<and> fast_path_condition us (l1, n1) \<and>
    (l2, n2) \<in> set us \<and> fast_path_condition us (l2, n2) \<longrightarrow> l1 = l2) \<and>
   (set us' = set us \<longrightarrow> map_option fst (fast_path us') = map_option fst (fast_path us)) \<and>
   (distinct (map fst (language_data d)) \<and> distinct (map fst (language_data d')) \<and>
    set (language_data d') = set (language_data d) \<longrightarrow>
      map_option fst (fast_path (count_unique_letters d' t)) =
      map_option fst (fast_path (count_unique_letters d t)))"
proof (intro conjI impI)
  assume "(l1, n1) \<in> set us \<and> fast_path_condition us (l1, n1) \<and>
    (l2, n2) \<in> set us \<and> fast_path_condition us (l2, n2)"
  then show "l1 = l2" using fast_path_condition_same_language by blast
next
  assume "set us' = set us"
  then show "map_option fst (fast_path us') = map_option fst (fast_path us)"
    by (rule fast_path_order)
next
  assume a: "distinct (map fst (language_data d)) \<and> distinct (map fst (language_data d')) \<and>
    set (language_data d') = set (language_data d)"
  then have "set (count_unique_letters d' t) = set (count_unique_letters d t)"
    by (simp add: count_unique_letters_map)
  then show "map_option fst (fast_path (count_unique_letters d' t)) =
      map_option fst (fast_path (count_unique_letters d t))"
    by (rule fast_path_order)
qed

theorem fast_path_at_most_one_witness:
  "fast_path_condition [(''russian'', 2), (''ukrainian'', 0)] (''russian'', 2) \<and>
   set [(''ukrainian'', 0), (''russian'', 2::nat)] = set [(''russian'', 2), (''ukrainian'', 0)] \<and>
   map_option fst (fast_path [(''ukrainian'', 0), (''russian'', 2)]) =
     map_option fst (fast_path [(''russian'', 2), (''ukrainian'', 0)]) \<and>
   distinct (map fst (language_data default_detector)) \<and>
   distinct (map fst (language_data swapped_detector)) \<and>
   set (language_data swapped_detector) = set (language_data default_detector) \<and>
   map_option fst (fast_path (count_unique_letters swapped_detector [1099])) =
     map_option fst (fast_path (count_unique_letters default_detector [1099]))"
proof -
  let ?us = "[(''russian'', 2::nat), (''ukrainian'', 0)]"
  let ?us' = "[(''ukrainian'', 0::nat), (''russian'', 2)]"
  have c: "fast_path_condition ?us (''russian'', 2)"
    by (simp add: fast_path_condition_def)
  have s: "set ?us' = set ?us" by auto
  have d1: "distinct (map fst (language_data default_detector))"
    by (simp add: default_detector_fields)
  have d2: "distinct (map fst (language_data swapped_detector))"
    by (simp add: swapped_detector_fields)
  have e: "set (language_data swapped_detector) = set (language_data default_detector)"
    by (auto simp: swapped_detector_fields default_detector_fields)
  from fast_path_at_most_one [of "''russian''" 2 ?us "''russian''" 2 ?us' default_detector
      swapped_detector "[1099]"] c s d1 d2 e
  show ?thesis by simp
qed

lemma fast_path_hit:
  assumes dist: "distinct (map fst us)"
    and mem: "(lang, n) \<in> set us" and pos: "n > 0"
    and others: "\<forall>(l, s)\<in>set us. l \<noteq> lang \<longrightarrow> s = 0"
  shows "fast_path us = Some (lang, n)"
proof -
  have c: "fast_path_condition us (lang, n)"
    using pos others by (simp add: fast_path_condition_iff)
  with mem have "fast_path us \<noteq> None" by (auto simp: fast_path_None_iff)
  then obtain q where q: "fast_path us = Some q" by auto
  then have qs: "q \<in> set us" "fast_path_condition us q" by (auto dest: fast_path_SomeD)
  with c mem have "fst q = lang"
    using fast_path_condition_same_language [of us "fst q" "snd q" lang n] by simp
  with qs(1) mem dist have "q = (lang, n)"
    by (metis eq_key_imp_eq_value prod.collapse)
  with q show ?thesis by simp
qed

text \<open>
  Claim C1. When the text has at least one token, one profile counts at least one of its
  unique letters in the cleaned text and every other profile counts none, \<open>detect\<close>
  returns that profile's language with confidence 0.95.
\<close>

theorem fast_path_detect:
  assumes "distinct (map fst (language_data d))"
    and "t \<noteq> []" and "str_split (clean_text U t) \<noteq> []"
    and "(lang, profile) \<in> set (language_data d)"
    and "count_in (unique_letters profile) (clean_text U t) > 0"
    and "\<forall>(l, p)\<in>set (language_data d). l \<noteq> lang \<longrightarrow> count_in (unique_letters p) (clean_text U t) = 0"
  shows "detect U d (Str t) = Inr \<lparr> language = lang, confidence = 0.95 \<rparr>"
proof -
  let ?c = "clean_text U t"
  let ?us = "count_unique_letters d ?c"
  have us: "?us = map (\<lambda>(lc, ld). (lc, count_in (unique_letters ld) ?c)) (language_data d)"
    using assms(1) by (rule count_unique_letters_map)
  have d: "distinct (map fst ?us)"
    using assms(1) by (simp add: us comp_def case_prod_beta)
  have m: "(lang, count_in (unique_letters profile) ?c) \<in> set ?us"
    using assms(4) by (force simp: us)
  have o: "\<forall>(l, s)\<in>set ?us. l \<noteq> lang \<longrightarrow> s = 0"
    using assms(6) by (auto simp: us)
  have "fast_path ?us = Some (lang, count_in (unique_letters profile) ?c)"
    using d m assms(5) o by (rule fast_path_hit)
  moreover from assms(3) have "?c \<noteq> []" by auto
  ultimately show ?thesis using assms(2,3) by (simp add: detect_def Let_def)
qed

theorem fast_path_detect_witness:
  "distinct (map fst (language_data default_detector)) \<and>
   str_split (clean_text basic_unicode [1099]) = [[1099]] \<and>
   count_in (unique_letters (LanguageData_init ''russian'' russian_data)) (clean_text basic_unicode [1099]) = 1 \<and>
   count_in (unique_letters (LanguageData_init ''ukrainian'' ukrainian_data)) (clean_text basic_unicode [1099]) = 0 \<and>
   detect basic_unicode default_detector (Str [1099]) =
     Inr \<lparr> language = ''russian'', confidence = 0.95 \<rparr>"
proof -
  have h1: "distinct (map fst (language_data default_detector))"
    by (simp add: default_detector_fields)
  have h2: "[1099::nat] \<noteq> []" by simp
  have s: "str_split (clean_text basic_unicode [1099]) = [[1099]]"
    by (simp add: clean_y is_space_def)
  then have h3: "str_split (clean_text basic_unicode [1099]) \<noteq> []" by simp
  have h4: "(''russian'', LanguageData_init ''russian'' russian_data) \<in> set (language_data default_detector)"
    by (simp add: default_detector_fields)
  have c1: "count_in (unique_letters (LanguageData_init ''russian'' russian_data)) (clean_text basic_unicode [1099]) = 1"
    by (simp add: clean_y builtin_unique_letters count_in_def)
  then have h5: "count_in (unique_letters (LanguageData_init ''russian'' russian_data)) (clean_text basic_unicode [1099]) > 0"
    by simp
  have c2: "count_in (unique_letters (LanguageData_init ''ukrainian'' ukrainian_data)) (clean_text basic_unicode [1099]) = 0"
    by (simp add: clean_y builtin_unique_letters count_in_def)
  then have h6: "\<forall>(l, p)\<in>set (language_data default_detector). l \<noteq> ''russian'' \<longrightarrow>
      count_in (unique_letters p) (clean_text basic_unicode [1099]) = 0"
    by (simp add: default_detector_fields)
  from fast_path_detect [OF h1 h2 h3 h4 h5 h6] h1 s c1 c2 show ?thesis by simp
qed

section \<open>Confidence\<close>

text \<open>
  Claim C4, as amended. Scores are doubles here: a result beyond the range of a double is
  an infinity, and finite values are exact. For a detector whose profiles carry finite
  non-negative weights, whenever \<open>detect\<close> returns, the confidence is 0.0 when the input has
  no content and 0.95 when the fast path fires; otherwise full scoring returns its metrics,
  the total is not negative, and the confidence is 0.0 when the total is zero and
  \<open>best_score / total\<close> when it is not, where \<open>0 <= best_score <= total\<close>. The confidence
  is a number between 0 and 1 whenever the total is finite; it is nan exactly when the best
  score is infinite; it is never anything else.
\<close>

theorem confidence_values:
  assumes "nonneg_weights d" and "detect_ieee U d inp = Inr r"
  shows "(no_content U inp \<longrightarrow> ieee_confidence r = Finite 0) \<and>
         (inp = Str t \<and> \<not> no_content U inp \<and>
          fast_path (count_unique_letters d (clean_text U t)) \<noteq> None \<longrightarrow>
            ieee_confidence r = Finite 0.95) \<and>
         (inp = Str t \<and> \<not> no_content U inp \<and>
          fast_path (count_unique_letters d (clean_text U t)) = None \<longrightarrow>
            (\<exists>m. collect_metrics U d (clean_text U t) (str_split (clean_text U t)) = Inr m \<and>
               fle (Finite 0) (sum_values_ieee (scores_of_metrics d m)) \<and>
               (sum_values_ieee (scores_of_metrics d m) = Finite 0 \<longrightarrow>
                  ieee_confidence r = Finite 0) \<and>
               (sum_values_ieee (scores_of_metrics d m) \<noteq> Finite 0 \<longrightarrow>
                  (\<exists>best. max_by_value_ieee (scores_of_metrics d m) = Inr best \<and>
                     fle (Finite 0) (snd best) \<and>
                     fle (snd best) (sum_values_ieee (scores_of_metrics d m)) \<and>
                     ieee_confidence r = fquot (snd best) (sum_values_ieee (scores_of_metrics d m)) \<and>
                     (ieee_confidence r = NaN \<longleftrightarrow> snd best = PosInf) \<and>
                     (sum_values_ieee (scores_of_metrics d m) \<noteq> PosInf \<longrightarrow>
                        (\<exists>b tot. snd best = Finite b \<and>
                           sum_values_ieee (scores_of_metrics d m) = Finite tot \<and>
                           0 \<le> b \<and> b \<le> tot \<and> 0 < tot \<and>
                           ieee_confidence r = Finite (b / tot))))))) \<and>
         (ieee_confidence r = NaN \<or> (\<exists>c. ieee_confidence r = Finite c \<and> 0 \<le> c \<and> c \<le> 1))"
proof -
  have unk: "ieee_confidence ieee_unknown = Finite 0" by (simp add: ieee_unknown_def)
  have A: "ieee_confidence r = Finite 0" if "no_content U inp"
    using detect_ieee_no_content [OF that, of d] assms(2) unk by simp
  have B: "ieee_confidence r = Finite 0.95"
    if "inp = Str t" "\<not> no_content U inp" "fast_path (count_unique_letters d (clean_text U t)) \<noteq> None"
  proof -
    from that(3) obtain lang n where
      "fast_path (count_unique_letters d (clean_text U t)) = Some (lang, n)" by auto
    from detect_ieee_fast [OF that(2) [unfolded that(1)] this] assms(2) that(1)
    show ?thesis by auto
  qed
  have C: "\<exists>m. collect_metrics U d (clean_text U t) (str_split (clean_text U t)) = Inr m \<and>
               fle (Finite 0) (sum_values_ieee (scores_of_metrics d m)) \<and>
               (sum_values_ieee (scores_of_metrics d m) = Finite 0 \<longrightarrow>
                  ieee_confidence r = Finite 0) \<and>
               (sum_values_ieee (scores_of_metrics d m) \<noteq> Finite 0 \<longrightarrow>
                  (\<exists>best. max_by_value_ieee (scores_of_metrics d m) = Inr best \<and>
                     fle (Finite 0) (snd best) \<and>
                     fle (snd best) (sum_values_ieee (scores_of_metrics d m)) \<and>
                     ieee_confidence r = fquot (snd best) (sum_values_ieee (scores_of_metrics d m)) \<and>
                     (ieee_confidence r = NaN \<longleftrightarrow> snd best = PosInf) \<and>
                     (sum_values_ieee (scores_of_metrics d m) \<noteq> PosInf \<longrightarrow>
                        (\<exists>b tot. snd best = Finite b \<and>
                           sum_values_ieee (scores_of_metrics d m) = Finite tot \<and>
                           0 \<le> b \<and> b \<le> tot \<and> 0 < tot \<and>
                           ieee_confidence r = Finite (b / tot)))))"
    if "inp = Str t" "\<not> no_content U inp" "fast_path (count_unique_letters d (clean_text U t)) = None"
  proof -
    from detect_ieee_full [OF that(2) [unfolded that(1)] that(3)] assms(2) that(1)
    have "ebind (collect_metrics U d (clean_text U t) (str_split (clean_text U t)))
            (\<lambda>m. decide_ieee d (scores_of_metrics d m)) = Inr r" by simp
    from ebind_InrD [OF this] obtain m where
      m: "collect_metrics U d (clean_text U t) (str_split (clean_text U t)) = Inr m"
      and dec: "decide_ieee d (scores_of_metrics d m) = Inr r" by blast
    define sc where "sc = scores_of_metrics d m"
    have nn: "\<forall>(k, v)\<in>set sc. fle (Finite 0) v"
      unfolding sc_def using assms(1) by (rule scores_of_metrics_nonneg)
    note dc = decide_ieee_cases [OF nn]
    have z: "ieee_confidence r = Finite 0" if "sum_values_ieee sc = Finite 0"
      using dc(2) [OF that] dec unk by (simp add: sc_def)
    have nz: "\<exists>best. max_by_value_ieee sc = Inr best \<and>
                     fle (Finite 0) (snd best) \<and> fle (snd best) (sum_values_ieee sc) \<and>
                     ieee_confidence r = fquot (snd best) (sum_values_ieee sc) \<and>
                     (ieee_confidence r = NaN \<longleftrightarrow> snd best = PosInf) \<and>
                     (sum_values_ieee sc \<noteq> PosInf \<longrightarrow>
                        (\<exists>b tot. snd best = Finite b \<and> sum_values_ieee sc = Finite tot \<and>
                           0 \<le> b \<and> b \<le> tot \<and> 0 < tot \<and> ieee_confidence r = Finite (b / tot)))"
      if "sum_values_ieee sc \<noteq> Finite 0"
    proof -
      from dc(3) [OF that] obtain best where
        best: "max_by_value_ieee sc = Inr best" "fle (Finite 0) (snd best)"
          "fle (snd best) (sum_values_ieee sc)"
        and r: "decide_ieee d sc =
             Inr \<lparr> ieee_language =
                     (if flt (fquot (snd best) (sum_values_ieee sc)) (Finite (min_confidence d))
                      then ''unknown'' else fst best),
                   ieee_confidence = fquot (snd best) (sum_values_ieee sc) \<rparr>"
        by blast
      from r dec have c: "ieee_confidence r = fquot (snd best) (sum_values_ieee sc)"
        by (auto simp: sc_def)
      note q = fquot_share [OF best(2) best(3) that]
      from q(1) have "sum_values_ieee sc \<noteq> PosInf \<longrightarrow>
                        (\<exists>b tot. snd best = Finite b \<and> sum_values_ieee sc = Finite tot \<and>
                           0 \<le> b \<and> b \<le> tot \<and> 0 < tot \<and> ieee_confidence r = Finite (b / tot))"
        unfolding c by blast
      with best c q(2) show ?thesis by (simp only:) blast
    qed
    from m dc(1) z nz show ?thesis unfolding sc_def by blast
  qed
  have D: "ieee_confidence r = NaN \<or> (\<exists>c. ieee_confidence r = Finite c \<and> 0 \<le> c \<and> c \<le> 1)"
  proof (cases "no_content U inp")
    case True
    with A show ?thesis by simp
  next
    case False
    then obtain t' where t': "inp = Str t'"
      by (cases inp) (use assms(2) in \<open>auto simp: no_content_def detect_ieee_def\<close>)
    show ?thesis
    proof (cases "fast_path (count_unique_letters d (clean_text U t'))")
      case (Some p)
      then obtain lang n where
        "fast_path (count_unique_letters d (clean_text U t')) = Some (lang, n)" by (cases p) auto
      from detect_ieee_fast [OF False [unfolded t'] this] assms(2) t'
      have "ieee_confidence r = Finite 0.95" by auto
      moreover have "(0::real) \<le> 0.95 \<and> (0.95::real) \<le> 1" by simp
      ultimately show ?thesis by blast
    next
      case None
      from detect_ieee_full [OF False [unfolded t'] None] assms(2) t'
      have "ebind (collect_metrics U d (clean_text U t') (str_split (clean_text U t')))
              (\<lambda>m. decide_ieee d (scores_of_metrics d m)) = Inr r" by simp
      from ebind_InrD [OF this] obtain m where
        dec: "decide_ieee d (scores_of_metrics d m) = Inr r" by blast
      define sc where "sc = scores_of_metrics d m"
      have nn: "\<forall>(k, v)\<in>set sc. fle (Finite 0) v"
        unfolding sc_def using assms(1) by (rule scores_of_metrics_nonneg)
      note dc = decide_ieee_cases [OF nn]
      show ?thesis
      proof (cases "sum_values_ieee sc = Finite 0")
        case True
        from dc(2) [OF True] dec unk show ?thesis by (simp add: sc_def)
      next
        case nz: False
        from dc(3) [OF nz] obtain best where
          best: "fle (Finite 0) (snd best)" "fle (snd best) (sum_values_ieee sc)"
          and r: "decide_ieee d sc =
             Inr \<lparr> ieee_language =
                     (if flt (fquot (snd best) (sum_values_ieee sc)) (Finite (min_confidence d))
                      then ''unknown'' else fst best),
                   ieee_confidence = fquot (snd best) (sum_values_ieee sc) \<rparr>"
          by blast
        from r dec have c: "ieee_confidence r = fquot (snd best) (sum_values_ieee sc)"
          by (auto simp: sc_def)
        from fquot_share(3) [OF best nz] show ?thesis unfolding c .
      qed
    qed
  qed
  from A B C D show ?thesis by (simp only:) blast
qed


theorem confidence_values_witness:
  "nonneg_weights default_detector \<and>
   no_content basic_unicode (Str [33, 33]) \<and>
   detect_ieee basic_unicode default_detector (Str [33, 33]) =
     Inr \<lparr> ieee_language = ''unknown'', ieee_confidence = Finite 0 \<rparr> \<and>
   \<not> no_content basic_unicode (Str [1099]) \<and>
   fast_path (count_unique_letters default_detector (clean_text basic_unicode [1099])) \<noteq> None \<and>
   detect_ieee basic_unicode default_detector (Str [1099]) =
     Inr \<lparr> ieee_language = ''russian'', ieee_confidence = Finite 0.95 \<rparr> \<and>
   \<not> no_content basic_unicode (Str [1085, 1072]) \<and>
   fast_path (count_unique_letters default_detector (clean_text basic_unicode [1085, 1072])) = None \<and>
   detect_ieee basic_unicode default_detector (Str [1085, 1072]) =
     Inr \<lparr> ieee_language = ''unknown'', ieee_confidence = Finite (1 / 2) \<rparr> \<and>
   (\<exists>m. collect_metrics basic_unicode default_detector (clean_text basic_unicode [1085, 1072])
          (str_split (clean_text basic_unicode [1085, 1072])) = Inr m \<and>
        scores_of_metrics default_detector m = [(''russian'', Finite 1), (''ukrainian'', Finite 1)] \<and>
        sum_values_ieee (scores_of_metrics default_detector m) = Finite 2 \<and>
        max_by_value_ieee (scores_of_metrics default_detector m) = Inr (''russian'', Finite 1) \<and>
        fquot (Finite 1) (Finite 2) = Finite (1 / 2))"
proof -
  have nc: "no_content basic_unicode (Str [33, 33])"
    by (simp add: no_content_def clean_bangs)
  have d0: "detect_ieee basic_unicode default_detector (Str [33, 33]) =
      Inr \<lparr> ieee_language = ''unknown'', ieee_confidence = Finite 0 \<rparr>"
    using detect_ieee_no_content [OF nc] by (simp add: ieee_unknown_def)
  have ny: "\<not> no_content basic_unicode (Str [1099])"
    by (simp add: no_content_def clean_y split_y is_space_def)
  have fy: "fast_path (count_unique_letters default_detector (clean_text basic_unicode [1099])) \<noteq> None"
    by (simp only: clean_y fast_path_y) simp
  have fna: "fast_path (count_unique_letters default_detector (clean_text basic_unicode [1085, 1072])) = None"
    by (simp only: clean_na fast_path_na)
  have m: "collect_metrics basic_unicode default_detector (clean_text basic_unicode [1085, 1072])
          (str_split (clean_text basic_unicode [1085, 1072])) =
     Inr \<lparr> unique_letters_metric = zero_counts, frequent_letters_metric = zero_counts,
           word_endings_metric = zero_counts, marker_words_metric = zero_counts,
           digrams_metric = [(''russian'', 1), (''ukrainian'', 1)],
           trigrams_metric = zero_counts \<rparr>"
    by (simp only: clean_na split_na metrics_na)
  have mx: "max_by_value_ieee [(''russian'', Finite 1), (''ukrainian'', Finite 1)] =
      Inr (''russian'', Finite 1)"
    by (simp add: fgt_def)
  have q: "fquot (Finite 1) (Finite 2) = Finite (1 / 2)"
    by (simp add: to_float_small)
  have ex: "\<exists>m. collect_metrics basic_unicode default_detector (clean_text basic_unicode [1085, 1072])
          (str_split (clean_text basic_unicode [1085, 1072])) = Inr m \<and>
        scores_of_metrics default_detector m = [(''russian'', Finite 1), (''ukrainian'', Finite 1)] \<and>
        sum_values_ieee (scores_of_metrics default_detector m) = Finite 2 \<and>
        max_by_value_ieee (scores_of_metrics default_detector m) = Inr (''russian'', Finite 1) \<and>
        fquot (Finite 1) (Finite 2) = Finite (1 / 2)"
    using m scores_ieee_na sum_ieee_na mx q by (intro exI [of _ "\<lparr> unique_letters_metric = zero_counts, frequent_letters_metric = zero_counts,
           word_endings_metric = zero_counts, marker_words_metric = zero_counts,
           digrams_metric = [(''russian'', 1), (''ukrainian'', 1)],
           trigrams_metric = zero_counts \<rparr>"] conjI) (simp_all only:)
  note facts = nonneg_default_detector nc d0 ny fy detect_ieee_y not_no_content_na fna
    detect_ieee_na ex
  from confidence_values [OF nonneg_default_detector d0, of "[33, 33]"]
    confidence_values [OF nonneg_default_detector detect_ieee_y, of "[1099]"]
    confidence_values [OF nonneg_default_detector detect_ieee_na, of "[1085, 1072]"]
  show ?thesis
    by - (intro conjI facts)
qed

text \<open>
  Claim C4 as stated fails: with the finite non-negative weight \<open>2.0 ** 1023\<close> two
  occurrences of a digram give an infinite score, and the confidence is \<open>inf / inf\<close>, nan,
  which lies in no interval.
\<close>


theorem confidence_nan_counterexample:
  "nonneg_weights heavy_detector \<and>
   detect_ieee basic_unicode heavy_detector (Str [1085, 1072, 1085, 1072]) =
     Inr \<lparr> ieee_language = ''heavy'', ieee_confidence = NaN \<rparr> \<and>
   \<not> (\<exists>r c. detect_ieee basic_unicode heavy_detector (Str [1085, 1072, 1085, 1072]) = Inr r \<and>
          ieee_confidence r = Finite c \<and> 0 \<le> c \<and> c \<le> 1)"
  using nonneg_heavy_detector by (simp add: detect_ieee_nana)




section \<open>analyze\<close>

text \<open>
  Claim C8. On a text with a token on which the fast path does not fire, \<open>analyze\<close>
  reports the language and confidence that \<open>detect\<close> returns (and raises when \<open>detect\<close>
  raises). Whatever the input, a report of \<open>analyze\<close> carries the outcome of full scoring
  on the scores of the six extractors: \<open>analyze\<close> has no fast path.
\<close>

theorem analyze_agrees_with_detect:
  "(t \<noteq> [] \<and> str_split (clean_text U t) \<noteq> [] \<and>
    fast_path (count_unique_letters d (clean_text U t)) = None \<longrightarrow>
      map_sum id verdict_of (analyze U d (Str t)) = map_sum id Some (detect U d (Str t))) \<and>
   (analyze U d inp = Inr (Report r) \<longrightarrow>
      (\<exists>t'. inp = Str t' \<and> full_scores U d (clean_text U t') = Inr (scores r)) \<and>
      \<lparr> language = language r, confidence = confidence r \<rparr>
        = full_scoring_outcome (min_confidence d) (scores r))"
proof (intro conjI impI)
  assume a: "t \<noteq> [] \<and> str_split (clean_text U t) \<noteq> [] \<and>
    fast_path (count_unique_letters d (clean_text U t)) = None"
  then have ne: "clean_text U t \<noteq> []" by auto
  from a have "detect U d (Str t) =
     ebind (full_scores U d (clean_text U t)) (\<lambda>sc. Inr (full_scoring_outcome (min_confidence d) sc))"
    by (intro detect_outcome) simp_all
  moreover from a ne have "map_sum id verdict_of (analyze U d (Str t)) =
     ebind (full_scores U d (clean_text U t))
       (\<lambda>sc. Inr (Some (full_scoring_outcome (min_confidence d) sc)))"
    by (intro analyze_verdict) simp_all
  ultimately show "map_sum id verdict_of (analyze U d (Str t)) = map_sum id Some (detect U d (Str t))"
    by (cases "full_scores U d (clean_text U t)") simp_all
next
  assume "analyze U d inp = Inr (Report r)"
  from analyze_ReportD [OF this]
  show "\<exists>t'. inp = Str t' \<and> full_scores U d (clean_text U t') = Inr (scores r)" by blast
next
  assume "analyze U d inp = Inr (Report r)"
  from analyze_ReportD [OF this]
  show "\<lparr> language = language r, confidence = confidence r \<rparr>
        = full_scoring_outcome (min_confidence d) (scores r)" by blast
qed

theorem analyze_agrees_with_detect_witness:
  "fast_path (count_unique_letters default_detector (clean_text basic_unicode [1085, 1072])) = None \<and>
   map_sum id verdict_of (analyze basic_unicode default_detector (Str [1085, 1072])) =
     Inr (Some \<lparr> language = ''unknown'', confidence = 0.5 \<rparr>) \<and>
   detect basic_unicode default_detector (Str [1085, 1072]) =
     Inr \<lparr> language = ''unknown'', confidence = 0.5 \<rparr> \<and>
   analyze basic_unicode default_detector (Str [1099]) = Inr (Report report_y) \<and>
   full_scoring_outcome (min_confidence default_detector) (scores report_y) =
     \<lparr> language = ''russian'', confidence = 1 \<rparr> \<and>
   detect basic_unicode default_detector (Str [1099]) =
     Inr \<lparr> language = ''russian'', confidence = 0.95 \<rparr>"
proof -
  have h1: "[1085::nat, 1072] \<noteq> []" by simp
  have h2: "str_split (clean_text basic_unicode [1085, 1072]) \<noteq> []"
    by (simp only: clean_na split_na) simp
  have h3: "fast_path (count_unique_letters default_detector (clean_text basic_unicode [1085, 1072])) = None"
    by (simp only: clean_na fast_path_na)
  have dy: "detect basic_unicode default_detector (Str [1099]) =
     Inr \<lparr> language = ''russian'', confidence = 0.95 \<rparr>"
    by (simp add: detect_def clean_y is_space_def unique_y fast_path_def fast_path_condition_def)
  from analyze_agrees_with_detect [of "[1085, 1072]" basic_unicode default_detector "Str [1099]" report_y]
    h1 h2 h3 analyze_y detect_na dy
  show ?thesis by (simp add: report_y_def)
qed

lemma sorted_scores_descending: "sorted_wrt (\<lambda>a b. snd a \<ge> snd b) (sorted_scores sc)"
proof -
  have "sorted (map (\<lambda>x. - snd x) (sorted_scores sc))"
    unfolding sorted_scores_def by (rule sorted_sort_key)
  then show ?thesis by (simp add: sorted_wrt_map)
qed

lemma top3_properties:
  "sorted_wrt (\<lambda>a b. score a \<ge> score b) (top3 sc tot) \<and>
   list_all (\<lambda>e. score e > 0) (top3 sc tot) \<and>
   length (top3 sc tot) \<le> 3"
proof -
  let ?xs = "filter (\<lambda>(lang, s). s > 0) (take 3 (sorted_scores sc))"
  have "sorted_wrt (\<lambda>a b. snd a \<ge> snd b) (take 3 (sorted_scores sc))"
    using sorted_scores_descending by (rule sorted_wrt_take)
  then have "sorted_wrt (\<lambda>a b. snd a \<ge> snd b) ?xs"
    by (rule sorted_wrt_filter)
  then have 1: "sorted_wrt (\<lambda>a b. score a \<ge> score b) (top3 sc tot)"
    by (simp add: top3_def sorted_wrt_map case_prod_beta)
  have 2: "list_all (\<lambda>e. score e > 0) (top3 sc tot)"
    by (auto simp: top3_def list_all_iff)
  have "length ?xs \<le> length (take 3 (sorted_scores sc))" by (rule length_filter_le)
  then have 3: "length (top3 sc tot) \<le> 3" by (simp add: top3_def)
  from 1 2 3 show ?thesis by blast
qed

section \<open>The top languages of analyze\<close>




section \<open>Digram and trigram counts\<close>

text \<open>
  Claim C5, as amended. Whenever the digram (trigram) extractor returns, the count it
  gives a language with a loaded profile (0 when the language has no entry) is the sum,
  over the patterns of the profile's digrams (trigrams) list, of \<open>str.count\<close> of the
  pattern in the lowercased cleaned text; it returns whenever every profile belongs to a
  requested language. For a non-empty pattern \<open>str.count\<close> counts the occurrences met
  scanning from the left and resuming behind each match: it is 0 exactly when the pattern
  does not occur, the first occurrence counts 1 and the count goes on with the text behind
  it, so occurrences that overlap a counted one are skipped; hence it never exceeds the
  number of positions at which the pattern occurs, and the counted occurrences fit side by
  side into the text.
\<close>

theorem ngram_counts_nonoverlapping:
  "(distinct (map fst (language_data d)) \<and> (lang, profile) \<in> set (language_data d) \<longrightarrow>
      (check_ngrams U d t 2 = Inr dg \<longrightarrow>
         dict_get dg lang 0 = sum_list (map (str_count (str_lower U t)) (digrams profile))) \<and>
      (check_ngrams U d t 3 = Inr tg \<longrightarrow>
         dict_get tg lang 0 = sum_list (map (str_count (str_lower U t)) (trigrams profile)))) \<and>
   (set (map fst (language_data d)) \<subseteq> set (languages d) \<longrightarrow>
      (\<exists>dg' tg'. check_ngrams U d t 2 = Inr dg' \<and> check_ngrams U d t 3 = Inr tg')) \<and>
   (sub \<noteq> [] \<longrightarrow>
      (str_count x sub = 0 \<longleftrightarrow> count_overlapping x sub = 0) \<and>
      (count_overlapping (pre @ butlast sub) sub = 0 \<longrightarrow>
         str_count (pre @ sub @ rest) sub = Suc (str_count rest sub)) \<and>
      str_count x sub \<le> count_overlapping x sub \<and>
      str_count x sub * length sub \<le> length x)"
proof (intro conjI impI)
  assume "distinct (map fst (language_data d)) \<and> (lang, profile) \<in> set (language_data d)"
    and "check_ngrams U d t 2 = Inr dg"
  then show "dict_get dg lang 0 = sum_list (map (str_count (str_lower U t)) (digrams profile))"
    using check_ngrams_returned(1) by blast
next
  assume "distinct (map fst (language_data d)) \<and> (lang, profile) \<in> set (language_data d)"
    and "check_ngrams U d t 3 = Inr tg"
  then show "dict_get tg lang 0 = sum_list (map (str_count (str_lower U t)) (trigrams profile))"
    using check_ngrams_returned(2) by blast
next
  assume sub: "set (map fst (language_data d)) \<subseteq> set (languages d)"
  from check_ngrams_keys [OF sub, of U t 2] check_ngrams_keys [OF sub, of U t 3]
  show "\<exists>dg' tg'. check_ngrams U d t 2 = Inr dg' \<and> check_ngrams U d t 3 = Inr tg'"
    by blast
next
  assume "sub \<noteq> []"
  then show "str_count x sub = 0 \<longleftrightarrow> count_overlapping x sub = 0"
    by (rule str_count_zero_iff)
next
  assume "sub \<noteq> []" and "count_overlapping (pre @ butlast sub) sub = 0"
  then show "str_count (pre @ sub @ rest) sub = Suc (str_count rest sub)"
    by (rule str_count_first_occurrence)
next
  show "str_count x sub \<le> count_overlapping x sub" by (rule str_count_le_overlapping)
next
  assume "sub \<noteq> []"
  then show "str_count x sub * length sub \<le> length x" by (rule str_count_disjoint)
qed

theorem ngram_counts_nonoverlapping_witness:
  "distinct (map fst (language_data default_detector)) \<and>
   (''russian'', LanguageData_init ''russian'' russian_data) \<in> set (language_data default_detector) \<and>
   set (map fst (language_data default_detector)) \<subseteq> set (languages default_detector) \<and>
   check_ngrams basic_unicode default_detector [1085, 1085, 1085, 1085] 2 =
     Inr [(''russian'', 2), (''ukrainian'', 4)] \<and>
   sum_list (map (str_count (str_lower basic_unicode [1085, 1085, 1085, 1085]))
     (digrams (LanguageData_init ''russian'' russian_data))) = 2 \<and>
   count_overlapping ([] @ butlast [1085, 1085]) [1085::nat, 1085] = 0 \<and>
   str_count [1085, 1085] [1085::nat, 1085] = 1 \<and>
   str_count ([] @ [1085, 1085] @ [1085, 1085]) [1085::nat, 1085] = 2 \<and>
   count_overlapping [1085, 1085, 1085, 1085] [1085::nat, 1085] = 3"
proof -
  have dist: "distinct (map fst (language_data default_detector))"
    and mem: "(''russian'', LanguageData_init ''russian'' russian_data) \<in> set (language_data default_detector)"
    and sub: "set (map fst (language_data default_detector)) \<subseteq> set (languages default_detector)"
    by (simp_all add: default_detector_fields)
  have ne: "[1085::nat, 1085] \<noteq> []" by simp
  have no: "count_overlapping ([] @ butlast [1085, 1085]) [1085::nat, 1085] = 0"
    by (simp add: count_overlapping_def)
  have one: "str_count [1085, 1085] [1085::nat, 1085] = 1"
    by (simp add: str_count_def)
  have three: "count_overlapping [1085, 1085, 1085, 1085] [1085::nat, 1085] = 3"
    by (simp add: count_overlapping_def)
  note inst = ngram_counts_nonoverlapping [of default_detector "''russian''"
      "LanguageData_init ''russian'' russian_data" basic_unicode "[1085, 1085, 1085, 1085]"
      "[(''russian'', 2), (''ukrainian'', 4)]" "[]" "[1085::nat, 1085]" "[1085::nat, 1085, 1085, 1085]"
      "[]" "[1085::nat, 1085]"]
  from inst [THEN conjunct1] dist mem digrams_nnnn
  have "dict_get [(''russian'', 2), (''ukrainian'', 4)] ''russian'' 0 =
      sum_list (map (str_count (str_lower basic_unicode [1085, 1085, 1085, 1085]))
        (digrams (LanguageData_init ''russian'' russian_data)))"
    by blast
  then have s: "sum_list (map (str_count (str_lower basic_unicode [1085, 1085, 1085, 1085]))
     (digrams (LanguageData_init ''russian'' russian_data))) = 2"
    by (simp add: dict_get_def)
  from inst [THEN conjunct2, THEN conjunct2] ne no
  have "str_count ([] @ [1085, 1085] @ [1085, 1085]) [1085::nat, 1085] =
      Suc (str_count [1085, 1085] [1085::nat, 1085])"
    by blast
  with one have two: "str_count ([] @ [1085, 1085] @ [1085, 1085]) [1085::nat, 1085] = 2"
    by simp
  from dist mem sub digrams_nnnn s no one two three show ?thesis by blast
qed

text \<open>
  Claim C5 as stated fails: in the text of three letters U+043D the digram of two such
  letters occurs at two positions, and the extractor counts it once.
\<close>

theorem ngram_overlap_counterexample:
  "check_ngrams basic_unicode default_detector [1085, 1085, 1085] 2 =
     Inr [(''russian'', 1), (''ukrainian'', 2)] \<and>
   sum_list (map (count_overlapping (str_lower basic_unicode [1085, 1085, 1085]))
     (digrams (LanguageData_init ''russian'' russian_data))) = 2 \<and>
   count_overlapping [1085, 1085, 1085] [1085::nat, 1085] = 2 \<and>
   str_count [1085, 1085, 1085] [1085::nat, 1085] = 1"
  by (simp add: digrams_nnn lower_nnn builtin_profile_fields overlapping_nnn
      count_overlapping_def str_count_def)

section \<open>The two-language module\<close>

text \<open>
  Claim C9, as amended. On every text and token list, the two-language module of
  \<open>LangLib.py\<close> computes the same unique-letter, word-ending, marker-word and digram
  counts as the profile-driven detector with the built-in Russian and Ukrainian profiles,
  and the same Ukrainian frequent-letter count; its Russian frequent-letter count lacks
  the occurrences of the letter U+0451, which only the built-in profile lists. The two
  return the same language and confidence on a text with a token when the fast path does
  not fire, the cleaned text has no letter U+0451 and no trigram of either profile, and
  the two-language module answers \<open>unknown\<close> or with a confidence of at least 0.6.
\<close>

theorem two_language_agreement:
  "count_unique_letters default_detector t =
     [(''russian'', fst (LangLib_count_unique_letters t)),
      (''ukrainian'', snd (LangLib_count_unique_letters t))] \<and>
   count_frequent_letters default_detector t =
     [(''russian'', fst (LangLib_count_frequent_letters t) + count_in {[1105]} t),
      (''ukrainian'', snd (LangLib_count_frequent_letters t))] \<and>
   check_word_endings default_detector ws =
     Inr [(''russian'', fst (LangLib_check_word_endings ws)),
          (''ukrainian'', snd (LangLib_check_word_endings ws))] \<and>
   check_marker_words U default_detector ws =
     Inr [(''russian'', fst (LangLib_check_marker_words U ws)),
          (''ukrainian'', snd (LangLib_check_marker_words U ws))] \<and>
   check_ngrams U default_detector t 2 =
     Inr [(''russian'', fst (LangLib_check_digrams U t)),
          (''ukrainian'', snd (LangLib_check_digrams U t))] \<and>
   (\<exists>L. LangLib_get_confidence U (Str x) = Inr L \<and>
     (x \<noteq> [] \<and> str_split (clean_text U x) \<noteq> [] \<and>
      fast_path (count_unique_letters default_detector (clean_text U x)) = None \<and>
      count_in {[1105]} (clean_text U x) = 0 \<and>
      check_ngrams U default_detector (clean_text U x) 3 = Inr zero_counts \<and>
      (language L = ''unknown'' \<or> 0.6 \<le> confidence L) \<longrightarrow>
      detect U default_detector (Str x) =
        Inr \<lparr> language = language L, confidence = confidence L \<rparr>))"
proof -
  obtain L where L: "LangLib_get_confidence U (Str x) = Inr L"
    using LangLib_get_confidence_returns by blast
  have "x \<noteq> [] \<and> str_split (clean_text U x) \<noteq> [] \<and>
      fast_path (count_unique_letters default_detector (clean_text U x)) = None \<and>
      count_in {[1105]} (clean_text U x) = 0 \<and>
      check_ngrams U default_detector (clean_text U x) 3 = Inr zero_counts \<and>
      (language L = ''unknown'' \<or> 0.6 \<le> confidence L) \<longrightarrow>
      detect U default_detector (Str x) =
        Inr \<lparr> language = language L, confidence = confidence L \<rparr>"
    using two_results_agree [of x U L] L by blast
  with L show ?thesis
    by (simp only: two_unique two_frequent two_endings two_markers two_digrams) blast
qed

theorem two_language_agreement_witness:
  "fast_path (count_unique_letters default_detector
     (clean_text basic_unicode [1085, 1077, 1090])) = None \<and>
   count_in {[1105]} (clean_text basic_unicode [1085, 1077, 1090]) = 0 \<and>
   check_ngrams basic_unicode default_detector (clean_text basic_unicode [1085, 1077, 1090]) 3 =
     Inr zero_counts \<and>
   map_sum id result.truncate (LangLib_get_confidence basic_unicode (Str [1085, 1077, 1090])) =
     Inr \<lparr> language = ''russian'', confidence = 11 / 13 \<rparr> \<and>
   detect basic_unicode default_detector (Str [1085, 1077, 1090]) =
     Inr \<lparr> language = ''russian'', confidence = 11 / 13 \<rparr>"
proof -
  have h1: "[1085::nat, 1077, 1090] \<noteq> []" by simp
  have h2: "str_split (clean_text basic_unicode [1085, 1077, 1090]) \<noteq> []"
    by (simp only: clean_net split_net) simp
  have h3: "fast_path (count_unique_letters default_detector
     (clean_text basic_unicode [1085, 1077, 1090])) = None"
    by (simp add: clean_net unique_net fast_path_def fast_path_condition_def)
  have h4: "count_in {[1105]} (clean_text basic_unicode [1085, 1077, 1090]) = 0"
    by (simp add: clean_net count_in_def)
  have h5: "check_ngrams basic_unicode default_detector
     (clean_text basic_unicode [1085, 1077, 1090]) 3 = Inr zero_counts"
    by (simp only: clean_net trigrams_net)
  from two_language_agreement [of "[]" "[]" basic_unicode "[1085, 1077, 1090]"]
    h1 h2 h3 h4 h5
  have "detect basic_unicode default_detector (Str [1085, 1077, 1090]) =
      Inr \<lparr> language = ''russian'', confidence = 11 / 13 \<rparr>"
    by (simp add: LangLib_net)
  with h3 h4 h5 show ?thesis by (simp add: LangLib_net result.truncate_def)
qed

text \<open>
  Claim C9 as stated fails: on the single letter U+044B the profile-driven detector takes
  its fast path and reports confidence 0.95, while \<open>get_confidence\<close> of the
  two-language module, which has no fast path, reports confidence 1.
\<close>

theorem two_language_counterexample:
  "detect basic_unicode default_detector (Str [1099]) =
     Inr \<lparr> language = ''russian'', confidence = 0.95 \<rparr> \<and>
   map_sum id result.truncate (LangLib_get_confidence basic_unicode (Str [1099])) =
     Inr \<lparr> language = ''russian'', confidence = 1 \<rparr>"
  by (simp add: LangLib_y detect_def clean_y is_space_def unique_y fast_path_def
      fast_path_condition_def result.truncate_def)

section \<open>The key sets of the extractors\<close>

lemma partial_detector_fields:
  "languages partial_detector = [''russian'', ''german'']"
  "language_data partial_detector = [(''russian'', LanguageData_init ''russian'' russian_data)]"
  by (simp_all add: partial_detector_def LangDetector_init_def load_language_data_def no_files_def
      load_builtin_def BUILTIN_LANGUAGE_DATA_def)

lemma extractor_keys:
  assumes "wf_detector d"
  shows "set (map fst (count_unique_letters d t)) = set (map fst (language_data d))"
    and "set (map fst (count_frequent_letters d t)) = set (map fst (language_data d))"
    and "\<exists>s. check_word_endings d ws = Inr s \<and> set (map fst s) = set (languages d)"
    and "\<exists>s. check_marker_words U d ws = Inr s \<and> set (map fst s) = set (languages d)"
    and "\<exists>s. check_ngrams U d t n = Inr s \<and> set (map fst s) = set (languages d)"
proof -
  from assms have sub: "set (map fst (language_data d)) \<subseteq> set (languages d)"
    by (simp add: wf_detector_def)
  show "set (map fst (count_unique_letters d t)) = set (map fst (language_data d))"
    by (rule keys_count_unique_letters)
  show "set (map fst (count_frequent_letters d t)) = set (map fst (language_data d))"
    by (rule keys_count_frequent_letters)
  show "\<exists>s. check_word_endings d ws = Inr s \<and> set (map fst s) = set (languages d)"
    using check_word_endings_keys [OF sub, of ws] keys_dict_from_keys [of "languages d" "0::nat"]
    by metis
  show "\<exists>s. check_marker_words U d ws = Inr s \<and> set (map fst s) = set (languages d)"
    using check_marker_words_keys [OF sub, of U ws] keys_dict_from_keys [of "languages d" "0::nat"]
    by metis
  show "\<exists>s. check_ngrams U d t n = Inr s \<and> set (map fst s) = set (languages d)"
    using check_ngrams_keys [OF sub, of U t n] keys_dict_from_keys [of "languages d" "0::nat"]
    by metis
qed

text \<open>
  Claim C6 fails on the code. With \<open>languages=['russian', 'german']\<close> and no profile for
  the second language, the unique-letter and frequent-letter extractors return a mapping
  without the key \<open>german\<close>, while the word-ending, marker-word, digram and trigram
  extractors return 0 for it.
\<close>

theorem letter_counts_miss_language:
  "languages partial_detector = [''russian'', ''german''] \<and>
   count_unique_letters partial_detector [1099] = [(''russian'', 1)] \<and>
   count_frequent_letters partial_detector [1099] = [(''russian'', 1)] \<and>
   check_word_endings partial_detector [[1099]] = Inr [(''russian'', 0), (''german'', 0)] \<and>
   check_marker_words basic_unicode partial_detector [[1099]] = Inr [(''russian'', 0), (''german'', 0)] \<and>
   check_ngrams basic_unicode partial_detector [1099] 2 = Inr [(''russian'', 0), (''german'', 0)] \<and>
   check_ngrams basic_unicode partial_detector [1099] 3 = Inr [(''russian'', 0), (''german'', 0)]"
  by (simp add: partial_detector_fields count_unique_letters_def count_frequent_letters_def
      builtin_unique_letters builtin_profile_fields russian_frequent_letters_def count_in_def
      check_word_endings_def check_marker_words_def check_ngrams_def dict_from_keys_def lower_y
      russian_marker_words_def russian_digrams_def russian_trigrams_def dict_add_def str_count_def)

end
